theory Spec2Isabelle
  imports Complex_Main
begin

section \<open>Python values used by the payroll routes\<close>

text \<open>
  The routes of \<^verbatim>\<open>app/api/routes/payroll.py\<close> and \<^verbatim>\<open>app/api/routes/payroll2.py\<close>
  are embedded as HOL functions. Strings are byte strings (the ASCII part of Python's
  \<^verbatim>\<open>str\<close>); Python's unbounded \<^verbatim>\<open>int\<close> is \<^typ>\<open>int\<close>; a \<^verbatim>\<open>float\<close> is
  modelled by a \<^typ>\<open>real\<close>, so rounding, infinities and NaN are outside the model;
  a nullable column is an \<^typ>\<open>'a option\<close>.
\<close>

subsection \<open>Errors\<close>

text \<open>
  A route either raises \<^verbatim>\<open>HTTPException(status_code=400, detail=...)\<close> on purpose, or
  lets a Python exception escape (the framework then answers 500).
\<close>

datatype pyexn = ValueError | OverflowError

datatype error = HTTPException nat string | Uncaught pyexn

subsection \<open>Strings: \<^verbatim>\<open>strip\<close>, \<^verbatim>\<open>lower\<close>, \<^verbatim>\<open>split\<close>, \<^verbatim>\<open>int\<close>, \<^verbatim>\<open>str\<close>\<close>

definition py_isspace :: "char \<Rightarrow> bool" where
  "py_isspace c \<longleftrightarrow>
     c \<in> set [CHR '' '', CHR 0x09, CHR 0x0A, CHR 0x0B, CHR 0x0C, CHR 0x0D,
               CHR 0x1C, CHR 0x1D, CHR 0x1E, CHR 0x1F]"

definition py_strip :: "string \<Rightarrow> string" where
  "py_strip s = rev (dropWhile py_isspace (rev (dropWhile py_isspace s)))"

definition lower_char :: "char \<Rightarrow> char" where
  "lower_char c =
     (case map_of (zip ''ABCDEFGHIJKLMNOPQRSTUVWXYZ'' ''abcdefghijklmnopqrstuvwxyz'') c of
        Some l \<Rightarrow> l | None \<Rightarrow> c)"

definition py_lower :: "string \<Rightarrow> string" where
  "py_lower s = map lower_char s"

text \<open>\<^verbatim>\<open>s.split("-")\<close>: the pieces between the separators, always at least one.\<close>

fun py_split :: "char \<Rightarrow> string \<Rightarrow> string list" where
  "py_split sep [] = [[]]"
| "py_split sep (c # cs) =
     (if c = sep then [] # py_split sep cs
      else (case py_split sep cs of
              [] \<Rightarrow> [[c]]
            | w # ws \<Rightarrow> (c # w) # ws))"

definition digit_val :: "char \<Rightarrow> int option" where
  "digit_val c = map_of (zip ''0123456789'' [0, 1, 2, 3, 4, 5, 6, 7, 8, 9]) c"

text \<open>
  The digits of a decimal literal as \<^verbatim>\<open>int()\<close> reads them: at least one digit, and
  a single underscore allowed between two digits. \<open>prev\<close> tells whether the character
  before was a digit.
\<close>

fun int_digits :: "bool \<Rightarrow> int \<Rightarrow> string \<Rightarrow> int option" where
  "int_digits prev acc [] = (if prev then Some acc else None)"
| "int_digits prev acc (c # cs) =
     (if c = CHR ''_'' then
        (if prev \<and> cs \<noteq> [] then int_digits False acc cs else None)
      else (case digit_val c of
              None \<Rightarrow> None
            | Some d \<Rightarrow> int_digits True (10 * acc + d) cs))"

text \<open>
  \<^verbatim>\<open>int(s)\<close> on a string; \<open>None\<close> stands for the \<^verbatim>\<open>ValueError\<close>. On an ASCII
  string the parser skips, on both sides, only the six characters of C's
  \<^verbatim>\<open>isspace\<close> (blank, \<^verbatim>\<open>\t \n \v \f \r\<close>), which are fewer than \<^verbatim>\<open>str.strip\<close>
  removes; then it reads an optional sign and the digits. A literal of more than 4300
  digits is refused (the default \<^verbatim>\<open>sys.int_max_str_digits\<close>).
\<close>

definition int_isspace :: "char \<Rightarrow> bool" where
  "int_isspace c \<longleftrightarrow>
     c \<in> set [CHR '' '', CHR 0x09, CHR 0x0A, CHR 0x0B, CHR 0x0C, CHR 0x0D]"

definition int_strip :: "string \<Rightarrow> string" where
  "int_strip s = rev (dropWhile int_isspace (rev (dropWhile int_isspace s)))"

definition too_many_digits :: "string \<Rightarrow> bool" where
  "too_many_digits ds \<longleftrightarrow> int (length (filter (\<lambda>c. c \<noteq> CHR ''_'') ds)) > 4300"

definition py_int :: "string \<Rightarrow> int option" where
  "py_int s =
     (case int_strip s of
        [] \<Rightarrow> None
      | c # cs \<Rightarrow>
          if c = CHR ''-'' then
            (if too_many_digits cs then None
             else map_option uminus (int_digits False 0 cs))
          else if c = CHR ''+'' then
            (if too_many_digits cs then None else int_digits False 0 cs)
          else
            (if too_many_digits (c # cs) then None else int_digits False 0 (c # cs)))"

definition digit_char :: "int \<Rightarrow> char" where
  "digit_char n = ''0123456789'' ! nat (n mod 10)"

text \<open>The decimal digits of a non-negative integer.\<close>

function str_digits :: "int \<Rightarrow> string" where
  "str_digits n = (if n < 10 then [digit_char n] else str_digits (n div 10) @ [digit_char n])"
  by pat_completeness auto
termination
  by (relation "measure nat") auto

text \<open>\<^verbatim>\<open>str(i)\<close> for an integer.\<close>

definition py_str :: "int \<Rightarrow> string" where
  "py_str i = (if i < 0 then CHR ''-'' # str_digits (- i) else str_digits i)"

text \<open>\<^verbatim>\<open>f"{i:0{w}d}"\<close> for a non-negative \<open>i\<close>: zero padding on the left up to width \<open>w\<close>.\<close>

definition zero_pad :: "nat \<Rightarrow> int \<Rightarrow> string" where
  "zero_pad w i = (let s = py_str i in replicate (w - length s) (CHR ''0'') @ s)"

text \<open>\<^verbatim>\<open>a or b\<close> on optional strings: \<^verbatim>\<open>None\<close> and \<^verbatim>\<open>""\<close> are falsy.\<close>

definition str_truthy :: "string option \<Rightarrow> bool" where
  "str_truthy v \<longleftrightarrow> (case v of None \<Rightarrow> False | Some s \<Rightarrow> s \<noteq> [])"

definition or_str :: "string option \<Rightarrow> string \<Rightarrow> string" where
  "or_str v d = (case v of None \<Rightarrow> d | Some s \<Rightarrow> if s = [] then d else s)"

subsection \<open>Dates\<close>

text \<open>
  A \<^verbatim>\<open>datetime.date\<close> is determined by its proleptic Gregorian ordinal
  (\<^verbatim>\<open>date.toordinal()\<close>, 1 for 0001-01-01), and the library defines the arithmetic the
  routes use on that ordinal: \<^verbatim>\<open>d + timedelta(days=n)\<close> is
  \<^verbatim>\<open>fromordinal(d.toordinal() + n)\<close>, \<^verbatim>\<open>(e - d).days\<close> is the difference of the
  ordinals, and the order of dates is the order of their ordinals. A date is therefore
  modelled by its ordinal; \<open>ymd2ord\<close> and \<open>ord2ymd\<close> are the library's conversions.
\<close>

datatype date = Date (toordinal: int)

definition MINYEAR :: int where "MINYEAR = 1"
definition MAXYEAR :: int where "MAXYEAR = 9999"
definition MAXORDINAL :: int where "MAXORDINAL = 3652059"

definition isleap :: "int \<Rightarrow> bool" where
  "isleap year \<longleftrightarrow> year mod 4 = 0 \<and> (year mod 100 \<noteq> 0 \<or> year mod 400 = 0)"

definition mdays :: "int \<Rightarrow> int" where
  "mdays month =
     (if month = 2 then 28
      else if month = 4 \<or> month = 6 \<or> month = 9 \<or> month = 11 then 30
      else 31)"

text \<open>\<^verbatim>\<open>calendar.monthrange(year, month)[1]\<close>, for a month in 1..12 (the only calls made).\<close>

definition monthrange_days :: "int \<Rightarrow> int \<Rightarrow> int" where
  "monthrange_days year month = mdays month + (if month = 2 \<and> isleap year then 1 else 0)"

definition days_before_year :: "int \<Rightarrow> int" where
  "days_before_year year =
     (let y = year - 1 in y * 365 + y div 4 - y div 100 + y div 400)"

definition days_before_month :: "int \<Rightarrow> int \<Rightarrow> int" where
  "days_before_month year month =
     sum_list (map (\<lambda>k. mdays (int k)) [1..<nat month])
     + (if month > 2 \<and> isleap year then 1 else 0)"

definition ymd2ord :: "int \<Rightarrow> int \<Rightarrow> int \<Rightarrow> int" where
  "ymd2ord year month day = days_before_year year + days_before_month year month + day"

text \<open>
  \<^verbatim>\<open>date(year, month, day)\<close>. The C constructor takes C ints (\<^verbatim>\<open>OverflowError\<close>
  beyond them) and raises \<^verbatim>\<open>ValueError\<close> for a year outside 1..9999, a month outside
  1..12 or a day the month does not have.
\<close>

definition fits_c_int :: "int \<Rightarrow> bool" where
  "fits_c_int i \<longleftrightarrow> - 2147483648 \<le> i \<and> i \<le> 2147483647"

definition py_date :: "int \<Rightarrow> int \<Rightarrow> int \<Rightarrow> pyexn + date" where
  "py_date year month day =
     (if \<not> (fits_c_int year \<and> fits_c_int month \<and> fits_c_int day) then Inl OverflowError
      else if MINYEAR \<le> year \<and> year \<le> MAXYEAR \<and> 1 \<le> month \<and> month \<le> 12
              \<and> 1 \<le> day \<and> day \<le> monthrange_days year month
      then Inr (Date (ymd2ord year month day))
      else Inl ValueError)"

text \<open>The library's \<^verbatim>\<open>_ord2ymd\<close>, which gives a date its \<^verbatim>\<open>year\<close> and \<^verbatim>\<open>month\<close>.\<close>

definition ord2ymd :: "int \<Rightarrow> int \<times> int \<times> int" where
  "ord2ymd n0 =
     (let n = n0 - 1;
          n400 = n div 146097; n = n mod 146097;
          n100 = n div 36524; n = n mod 36524;
          n4 = n div 1461; n = n mod 1461;
          n1 = n div 365; n = n mod 365;
          year = n400 * 400 + 1 + n100 * 100 + n4 * 4 + n1
      in if n1 = 4 \<or> n100 = 4 then (year - 1, 12, 31)
         else
           (let leapyear = (n1 = 3 \<and> (n4 \<noteq> 24 \<or> n100 = 3));
                month = (n + 50) div 32;
                preceding = sum_list (map (\<lambda>k. mdays (int k)) [1..<nat month])
                            + (if month > 2 \<and> leapyear then 1 else 0)
            in if preceding > n
               then (let month' = month - 1;
                         preceding' = preceding
                           - (mdays month' + (if month' = 2 \<and> leapyear then 1 else 0))
                     in (year, month', n - preceding' + 1))
               else (year, month, n - preceding + 1)))"

definition date_year :: "date \<Rightarrow> int" where
  "date_year d = fst (ord2ymd (toordinal d))"

definition date_month :: "date \<Rightarrow> int" where
  "date_month d = fst (snd (ord2ymd (toordinal d)))"

definition date_le :: "date \<Rightarrow> date \<Rightarrow> bool" where
  "date_le a b \<longleftrightarrow> toordinal a \<le> toordinal b"

text \<open>\<^verbatim>\<open>d + timedelta(days=1)\<close>, with the library's range check.\<close>

definition add_one_day :: "date \<Rightarrow> pyexn + date" where
  "add_one_day d =
     (let o' = toordinal d + 1
      in if 0 < o' \<and> o' \<le> MAXORDINAL then Inr (Date o') else Inl OverflowError)"

text \<open>
  A \<^verbatim>\<open>datetime\<close>: the date and the microseconds since midnight.
  \<^verbatim>\<open>datetime.combine(end, time.max)\<close> is the last microsecond of the day.
\<close>

type_synonym datetime = "date \<times> nat"

definition time_max :: nat where "time_max = 86399999999"

definition datetime_le :: "datetime \<Rightarrow> datetime \<Rightarrow> bool" where
  "datetime_le a b \<longleftrightarrow>
     toordinal (fst a) < toordinal (fst b) \<or> (fst a = fst b \<and> snd a \<le> snd b)"

section \<open>Period resolution\<close>

text \<open>\<^verbatim>\<open>_parse_month\<close> of payroll.py.\<close>

definition month_format_error :: error where
  "month_format_error = HTTPException 400 ''month must be in YYYY-MM format''"

definition parse_month :: "string \<Rightarrow> error + (date \<times> date)" where
  "parse_month month =
     (case py_split (CHR ''-'') month of
        [year_str, month_str] \<Rightarrow>
          (case py_int year_str of
             None \<Rightarrow> Inl month_format_error
           | Some year \<Rightarrow>
               (case py_int month_str of
                  None \<Rightarrow> Inl month_format_error
                | Some mm \<Rightarrow>
                    if mm < 1 \<or> mm > 12 then Inl month_format_error
                    else
                      (let last_day = monthrange_days year mm
                       in case py_date year mm 1 of
                            Inl x \<Rightarrow> Inl (Uncaught x)
                          | Inr start \<Rightarrow>
                              (case py_date year mm last_day of
                                 Inl x \<Rightarrow> Inl (Uncaught x)
                               | Inr end' \<Rightarrow> Inr (start, end')))))
      | _ \<Rightarrow> Inl month_format_error)"

text \<open>\<^verbatim>\<open>_parse_date\<close> (the same in both files): every exception becomes the 400.\<close>

definition parse_date :: "string \<Rightarrow> string \<Rightarrow> error + date" where
  "parse_date d field =
     (let bad = HTTPException 400 (field @ '' must be in YYYY-MM-DD format'')
      in case py_split (CHR ''-'') d of
           [y, m, dd] \<Rightarrow>
             (case (py_int y, py_int m, py_int dd) of
                (Some yi, Some mi, Some di) \<Rightarrow>
                  (case py_date yi mi di of Inl x \<Rightarrow> Inl bad | Inr r \<Rightarrow> Inr r)
              | _ \<Rightarrow> Inl bad)
         | _ \<Rightarrow> Inl bad)"

definition month_label :: "date \<Rightarrow> string" where
  "month_label d = zero_pad 4 (date_year d) @ ''-'' @ zero_pad 2 (date_month d)"

definition days_inclusive :: "date \<Rightarrow> date \<Rightarrow> int" where
  "days_inclusive start end' = (toordinal end' - toordinal start) + 1"

section \<open>The record store\<close>

text \<open>
  The ORM class \<^verbatim>\<open>Employee2\<close> (app/models/employee2.py), with the columns the payroll
  routes read. \<^verbatim>\<open>salary\<close> and \<^verbatim>\<open>serial_no\<close> are text columns.
\<close>

record Employee2 =
  e_id :: int
  e_serial_no :: "string option"
  e_fss_no :: "string option"
  e_name :: "string option"
  e_salary :: "string option"
  e_category :: "string option"
  e_eobi_no :: "string option"
  e_created_at :: "datetime option"

text \<open>
  Modelled from the spec: the ORM classes \<^verbatim>\<open>AttendanceRecord\<close>,
  \<^verbatim>\<open>PayrollSheetEntry\<close>, \<^verbatim>\<open>EmployeeAdvanceDeduction\<close> and
  \<^verbatim>\<open>PayrollPaymentStatus\<close> (app/models/attendance.py and its three neighbours are
  not among the sources). The columns are those the routes read and write, typed as the
  data model of the specification (section 3) types them; every column the routes guard
  with \<^verbatim>\<open>or\<close> or \<^verbatim>\<open>is not None\<close> is nullable.
\<close>

record AttendanceRecord =
  a_employee_id :: "string option"
  a_date :: date
  a_status :: "string option"
  a_leave_type :: "string option"
  a_overtime_minutes :: "int option"
  a_overtime_rate :: "real option"
  a_late_minutes :: "int option"
  a_late_deduction :: "real option"
  a_fine_amount :: "real option"

record PayrollSheetEntry =
  s_employee_db_id :: int
  s_from_date :: date
  s_to_date :: date
  s_pre_days_override :: "int option"
  s_cur_days_override :: "int option"
  s_leave_encashment_days :: "int option"
  s_allow_other :: "real option"
  s_eobi :: "real option"
  s_tax :: "real option"
  s_fine_adv_extra :: "real option"
  s_remarks :: "string option"
  s_bank_cash :: "string option"

record EmployeeAdvanceDeduction =
  d_employee_db_id :: int
  d_month :: string
  d_amount :: "real option"

record PayrollPaymentStatus =
  p_month :: string
  p_employee_id :: string
  p_status :: "string option"
  p_employee_db_id :: "int option"
  p_net_pay_snapshot :: "real option"

text \<open>
  The committed state of the store: one list per table, in the order in which a query
  without \<^verbatim>\<open>order_by\<close> returns the rows; \<^verbatim>\<open>.first()\<close> is the first match.
\<close>

record db =
  employees :: "Employee2 list"
  attendance :: "AttendanceRecord list"
  sheet_entries :: "PayrollSheetEntry list"
  advance_deductions :: "EmployeeAdvanceDeduction list"
  payment_statuses :: "PayrollPaymentStatus list"

text \<open>
  What the routes take from outside the repository: Python's \<^verbatim>\<open>float(s)\<close> on a
  stripped, non-empty string (\<open>None\<close> for its \<^verbatim>\<open>ValueError\<close>), and the store's
  \<^verbatim>\<open>ORDER BY serial_no ASC\<close> on the employees it selected (a text column: the
  collation and the place of NULLs are the store's).
\<close>

record env =
  float_of_str :: "string \<Rightarrow> real option"
  order_by_serial_no :: "Employee2 list \<Rightarrow> Employee2 list"

subsection \<open>Small Python idioms\<close>

text \<open>\<^verbatim>\<open>_to_float\<close> (the same in both files).\<close>

definition to_float :: "env \<Rightarrow> string option \<Rightarrow> real" where
  "to_float env v =
     (case v of
        None \<Rightarrow> 0
      | Some s0 \<Rightarrow>
          (let s = py_strip s0
           in if s = [] then 0
              else (case float_of_str env s of Some x \<Rightarrow> x | None \<Rightarrow> 0)))"

text \<open>\<^verbatim>\<open>float(x or 0.0)\<close> and \<^verbatim>\<open>int(x or 0)\<close> on nullable numbers.\<close>

definition real_or0 :: "real option \<Rightarrow> real" where
  "real_or0 v = (case v of None \<Rightarrow> 0 | Some x \<Rightarrow> x)"

definition int_or0 :: "int option \<Rightarrow> int" where
  "int_or0 v = (case v of None \<Rightarrow> 0 | Some x \<Rightarrow> x)"

text \<open>Truthiness of a nullable number: neither \<^verbatim>\<open>None\<close> nor zero.\<close>

definition int_truthy :: "int option \<Rightarrow> bool" where
  "int_truthy v \<longleftrightarrow> (case v of None \<Rightarrow> False | Some x \<Rightarrow> x \<noteq> 0)"

definition real_truthy :: "real option \<Rightarrow> bool" where
  "real_truthy v \<longleftrightarrow> (case v of None \<Rightarrow> False | Some x \<Rightarrow> x \<noteq> 0)"

text \<open>
  A dict comprehension \<^verbatim>\<open>{key(r): val(r) for r in rows}\<close>: a later row replaces an
  earlier one with the same key.
\<close>

definition dict_of :: "('a \<Rightarrow> 'k) \<Rightarrow> ('a \<Rightarrow> 'v) \<Rightarrow> 'a list \<Rightarrow> ('k \<rightharpoonup> 'v)" where
  "dict_of key val rows = foldl (\<lambda>m r. m(key r \<mapsto> val r)) Map.empty rows"

text \<open>A loop body that may raise, run over a list; the first exception ends it.\<close>

fun map_result :: "('a \<Rightarrow> 'e + 'b) \<Rightarrow> 'a list \<Rightarrow> 'e + 'b list" where
  "map_result f [] = Inr []"
| "map_result f (x # xs) =
     (case f x of
        Inl e \<Rightarrow> Inl e
      | Inr y \<Rightarrow> (case map_result f xs of Inl e \<Rightarrow> Inl e | Inr ys \<Rightarrow> Inr (y # ys)))"

section \<open>Attendance aggregation\<close>

text \<open>
  The local variables of the per-employee loops. The calendar-month report has no
  \<open>unmarked_days\<close> and no \<open>fine_deduction\<close>, and payroll2 has no \<open>unmarked_days\<close>:
  there the field keeps its initial 0 and is not part of the row.
\<close>

record tally =
  present_days :: int
  late_days :: int
  absent_days :: int
  paid_leave_days :: int
  unpaid_leave_days :: int
  unmarked_days :: int
  overtime_minutes :: int
  overtime_pay :: real
  overtime_rate :: real
  late_minutes :: int
  late_deduction :: real
  fine_deduction :: real

definition tally0 :: tally where
  "tally0 = \<lparr>present_days = 0, late_days = 0, absent_days = 0, paid_leave_days = 0,
             unpaid_leave_days = 0, unmarked_days = 0, overtime_minutes = 0,
             overtime_pay = 0, overtime_rate = 0, late_minutes = 0, late_deduction = 0,
             fine_deduction = 0\<rparr>"

text \<open>\<^verbatim>\<open>(a.leave_type or "").lower().strip() == "unpaid"\<close>.\<close>

definition leave_is_unpaid :: "AttendanceRecord \<Rightarrow> bool" where
  "leave_is_unpaid a \<longleftrightarrow> py_strip (py_lower (or_str (a_leave_type a) [])) = ''unpaid''"

text \<open>
  The status chain of the calendar-month report (payroll.py, lines 361-372) and of
  payroll2 (lines 166-188), on \<^verbatim>\<open>st = (a.status or "").lower().strip()\<close>: a status
  that is none of the four counts nowhere.
\<close>

definition status_text :: "AttendanceRecord \<Rightarrow> string" where
  "status_text a = py_strip (py_lower (or_str (a_status a) []))"

definition count_status :: "tally \<Rightarrow> AttendanceRecord \<Rightarrow> tally" where
  "count_status t a =
     (let st = status_text a
      in if st = ''present'' then t\<lparr>present_days := present_days t + 1\<rparr>
         else if st = ''late'' then t\<lparr>late_days := late_days t + 1\<rparr>
         else if st = ''absent'' then t\<lparr>absent_days := absent_days t + 1\<rparr>
         else if st = ''leave'' then
           (if leave_is_unpaid a then t\<lparr>unpaid_leave_days := unpaid_leave_days t + 1\<rparr>
            else t\<lparr>paid_leave_days := paid_leave_days t + 1\<rparr>)
         else t)"

text \<open>
  The status chain of the range report of payroll.py (lines 542-557), run for every day
  of the walk: a day without a record, and a status that is none of the four, count as
  unmarked.
\<close>

definition count_status_or_unmarked :: "tally \<Rightarrow> AttendanceRecord option \<Rightarrow> tally" where
  "count_status_or_unmarked t a =
     (let st = (case a of
                  None \<Rightarrow> ''unmarked''
                | Some r \<Rightarrow> py_strip (py_lower (or_str (a_status r) ''unmarked'')))
      in if st = ''present'' then t\<lparr>present_days := present_days t + 1\<rparr>
         else if st = ''late'' then t\<lparr>late_days := late_days t + 1\<rparr>
         else if st = ''absent'' then t\<lparr>absent_days := absent_days t + 1\<rparr>
         else if st = ''leave'' then
           (if (case a of None \<Rightarrow> False | Some r \<Rightarrow> leave_is_unpaid r)
            then t\<lparr>unpaid_leave_days := unpaid_leave_days t + 1\<rparr>
            else t\<lparr>paid_leave_days := paid_leave_days t + 1\<rparr>)
         else t\<lparr>unmarked_days := unmarked_days t + 1\<rparr>)"

text \<open>
  The overtime and lateness block, which the three loops repeat word for word
  (payroll.py lines 374-384 and 560-570, payroll2.py lines 191-203).
\<close>

definition overtime_late_step :: "tally \<Rightarrow> AttendanceRecord \<Rightarrow> tally" where
  "overtime_late_step t0 a =
     (let t1 = (if int_truthy (a_overtime_minutes a) \<and> real_truthy (a_overtime_rate a)
                then t0\<lparr>overtime_minutes :=
                          overtime_minutes t0 + int_or0 (a_overtime_minutes a),
                        overtime_pay :=
                          overtime_pay t0
                          + (of_int (int_or0 (a_overtime_minutes a)) / 60)
                            * real_or0 (a_overtime_rate a)\<rparr>
                else t0);
          t2 = (if real_truthy (a_overtime_rate a) \<and> real_or0 (a_overtime_rate a) > 0
                then t1\<lparr>overtime_rate := real_or0 (a_overtime_rate a)\<rparr>
                else t1);
          t3 = (if int_truthy (a_late_minutes a)
                then t2\<lparr>late_minutes := late_minutes t2 + int_or0 (a_late_minutes a)\<rparr>
                else t2)
      in if real_truthy (a_late_deduction a)
         then t3\<lparr>late_deduction := late_deduction t3 + real_or0 (a_late_deduction a)\<rparr>
         else t3)"

text \<open>The fine block of the two range loops.\<close>

definition fine_step :: "tally \<Rightarrow> AttendanceRecord \<Rightarrow> tally" where
  "fine_step t a =
     (if real_truthy (a_fine_amount a)
      then t\<lparr>fine_deduction := fine_deduction t + real_or0 (a_fine_amount a)\<rparr>
      else t)"

text \<open>The loop body of the calendar-month report, for one record of the employee.\<close>

definition month_step :: "tally \<Rightarrow> AttendanceRecord \<Rightarrow> tally" where
  "month_step t a = overtime_late_step (count_status t a) a"

text \<open>
  \<^verbatim>\<open>by_emp\<close> of the calendar-month report: the records grouped by their raw
  \<^verbatim>\<open>employee_id\<close>, in query order.
\<close>

definition by_emp :: "AttendanceRecord list \<Rightarrow> (string option \<rightharpoonup> AttendanceRecord list)" where
  "by_emp recs =
     foldl (\<lambda>m rec. m(a_employee_id rec \<mapsto>
                         (case m (a_employee_id rec) of None \<Rightarrow> [] | Some l \<Rightarrow> l) @ [rec]))
       Map.empty recs"

text \<open>
  \<^verbatim>\<open>by_emp_by_date\<close> of the two range reports: per stripped employee identifier, the
  record of each date (a later record of the same day replaces an earlier one).
\<close>

definition by_emp_by_date ::
    "AttendanceRecord list \<Rightarrow> (string \<rightharpoonup> (date \<rightharpoonup> AttendanceRecord))" where
  "by_emp_by_date recs =
     foldl (\<lambda>m rec.
              (let emp_id = py_strip (or_str (a_employee_id rec) [])
               in m(emp_id \<mapsto>
                     (case m emp_id of None \<Rightarrow> Map.empty | Some i \<Rightarrow> i)(a_date rec \<mapsto> rec))))
       Map.empty recs"

text \<open>\<^verbatim>\<open>by_emp_by_date.get(employee_id, {}).get(dcur)\<close>.\<close>

definition lookup_day ::
    "(string \<rightharpoonup> (date \<rightharpoonup> AttendanceRecord)) \<Rightarrow> string \<Rightarrow> date \<Rightarrow> AttendanceRecord option" where
  "lookup_day m employee_id dcur = (case m employee_id of None \<Rightarrow> None | Some i \<Rightarrow> i dcur)"

text \<open>One day of the walk of payroll.py's range report (lines 541-573).\<close>

definition range_day ::
    "(string \<rightharpoonup> (date \<rightharpoonup> AttendanceRecord)) \<Rightarrow> string \<Rightarrow> date \<Rightarrow> tally \<Rightarrow> tally" where
  "range_day m employee_id dcur t =
     (let a = lookup_day m employee_id dcur;
          t' = count_status_or_unmarked t a
      in case a of None \<Rightarrow> t' | Some r \<Rightarrow> fine_step (overtime_late_step t' r) r)"

text \<open>One day of the walk of payroll2's range report (lines 163-207).\<close>

definition range2_day ::
    "(string \<rightharpoonup> (date \<rightharpoonup> AttendanceRecord)) \<Rightarrow> string \<Rightarrow> date \<Rightarrow> tally \<Rightarrow> tally" where
  "range2_day m employee_id dcur t =
     (case lookup_day m employee_id dcur of
        None \<Rightarrow> t
      | Some r \<Rightarrow> fine_step (overtime_late_step (count_status t r) r) r)"

text \<open>
  The day walk of both range reports:
  \<^verbatim>\<open>while dcur <= end: body; dcur = dcur + timedelta(days=1)\<close>. The addition raises
  \<^verbatim>\<open>OverflowError\<close> past 9999-12-31.
\<close>

function day_walk :: "(date \<Rightarrow> tally \<Rightarrow> tally) \<Rightarrow> date \<Rightarrow> date \<Rightarrow> tally \<Rightarrow> pyexn + tally" where
  "day_walk body dcur end' t =
     (if date_le dcur end' then
        (case add_one_day dcur of
           Inl x \<Rightarrow> Inl x
         | Inr next_day \<Rightarrow> day_walk body next_day end' (body dcur t))
      else Inr t)"
  by pat_completeness auto
termination
  by (relation "measure (\<lambda>(body, dcur, end', t). nat (toordinal end' + 1 - toordinal dcur))")
     (auto simp: date_le_def add_one_day_def Let_def split: if_splits)

text \<open>The defining equation is used only where it is instantiated by hand.\<close>

declare day_walk.simps [simp del]

section \<open>The calendar-month report\<close>

text \<open>
  A row of \<^verbatim>\<open>payroll_report\<close> (payroll.py, lines 395-423), field for field, each
  name prefixed with \<open>m_\<close>.
\<close>

record month_row =
  m_employee_db_id :: int
  m_employee_id :: string
  m_name :: string
  m_department :: string
  m_shift_type :: string
  m_serial_no :: "string option"
  m_fss_no :: "string option"
  m_eobi_no :: "string option"
  m_base_salary :: real
  m_allowances :: real
  m_present_days :: int
  m_late_days :: int
  m_absent_days :: int
  m_paid_leave_days :: int
  m_unpaid_leave_days :: int
  m_overtime_minutes :: int
  m_overtime_pay :: real
  m_overtime_rate :: real
  m_late_minutes :: int
  m_late_deduction :: real
  m_unpaid_leave_deduction :: real
  m_advance_deduction :: real
  m_gross_pay :: real
  m_net_pay :: real
  m_paid_status :: string

record summary =
  sum_month :: string
  sum_employees :: nat
  sum_total_gross :: real
  sum_total_net :: real

record month_report =
  mrep_month :: string
  mrep_summary :: summary
  mrep_rows :: "month_row list"

text \<open>
  The employee filter of all three reports: hired at or before the last microsecond of
  the period's last day, or with no hire timestamp.
\<close>

definition eligible :: "date \<Rightarrow> Employee2 \<Rightarrow> bool" where
  "eligible end' e \<longleftrightarrow>
     (case e_created_at e of None \<Rightarrow> True | Some c \<Rightarrow> datetime_le c (end', time_max))"

definition in_period :: "date \<Rightarrow> date \<Rightarrow> AttendanceRecord \<Rightarrow> bool" where
  "in_period start end' a \<longleftrightarrow> date_le start (a_date a) \<and> date_le (a_date a) end'"

definition sheets_for :: "db \<Rightarrow> date \<Rightarrow> date \<Rightarrow> (int \<rightharpoonup> PayrollSheetEntry)" where
  "sheets_for d start end' =
     dict_of s_employee_db_id (\<lambda>r. r)
       (filter (\<lambda>r. s_from_date r = start \<and> s_to_date r = end') (sheet_entries d))"

definition advances_for :: "db \<Rightarrow> string \<Rightarrow> (int \<rightharpoonup> real)" where
  "advances_for d month =
     dict_of d_employee_db_id (\<lambda>r. real_or0 (d_amount r))
       (filter (\<lambda>r. d_month r = month) (advance_deductions d))"

definition paid_status_for :: "db \<Rightarrow> string \<Rightarrow> (string \<rightharpoonup> string)" where
  "paid_status_for d month =
     dict_of p_employee_id (\<lambda>r. or_str (p_status r) ''unpaid'')
       (filter (\<lambda>r. p_month r = month) (payment_statuses d))"

text \<open>\<^verbatim>\<open>float(advance_ded_by_emp_db_id.get(e.id, 0.0) or 0.0)\<close>.\<close>

definition adv_ded_of :: "(int \<rightharpoonup> real) \<Rightarrow> Employee2 \<Rightarrow> real" where
  "adv_ded_of advance_ded_by_emp_db_id e = real_or0 (advance_ded_by_emp_db_id (e_id e))"

text \<open>\<^verbatim>\<open>e.fss_no or e.serial_no or str(e.id)\<close> (payroll.py, line 340).\<close>

definition month_employee_id :: "Employee2 \<Rightarrow> string" where
  "month_employee_id e = or_str (e_fss_no e) (or_str (e_serial_no e) (py_str (e_id e)))"

text \<open>
  The body of \<^verbatim>\<open>for e in employees\<close> (payroll.py, lines 339-423). The sheet
  overrides are loaded by the route (lines 321-326) but never read in this loop, so
  they are no argument here.
\<close>

definition month_row_of ::
    "env \<Rightarrow> (string option \<rightharpoonup> AttendanceRecord list) \<Rightarrow> (string \<rightharpoonup> string) \<Rightarrow> (int \<rightharpoonup> real)
       \<Rightarrow> Employee2 \<Rightarrow> month_row" where
  "month_row_of env by_emp_d paid_status_by_emp advance_ded_by_emp_db_id e =
     (let employee_id = month_employee_id e;
          base_salary = to_float env (e_salary e);
          allowances = 0;
          t = foldl month_step tally0
                (case by_emp_d (Some employee_id) of None \<Rightarrow> [] | Some l \<Rightarrow> l);
          unpaid_leave_deduction = of_int (unpaid_leave_days t) * 1000;
          gross_pay = base_salary + allowances + overtime_rate t + overtime_pay t;
          adv_ded = adv_ded_of advance_ded_by_emp_db_id e;
          net_pay = gross_pay - late_deduction t - unpaid_leave_deduction - adv_ded
      in \<lparr>m_employee_db_id = e_id e,
          m_employee_id = employee_id,
          m_name = or_str (e_name e) [],
          m_department = or_str (e_category e) ''-'',
          m_shift_type = ''-'',
          m_serial_no = e_serial_no e,
          m_fss_no = e_fss_no e,
          m_eobi_no = e_eobi_no e,
          m_base_salary = base_salary,
          m_allowances = allowances,
          m_present_days = present_days t,
          m_late_days = late_days t,
          m_absent_days = absent_days t,
          m_paid_leave_days = paid_leave_days t,
          m_unpaid_leave_days = unpaid_leave_days t,
          m_overtime_minutes = overtime_minutes t,
          m_overtime_pay = overtime_pay t,
          m_overtime_rate = overtime_rate t,
          m_late_minutes = late_minutes t,
          m_late_deduction = late_deduction t,
          m_unpaid_leave_deduction = unpaid_leave_deduction,
          m_advance_deduction = adv_ded,
          m_gross_pay = gross_pay,
          m_net_pay = net_pay,
          m_paid_status =
            (case paid_status_by_emp employee_id of None \<Rightarrow> ''unpaid'' | Some st \<Rightarrow> st)\<rparr>)"

text \<open>The rows of the calendar-month report for a resolved period.\<close>

definition month_rows :: "env \<Rightarrow> db \<Rightarrow> string \<Rightarrow> date \<Rightarrow> date \<Rightarrow> month_row list" where
  "month_rows env d month start end' =
     (let emps = order_by_serial_no env (filter (eligible end') (employees d));
          by_emp_d = by_emp (filter (in_period start end') (attendance d))
      in map (month_row_of env by_emp_d (paid_status_for d month) (advances_for d month)) emps)"

text \<open>\<^verbatim>\<open>payroll_report\<close> (payroll.py, lines 289-432).\<close>

definition payroll_report :: "env \<Rightarrow> db \<Rightarrow> string \<Rightarrow> error + month_report" where
  "payroll_report env d month =
     (case parse_month month of
        Inl err \<Rightarrow> Inl err
      | Inr (start, end') \<Rightarrow>
          (let rows = month_rows env d month start end'
           in Inr \<lparr>mrep_month = month,
                   mrep_summary =
                     \<lparr>sum_month = month,
                      sum_employees = length rows,
                      sum_total_gross = sum_list (map m_gross_pay rows),
                      sum_total_net = sum_list (map m_net_pay rows)\<rparr>,
                   mrep_rows = rows\<rparr>))"

section \<open>The date-range report of payroll.py\<close>

text \<open>
  A row of \<^verbatim>\<open>payroll_range_report\<close> (payroll.py, lines 639-688), each name prefixed
  with \<open>r_\<close>. The constant \<^verbatim>\<open>bank_name\<close> and \<^verbatim>\<open>account_number\<close> (both
  \<^verbatim>\<open>None\<close>) are left out.
\<close>

record range_row =
  r_employee_db_id :: int
  r_employee_id :: string
  r_name :: string
  r_department :: string
  r_shift_type :: string
  r_serial_no :: "string option"
  r_fss_no :: "string option"
  r_eobi_no :: "string option"
  r_base_salary :: real
  r_allowances :: real
  r_working_days :: int
  r_day_rate :: real
  r_payable_days :: int
  r_basic_earned :: real
  r_pre_days :: int
  r_cur_days :: int
  r_leave_encashment_days :: int
  r_total_days :: int
  r_total_salary :: real
  r_present_days :: int
  r_late_days :: int
  r_absent_days :: int
  r_paid_leave_days :: int
  r_unpaid_leave_days :: int
  r_unmarked_days :: int
  r_overtime_minutes :: int
  r_overtime_pay :: real
  r_overtime_rate :: real
  r_late_minutes :: int
  r_late_deduction :: real
  r_late_rate :: real
  r_fine_deduction :: real
  r_allow_other :: real
  r_eobi :: real
  r_tax :: real
  r_fine_adv_extra :: real
  r_fine_adv :: real
  r_remarks :: "string option"
  r_bank_cash :: "string option"
  r_unpaid_leave_deduction :: real
  r_advance_deduction :: real
  r_gross_pay :: real
  r_net_pay :: real
  r_paid_status :: string

record range_report =
  rrep_month :: string
  rrep_summary :: summary
  rrep_rows :: "range_row list"

text \<open>\<^verbatim>\<open>sort_key\<close> (payroll.py, lines 458-462; payroll2.py, lines 86-90).\<close>

definition serial_key :: "string option \<Rightarrow> int" where
  "serial_key serial_no =
     (case serial_no of
        None \<Rightarrow> 0
      | Some s \<Rightarrow> if s = [] then 0 else (case py_int s of Some i \<Rightarrow> i | None \<Rightarrow> 999999))"

definition serial_sort_key :: "Employee2 \<Rightarrow> int" where
  "serial_sort_key e = serial_key (e_serial_no e)"

text \<open>\<^verbatim>\<open>str(e.fss_no or e.serial_no or e.id).strip()\<close>.\<close>

definition range_employee_id :: "Employee2 \<Rightarrow> string" where
  "range_employee_id e =
     py_strip (or_str (e_fss_no e) (or_str (e_serial_no e) (py_str (e_id e))))"

text \<open>
  The sheet fields as both range loops read them: \<^verbatim>\<open>int(x or 0)\<close>,
  \<^verbatim>\<open>float(x or 0.0)\<close>, and 0 without a sheet.
\<close>

definition sheet_int :: "PayrollSheetEntry option \<Rightarrow> (PayrollSheetEntry \<Rightarrow> int option) \<Rightarrow> int" where
  "sheet_int sheet f = (case sheet of None \<Rightarrow> 0 | Some sh \<Rightarrow> int_or0 (f sh))"

definition sheet_real :: "PayrollSheetEntry option \<Rightarrow> (PayrollSheetEntry \<Rightarrow> real option) \<Rightarrow> real" where
  "sheet_real sheet f = (case sheet of None \<Rightarrow> 0 | Some sh \<Rightarrow> real_or0 (f sh))"

text \<open>
  \<^verbatim>\<open>int(sheet.pre_days_override) if sheet and sheet.pre_days_override is not None else 0\<close>
  (the same expression for \<^verbatim>\<open>cur_days_override\<close>, in both files).
\<close>

definition days_override :: "PayrollSheetEntry option \<Rightarrow> (PayrollSheetEntry \<Rightarrow> int option) \<Rightarrow> int" where
  "days_override sheet f =
     (case sheet of None \<Rightarrow> 0 | Some sh \<Rightarrow> (case f sh of None \<Rightarrow> 0 | Some n \<Rightarrow> n))"

text \<open>
  What the route computes once per request and every row reads
  (payroll.py, lines 447-498).
\<close>

record range_ctx =
  c_start :: date
  c_end :: date
  c_working_days :: int
  c_by_emp_by_date :: "string \<rightharpoonup> (date \<rightharpoonup> AttendanceRecord)"
  c_paid_status_by_emp :: "string \<rightharpoonup> string"
  c_sheet_by_emp_db_id :: "int \<rightharpoonup> PayrollSheetEntry"
  c_advance_ded_by_emp_db_id :: "int \<rightharpoonup> real"

definition range_ctx_of :: "db \<Rightarrow> date \<Rightarrow> date \<Rightarrow> string \<Rightarrow> range_ctx" where
  "range_ctx_of d start end' month_label' =
     \<lparr>c_start = start,
      c_end = end',
      c_working_days = days_inclusive start end',
      c_by_emp_by_date = by_emp_by_date (filter (in_period start end') (attendance d)),
      c_paid_status_by_emp = paid_status_for d month_label',
      c_sheet_by_emp_db_id = sheets_for d start end',
      c_advance_ded_by_emp_db_id = advances_for d month_label'\<rparr>"

text \<open>
  The row computed from the final counters \<open>t\<close> of the day walk
  (payroll.py, lines 577-688).
\<close>

definition range_row_of :: "env \<Rightarrow> range_ctx \<Rightarrow> Employee2 \<Rightarrow> tally \<Rightarrow> range_row" where
  "range_row_of env c e t =
     (let employee_id = range_employee_id e;
          working_days = c_working_days c;
          base_salary = to_float env (e_salary e);
          allowances = 0;
          day_rate = (if working_days > 0 then base_salary / of_int working_days else 0);
          late_rate = (if late_minutes t > 0
                       then late_deduction t / of_int (late_minutes t) else 0);
          payable_days0 = present_days t + late_days t + paid_leave_days t;
          payable_days = (if payable_days0 > working_days then working_days else payable_days0);
          presents_total = present_days t + late_days t;
          sheet = c_sheet_by_emp_db_id c (e_id e);
          leave_encashment_days = sheet_int sheet s_leave_encashment_days;
          pre_days0 = days_override sheet s_pre_days_override;
          cur_days0 = days_override sheet s_cur_days_override;
          pre_days = (if pre_days0 < 0 then 0 else pre_days0);
          cur_days = (if cur_days0 < 0 then 0 else cur_days0);
          total_days0 = presents_total + leave_encashment_days;
          total_days = (if total_days0 < 0 then 0 else total_days0);
          total_salary = of_int total_days * day_rate;
          allow_other = sheet_real sheet s_allow_other;
          eobi = sheet_real sheet s_eobi;
          tax = sheet_real sheet s_tax;
          fine_adv_extra = sheet_real sheet s_fine_adv_extra;
          adv_ded = adv_ded_of (c_advance_ded_by_emp_db_id c) e;
          fine_adv = fine_deduction t + adv_ded + fine_adv_extra;
          unpaid_leave_deduction = 0;
          gross_pay = total_salary + overtime_rate t + overtime_pay t + allowances + allow_other;
          net_pay = gross_pay - eobi - tax - fine_adv - late_deduction t - unpaid_leave_deduction
      in \<lparr>r_employee_db_id = e_id e,
          r_employee_id = employee_id,
          r_name = or_str (e_name e) [],
          r_department = or_str (e_category e) ''-'',
          r_shift_type = ''-'',
          r_serial_no = e_serial_no e,
          r_fss_no = e_fss_no e,
          r_eobi_no = e_eobi_no e,
          r_base_salary = base_salary,
          r_allowances = allowances,
          r_working_days = working_days,
          r_day_rate = day_rate,
          r_payable_days = payable_days,
          r_basic_earned = total_salary,
          r_pre_days = pre_days,
          r_cur_days = cur_days,
          r_leave_encashment_days = leave_encashment_days,
          r_total_days = total_days,
          r_total_salary = total_salary,
          r_present_days = present_days t,
          r_late_days = late_days t,
          r_absent_days = absent_days t,
          r_paid_leave_days = paid_leave_days t,
          r_unpaid_leave_days = unpaid_leave_days t,
          r_unmarked_days = unmarked_days t,
          r_overtime_minutes = overtime_minutes t,
          r_overtime_pay = overtime_pay t,
          r_overtime_rate = overtime_rate t,
          r_late_minutes = late_minutes t,
          r_late_deduction = late_deduction t,
          r_late_rate = late_rate,
          r_fine_deduction = fine_deduction t,
          r_allow_other = allow_other,
          r_eobi = eobi,
          r_tax = tax,
          r_fine_adv_extra = fine_adv_extra,
          r_fine_adv = fine_adv,
          r_remarks = (case sheet of None \<Rightarrow> None | Some sh \<Rightarrow> s_remarks sh),
          r_bank_cash = (case sheet of None \<Rightarrow> None | Some sh \<Rightarrow> s_bank_cash sh),
          r_unpaid_leave_deduction = unpaid_leave_deduction,
          r_advance_deduction = adv_ded,
          r_gross_pay = gross_pay,
          r_net_pay = net_pay,
          r_paid_status =
            (case c_paid_status_by_emp c employee_id of None \<Rightarrow> ''unpaid'' | Some st \<Rightarrow> st)\<rparr>)"

text \<open>The body of \<^verbatim>\<open>for e in employees\<close>: the day walk, then the row.\<close>

definition range_row_for :: "env \<Rightarrow> range_ctx \<Rightarrow> Employee2 \<Rightarrow> pyexn + range_row" where
  "range_row_for env c e =
     (case day_walk (range_day (c_by_emp_by_date c) (range_employee_id e))
             (c_start c) (c_end c) tally0 of
        Inl x \<Rightarrow> Inl x
      | Inr t \<Rightarrow> Inr (range_row_of env c e t))"

definition range_format_error :: error where
  "range_format_error = HTTPException 400 ''from_date must be <= to_date''"

text \<open>\<^verbatim>\<open>month or _month_label(end)\<close>.\<close>

definition month_label_or :: "string option \<Rightarrow> date \<Rightarrow> string" where
  "month_label_or month end' = (if str_truthy month then or_str month [] else month_label end')"

text \<open>\<^verbatim>\<open>payroll_range_report\<close> (payroll.py, lines 435-697).\<close>

definition payroll_range_report ::
    "env \<Rightarrow> db \<Rightarrow> string \<Rightarrow> string \<Rightarrow> string option \<Rightarrow> error + range_report" where
  "payroll_range_report env d from_date to_date month =
     (case parse_date from_date ''from_date'' of
        Inl err \<Rightarrow> Inl err
      | Inr start \<Rightarrow>
          (case parse_date to_date ''to_date'' of
             Inl err \<Rightarrow> Inl err
           | Inr end' \<Rightarrow>
               if toordinal start > toordinal end' then Inl range_format_error
               else
                 (let month_label' = month_label_or month end';
                      emps = sort_key serial_sort_key (filter (eligible end') (employees d));
                      c = range_ctx_of d start end' month_label'
                  in case map_result (range_row_for env c) emps of
                       Inl x \<Rightarrow> Inl (Uncaught x)
                     | Inr rows \<Rightarrow>
                         Inr \<lparr>rrep_month = month_label',
                              rrep_summary =
                                \<lparr>sum_month = month_label',
                                 sum_employees = length rows,
                                 sum_total_gross = sum_list (map r_gross_pay rows),
                                 sum_total_net = sum_list (map r_net_pay rows)\<rparr>,
                              rrep_rows = rows\<rparr>)))"

section \<open>The date-range report of payroll2.py\<close>

text \<open>
  A row of \<^verbatim>\<open>payroll2_range_report\<close> (payroll2.py, lines 262-310), each name
  prefixed with \<open>q_\<close>. The two tooltip lists \<^verbatim>\<open>present_dates_prev\<close> and
  \<^verbatim>\<open>present_dates_cur\<close> (formatted dates, read by no computation) are left out.
  The row has no \<^verbatim>\<open>allowances\<close>, no \<^verbatim>\<open>unmarked_days\<close> and no
  \<^verbatim>\<open>paid_status\<close>.
\<close>

record range2_row =
  q_employee_db_id :: int
  q_employee_id :: string
  q_name :: string
  q_serial_no :: "string option"
  q_fss_no :: "string option"
  q_eobi_no :: "string option"
  q_base_salary :: real
  q_working_days :: int
  q_day_rate :: real
  q_presents_total :: int
  q_present_days :: int
  q_late_days :: int
  q_absent_days :: int
  q_paid_leave_days :: int
  q_unpaid_leave_days :: int
  q_pre_days :: int
  q_cur_days :: int
  q_leave_encashment_days :: int
  q_total_days :: int
  q_total_salary :: real
  q_overtime_minutes :: int
  q_overtime_rate :: real
  q_overtime_pay :: real
  q_late_minutes :: int
  q_late_deduction :: real
  q_allow_other :: real
  q_gross_pay :: real
  q_eobi :: real
  q_tax :: real
  q_fine_deduction :: real
  q_fine_adv_extra :: real
  q_fine_adv :: real
  q_advance_deduction :: real
  q_net_pay :: real
  q_remarks :: "string option"
  q_bank_cash :: "string option"

record summary2 =
  sum2_month :: string
  sum2_from_date :: date
  sum2_to_date :: date
  sum2_working_days :: int
  sum2_employees :: nat
  sum2_total_gross :: real
  sum2_total_net :: real
  sum2_total_presents :: int

record range2_report =
  qrep_month :: string
  qrep_summary :: summary2
  qrep_rows :: "range2_row list"

text \<open>
  The row computed from the final counters \<open>t\<close> of the day walk
  (payroll2.py, lines 211-310). The route does not query the payment statuses, so
  \<open>c_paid_status_by_emp\<close> is not read.
\<close>

definition range2_row_of :: "env \<Rightarrow> range_ctx \<Rightarrow> Employee2 \<Rightarrow> tally \<Rightarrow> range2_row" where
  "range2_row_of env c e t =
     (let employee_id = range_employee_id e;
          working_days = c_working_days c;
          base_salary = to_float env (e_salary e);
          day_rate = (if working_days > 0 then base_salary / of_int working_days else 0);
          presents_total = present_days t + late_days t;
          sheet = c_sheet_by_emp_db_id c (e_id e);
          pre_days = days_override sheet s_pre_days_override;
          cur_days = days_override sheet s_cur_days_override;
          leave_encashment_days = sheet_int sheet s_leave_encashment_days;
          total_days0 = presents_total + leave_encashment_days;
          total_days = (if total_days0 < 0 then 0 else total_days0);
          total_salary = of_int total_days * day_rate;
          allow_other = sheet_real sheet s_allow_other;
          eobi = sheet_real sheet s_eobi;
          tax = sheet_real sheet s_tax;
          fine_adv_extra = sheet_real sheet s_fine_adv_extra;
          adv_ded = adv_ded_of (c_advance_ded_by_emp_db_id c) e;
          fine_adv = fine_deduction t + adv_ded + fine_adv_extra;
          gross_pay = total_salary + overtime_rate t + overtime_pay t + allow_other;
          net_pay = gross_pay - eobi - tax - fine_adv - late_deduction t
      in \<lparr>q_employee_db_id = e_id e,
          q_employee_id = employee_id,
          q_name = or_str (e_name e) [],
          q_serial_no = e_serial_no e,
          q_fss_no = e_fss_no e,
          q_eobi_no = e_eobi_no e,
          q_base_salary = base_salary,
          q_working_days = working_days,
          q_day_rate = day_rate,
          q_presents_total = presents_total,
          q_present_days = present_days t,
          q_late_days = late_days t,
          q_absent_days = absent_days t,
          q_paid_leave_days = paid_leave_days t,
          q_unpaid_leave_days = unpaid_leave_days t,
          q_pre_days = pre_days,
          q_cur_days = cur_days,
          q_leave_encashment_days = leave_encashment_days,
          q_total_days = total_days,
          q_total_salary = total_salary,
          q_overtime_minutes = overtime_minutes t,
          q_overtime_rate = overtime_rate t,
          q_overtime_pay = overtime_pay t,
          q_late_minutes = late_minutes t,
          q_late_deduction = late_deduction t,
          q_allow_other = allow_other,
          q_gross_pay = gross_pay,
          q_eobi = eobi,
          q_tax = tax,
          q_fine_deduction = fine_deduction t,
          q_fine_adv_extra = fine_adv_extra,
          q_fine_adv = fine_adv,
          q_advance_deduction = adv_ded,
          q_net_pay = net_pay,
          q_remarks = (case sheet of None \<Rightarrow> None | Some sh \<Rightarrow> s_remarks sh),
          q_bank_cash = (case sheet of None \<Rightarrow> None | Some sh \<Rightarrow> s_bank_cash sh)\<rparr>)"

definition range2_row_for :: "env \<Rightarrow> range_ctx \<Rightarrow> Employee2 \<Rightarrow> pyexn + range2_row" where
  "range2_row_for env c e =
     (case day_walk (range2_day (c_by_emp_by_date c) (range_employee_id e))
             (c_start c) (c_end c) tally0 of
        Inl x \<Rightarrow> Inl x
      | Inr t \<Rightarrow> Inr (range2_row_of env c e t))"

text \<open>\<^verbatim>\<open>payroll2_range_report\<close> (payroll2.py, lines 53-323).\<close>

definition payroll2_range_report ::
    "env \<Rightarrow> db \<Rightarrow> string \<Rightarrow> string \<Rightarrow> string option \<Rightarrow> error + range2_report" where
  "payroll2_range_report env d from_date to_date month =
     (case parse_date from_date ''from_date'' of
        Inl err \<Rightarrow> Inl err
      | Inr start \<Rightarrow>
          (case parse_date to_date ''to_date'' of
             Inl err \<Rightarrow> Inl err
           | Inr end' \<Rightarrow>
               if toordinal start > toordinal end' then Inl range_format_error
               else
                 (let month_label' = month_label_or month end';
                      emps = sort_key serial_sort_key (filter (eligible end') (employees d));
                      c = range_ctx_of d start end' month_label'
                  in case map_result (range2_row_for env c) emps of
                       Inl x \<Rightarrow> Inl (Uncaught x)
                     | Inr rows \<Rightarrow>
                         Inr \<lparr>qrep_month = month_label',
                              qrep_summary =
                                \<lparr>sum2_month = month_label',
                                 sum2_from_date = start,
                                 sum2_to_date = end',
                                 sum2_working_days = c_working_days c,
                                 sum2_employees = length rows,
                                 sum2_total_gross = sum_list (map q_gross_pay rows),
                                 sum2_total_net = sum_list (map q_net_pay rows),
                                 sum2_total_presents = sum_list (map q_presents_total rows)\<rparr>,
                              qrep_rows = rows\<rparr>)))"

section \<open>Writes: payment status and sheet overrides\<close>

text \<open>
  Modelled from the spec: the database session of \<^verbatim>\<open>app/core/database.py\<close> (not among
  the sources). A request works on the session's view of a table, which shows its own
  pending changes to its later queries; \<^verbatim>\<open>db.commit()\<close> makes the view the new store,
  and a request that raises before its commit leaves the store as it was (the
  specification, section 6, has a mismatching batch rejected as a whole). A write
  route returns the store after the request together with its response.
\<close>

text \<open>The first row that satisfies \<open>P\<close>, changed in place.\<close>

fun update_first :: "('a \<Rightarrow> bool) \<Rightarrow> ('a \<Rightarrow> 'a) \<Rightarrow> 'a list \<Rightarrow> 'a list" where
  "update_first P f [] = []"
| "update_first P f (x # xs) = (if P x then f x # xs else x # update_first P f xs)"

definition status_key :: "string \<Rightarrow> string \<Rightarrow> PayrollPaymentStatus \<Rightarrow> bool" where
  "status_key month employee_id r \<longleftrightarrow> p_month r = month \<and> p_employee_id r = employee_id"

text \<open>\<^verbatim>\<open>get_payment_status\<close> (payroll.py, lines 28-47).\<close>

definition get_payment_status :: "db \<Rightarrow> string \<Rightarrow> string \<Rightarrow> db \<times> PayrollPaymentStatus" where
  "get_payment_status d month employee_id =
     (case List.find (status_key month employee_id) (payment_statuses d) of
        Some row \<Rightarrow> (d, row)
      | None \<Rightarrow>
          (let row = \<lparr>p_month = month, p_employee_id = employee_id, p_status = Some ''unpaid'',
                      p_employee_db_id = None, p_net_pay_snapshot = None\<rparr>
           in (d\<lparr>payment_statuses := payment_statuses d @ [row]\<rparr>, row)))"

record PayrollPaymentStatusUpsert =
  u_month :: string
  u_employee_id :: string
  u_status :: "string option"

definition status_error :: error where
  "status_error =
     HTTPException 400
       (''status must be '' @ [CHR 0x27] @ ''paid'' @ [CHR 0x27] @ '' or ''
        @ [CHR 0x27] @ ''unpaid'' @ [CHR 0x27])"

text \<open>
  The snapshot taken for a status \<open>paid\<close> (payroll.py, lines 71-76): the net pay of the
  first row of the calendar-month report whose \<^verbatim>\<open>employee_id\<close> is the payload's.
\<close>

definition net_snapshot_of :: "month_report \<Rightarrow> string \<Rightarrow> real option" where
  "net_snapshot_of rep employee_id =
     map_option m_net_pay (List.find (\<lambda>r. m_employee_id r = employee_id) (mrep_rows rep))"

text \<open>\<^verbatim>\<open>upsert_payment_status\<close> (payroll.py, lines 50-92).\<close>

definition upsert_payment_status ::
    "env \<Rightarrow> db \<Rightarrow> PayrollPaymentStatusUpsert \<Rightarrow> db \<times> (error + PayrollPaymentStatus)" where
  "upsert_payment_status env d payload =
     (let status = py_lower (py_strip (or_str (u_status payload) []))
      in if status \<noteq> ''paid'' \<and> status \<noteq> ''unpaid'' then (d, Inl status_error)
         else
           (let key = status_key (u_month payload) (u_employee_id payload);
                row = List.find key (payment_statuses d);
                emp = List.find (\<lambda>e. e_fss_no e = Some (u_employee_id payload)) (employees d);
                emp_db_id = map_option e_id emp
            in case (if status = ''paid''
                     then (case payroll_report env d (u_month payload) of
                             Inl err \<Rightarrow> Inl err
                           | Inr rep \<Rightarrow> Inr (net_snapshot_of rep (u_employee_id payload)))
                     else Inr None) of
                 Inl err \<Rightarrow> (d, Inl err)
               | Inr net_snapshot \<Rightarrow>
                   (let fill = (\<lambda>r. r\<lparr>p_employee_db_id := emp_db_id,
                                       p_net_pay_snapshot :=
                                         (if status = ''paid'' then net_snapshot else None)\<rparr>)
                    in case row of
                         None \<Rightarrow>
                           (let new = fill \<lparr>p_month = u_month payload,
                                            p_employee_id = u_employee_id payload,
                                            p_status = Some status,
                                            p_employee_db_id = None,
                                            p_net_pay_snapshot = None\<rparr>
                            in (d\<lparr>payment_statuses := payment_statuses d @ [new]\<rparr>, Inr new))
                       | Some old \<Rightarrow>
                           (let upd = (\<lambda>r. fill (r\<lparr>p_status := Some status\<rparr>))
                            in (d\<lparr>payment_statuses :=
                                     update_first key upd (payment_statuses d)\<rparr>,
                                Inr (upd old))))))"

record PayrollSheetEntryUpsert =
  n_employee_db_id :: int
  n_from_date :: date
  n_to_date :: date
  n_pre_days_override :: "int option"
  n_cur_days_override :: "int option"
  n_leave_encashment_days :: "int option"
  n_allow_other :: "real option"
  n_eobi :: "real option"
  n_tax :: "real option"
  n_fine_adv_extra :: "real option"
  n_remarks :: "string option"
  n_bank_cash :: "string option"

record PayrollSheetEntryBulkUpsert =
  b_from_date :: date
  b_to_date :: date
  b_entries :: "PayrollSheetEntryUpsert list"

definition period_mismatch_error :: error where
  "period_mismatch_error = HTTPException 400 ''entry period must match payload from/to''"

definition sheet_key :: "int \<Rightarrow> date \<Rightarrow> date \<Rightarrow> PayrollSheetEntry \<Rightarrow> bool" where
  "sheet_key emp_db_id start end' r \<longleftrightarrow>
     s_employee_db_id r = emp_db_id \<and> s_from_date r = start \<and> s_to_date r = end'"

text \<open>The nine assignments of payroll.py, lines 752-760.\<close>

definition write_entry :: "PayrollSheetEntryUpsert \<Rightarrow> PayrollSheetEntry \<Rightarrow> PayrollSheetEntry" where
  "write_entry e row =
     row\<lparr>s_pre_days_override := n_pre_days_override e,
         s_cur_days_override := n_cur_days_override e,
         s_leave_encashment_days := Some (int_or0 (n_leave_encashment_days e)),
         s_allow_other := Some (real_or0 (n_allow_other e)),
         s_eobi := Some (real_or0 (n_eobi e)),
         s_tax := Some (real_or0 (n_tax e)),
         s_fine_adv_extra := Some (real_or0 (n_fine_adv_extra e)),
         s_remarks := n_remarks e,
         s_bank_cash := n_bank_cash e\<rparr>"

text \<open>\<^verbatim>\<open>PayrollSheetEntry(employee_db_id=..., from_date=start, to_date=end)\<close>.\<close>

definition new_sheet_entry :: "int \<Rightarrow> date \<Rightarrow> date \<Rightarrow> PayrollSheetEntry" where
  "new_sheet_entry emp_db_id start end' =
     \<lparr>s_employee_db_id = emp_db_id, s_from_date = start, s_to_date = end',
      s_pre_days_override = None, s_cur_days_override = None,
      s_leave_encashment_days = None, s_allow_other = None, s_eobi = None, s_tax = None,
      s_fine_adv_extra = None, s_remarks = None, s_bank_cash = None\<rparr>"

text \<open>
  The loop over \<^verbatim>\<open>payload.entries\<close> (payroll.py, lines 730-762) on the session's view
  \<open>rows\<close> of the sheet table.
\<close>

fun upsert_entries ::
    "date \<Rightarrow> date \<Rightarrow> PayrollSheetEntry list \<Rightarrow> PayrollSheetEntryUpsert list
       \<Rightarrow> error + PayrollSheetEntry list" where
  "upsert_entries start end' rows [] = Inr rows"
| "upsert_entries start end' rows (e # es) =
     (if n_from_date e \<noteq> start \<or> n_to_date e \<noteq> end' then Inl period_mismatch_error
      else
        (let key = sheet_key (n_employee_db_id e) start end'
         in case List.find key rows of
              None \<Rightarrow>
                upsert_entries start end'
                  (rows @ [write_entry e (new_sheet_entry (n_employee_db_id e) start end')]) es
            | Some row \<Rightarrow>
                upsert_entries start end' (update_first key (write_entry e) rows) es))"

text \<open>
  \<^verbatim>\<open>bulk_upsert_payroll_sheet_entries\<close> (payroll.py, lines 718-771). The response
  lists, per entry, the row it wrote, as refreshed after the commit.
\<close>

definition bulk_upsert_payroll_sheet_entries ::
    "db \<Rightarrow> PayrollSheetEntryBulkUpsert \<Rightarrow> db \<times> (error + PayrollSheetEntry list)" where
  "bulk_upsert_payroll_sheet_entries d payload =
     (let start = b_from_date payload; end' = b_to_date payload
      in if toordinal start > toordinal end' then (d, Inl range_format_error)
         else
           (case upsert_entries start end' (sheet_entries d) (b_entries payload) of
              Inl err \<Rightarrow> (d, Inl err)
            | Inr rows \<Rightarrow>
                (d\<lparr>sheet_entries := rows\<rparr>,
                 Inr (List.map_filter
                        (\<lambda>e. List.find (sheet_key (n_employee_db_id e) start end') rows)
                        (b_entries payload)))))"

section \<open>Notions used in the statements\<close>

text \<open>The days a tally has put into one of its six day categories.\<close>

definition days_counted :: "tally \<Rightarrow> int" where
  "days_counted t =
     present_days t + late_days t + absent_days t + paid_leave_days t + unpaid_leave_days t
     + unmarked_days t"

text \<open>A record whose status the status chains know.\<close>

definition status_known :: "AttendanceRecord \<Rightarrow> bool" where
  "status_known a \<longleftrightarrow>
     status_text a = ''present'' \<or> status_text a = ''late'' \<or> status_text a = ''absent''
     \<or> status_text a = ''leave''"

text \<open>
  A record that accrues overtime: \<^verbatim>\<open>a.overtime_minutes and a.overtime_rate\<close>, both
  present and nonzero; and the minutes a day contributes.
\<close>

definition accrues_overtime :: "AttendanceRecord \<Rightarrow> bool" where
  "accrues_overtime a \<longleftrightarrow> int_truthy (a_overtime_minutes a) \<and> real_truthy (a_overtime_rate a)"

definition accrued_minutes :: "AttendanceRecord option \<Rightarrow> int" where
  "accrued_minutes r =
     (case r of
        None \<Rightarrow> 0
      | Some a \<Rightarrow> if accrues_overtime a then int_or0 (a_overtime_minutes a) else 0)"

text \<open>
  The record \<open>a\<close> with other overtime minutes \<open>g a\<close> when its overtime rate is zero or
  missing, and unchanged otherwise.
\<close>

definition with_minutes ::
    "(AttendanceRecord \<Rightarrow> int option) \<Rightarrow> AttendanceRecord \<Rightarrow> AttendanceRecord" where
  "with_minutes g a =
     (if real_truthy (a_overtime_rate a) then a else a\<lparr>a_overtime_minutes := g a\<rparr>)"

text \<open>
  The record the range reports hold for an employee and a day: the last record of the
  table with that (stripped) employee identifier and that date.
\<close>

definition day_record :: "AttendanceRecord list \<Rightarrow> string \<Rightarrow> date \<Rightarrow> AttendanceRecord option" where
  "day_record recs employee_id day =
     List.find (\<lambda>a. py_strip (or_str (a_employee_id a) []) = employee_id \<and> a_date a = day)
       (rev recs)"

section \<open>A small store for the worked examples\<close>

text \<open>
  Decimal literals without a fraction are all the examples need of \<^verbatim>\<open>float()\<close>; the
  store returns the employees in table order.
\<close>

definition demo_env :: env where
  "demo_env = \<lparr>float_of_str = (\<lambda>s. map_option of_int (py_int s)),
               order_by_serial_no = (\<lambda>es. es)\<rparr>"

text \<open>
  One employee (internal id 1, badge 1001, salary 3000) with one attendance record, on
  2024-01-31 (ordinal 738916): present, 120 overtime minutes at rate 100, a late
  deduction of 50 and a fine of 25.
\<close>

definition demo_emp :: Employee2 where
  "demo_emp = \<lparr>e_id = 1, e_serial_no = Some ''2'', e_fss_no = Some ''1001'',
               e_name = Some ''A'', e_salary = Some ''3000'', e_category = None,
               e_eobi_no = None, e_created_at = None\<rparr>"

definition demo_att :: AttendanceRecord where
  "demo_att = \<lparr>a_employee_id = Some ''1001'', a_date = Date 738916,
               a_status = Some ''present'', a_leave_type = None,
               a_overtime_minutes = Some 120, a_overtime_rate = Some 100,
               a_late_minutes = None, a_late_deduction = Some 50,
               a_fine_amount = Some 25\<rparr>"

text \<open>
  A sheet override of employee 1 for a period: a negative \<^verbatim>\<open>pre_days_override\<close>, one
  leave-encashment day, allowance 500, EOBI 200, tax 300, extra fine/advance 100.
\<close>

definition demo_sheet :: "date \<Rightarrow> date \<Rightarrow> PayrollSheetEntry" where
  "demo_sheet start end' =
     \<lparr>s_employee_db_id = 1, s_from_date = start, s_to_date = end',
      s_pre_days_override = Some (- 5), s_cur_days_override = Some 4,
      s_leave_encashment_days = Some 1, s_allow_other = Some 500, s_eobi = Some 200,
      s_tax = Some 300, s_fine_adv_extra = Some 100, s_remarks = None, s_bank_cash = None\<rparr>"

text \<open>
  The store: overrides for 2024-01-30..2024-02-01 (ordinals 738915..738917) and for the
  month of January 2024 (738886..738916), and an advance deduction of 1000 for February.
\<close>

definition demo_db :: db where
  "demo_db =
     \<lparr>employees = [demo_emp],
      attendance = [demo_att],
      sheet_entries = [demo_sheet (Date 738915) (Date 738917),
                       demo_sheet (Date 738886) (Date 738916)],
      advance_deductions = [\<lparr>d_employee_db_id = 1, d_month = ''2024-02'', d_amount = Some 1000\<rparr>],
      payment_statuses = []\<rparr>"

text \<open>The same store with a second record of the employee: absent on 2024-01-05.\<close>

definition demo_absent_db :: db where
  "demo_absent_db =
     demo_db\<lparr>attendance :=
       [demo_att,
        \<lparr>a_employee_id = Some ''1001'', a_date = Date 738890, a_status = Some ''Absent '',
         a_leave_type = None, a_overtime_minutes = None, a_overtime_rate = None,
         a_late_minutes = None, a_late_deduction = None, a_fine_amount = None\<rparr>]\<rparr>"

text \<open>Two status requests for the employee of the example store and January 2024.\<close>

definition demo_paid :: PayrollPaymentStatusUpsert where
  "demo_paid = \<lparr>u_month = ''2024-01'', u_employee_id = ''1001'', u_status = Some '' Paid''\<rparr>"

definition demo_unpaid :: PayrollPaymentStatusUpsert where
  "demo_unpaid = \<lparr>u_month = ''2024-01'', u_employee_id = ''1001'', u_status = Some ''unpaid''\<rparr>"



text \<open>
  Two batches of overrides for employee 1. The first has a consistent period
  2024-01-30..2024-02-01 and two entries for the employee; the second declares a period
  that ends before it starts, with an entry for another period.
\<close>

definition demo_entry :: "date \<Rightarrow> date \<Rightarrow> real \<Rightarrow> PayrollSheetEntryUpsert" where
  "demo_entry start end' eobi =
     \<lparr>n_employee_db_id = 1, n_from_date = start, n_to_date = end',
      n_pre_days_override = None, n_cur_days_override = Some 3,
      n_leave_encashment_days = None, n_allow_other = None, n_eobi = Some eobi,
      n_tax = None, n_fine_adv_extra = None, n_remarks = Some ''ok'', n_bank_cash = None\<rparr>"

definition demo_batch :: PayrollSheetEntryBulkUpsert where
  "demo_batch =
     \<lparr>b_from_date = Date 738915, b_to_date = Date 738917,
      b_entries = [demo_entry (Date 738915) (Date 738917) 150,
                   demo_entry (Date 738915) (Date 738917) 250]\<rparr>"

definition demo_reversed_batch :: PayrollSheetEntryBulkUpsert where
  "demo_reversed_batch =
     \<lparr>b_from_date = Date 738917, b_to_date = Date 738915,
      b_entries = [demo_entry (Date 738886) (Date 738916) 150]\<rparr>"

text \<open>The first batch with a second entry that names another period.\<close>

definition demo_mismatch_batch :: PayrollSheetEntryBulkUpsert where
  "demo_mismatch_batch =
     \<lparr>b_from_date = Date 738915, b_to_date = Date 738917,
      b_entries = [demo_entry (Date 738915) (Date 738917) 150,
                   demo_entry (Date 738886) (Date 738916) 250]\<rparr>"

text \<open>
  The example store with a second record of the employee, on 2024-01-30: present, with
  90 overtime minutes and no overtime rate.
\<close>

definition demo_overtime_db :: db where
  "demo_overtime_db =
     demo_db\<lparr>attendance :=
       [demo_att,
        \<lparr>a_employee_id = Some ''1001'', a_date = Date 738915, a_status = Some ''present'',
         a_leave_type = None, a_overtime_minutes = Some 90, a_overtime_rate = None,
         a_late_minutes = None, a_late_deduction = None, a_fine_amount = None\<rparr>]\<rparr>"

section \<open>Properties\<close>

subsection \<open>Period resolution\<close>

lemma monthrange_days_bounds: "28 \<le> monthrange_days y m \<and> monthrange_days y m \<le> 31"
  by (simp add: monthrange_days_def mdays_def)

lemma parse_month_Inr:
  assumes "parse_month label = Inr p"
  shows "\<exists>y m. 1 \<le> y \<and> y \<le> 9999 \<and> 1 \<le> m \<and> m \<le> 12
            \<and> p = (Date (ymd2ord y m 1), Date (ymd2ord y m (monthrange_days y m)))"
  using assms unfolding parse_month_def py_date_def Let_def MINYEAR_def MAXYEAR_def
  apply (auto split: list.splits option.splits if_splits sum.splits)
  subgoal for ys ms y m
    by (rule exI [of _ y], simp, rule exI [of _ m], simp)
  done

lemma parse_month_Inl:
  assumes "parse_month label = Inl e"
  shows "e = month_format_error \<or> (\<exists>x. e = Uncaught x)"
  using assms unfolding parse_month_def Let_def
  by (auto split: list.splits option.splits if_splits sum.splits)

lemma parse_month_cases:
  "parse_month label = Inl month_format_error
   \<or> (\<exists>x. parse_month label = Inl (Uncaught x))
   \<or> (\<exists>y m. 1 \<le> y \<and> y \<le> 9999 \<and> 1 \<le> m \<and> m \<le> 12
            \<and> parse_month label
                = Inr (Date (ymd2ord y m 1), Date (ymd2ord y m (monthrange_days y m))))"
proof (cases "parse_month label")
  case (Inl e)
  then show ?thesis using parse_month_Inl [OF Inl] by auto
next
  case (Inr p)
  then show ?thesis using parse_month_Inr [OF Inr] by auto
qed

text \<open>
  C8 (the code departs from the claim). The claim: every month label is either resolved
  to the first and last day of its month or rejected with the 400 "month must be in
  YYYY-MM format"; there is no other failure. In \<^verbatim>\<open>_parse_month\<close> the two calls
  \<^verbatim>\<open>date(year, mm, 1)\<close> and \<^verbatim>\<open>date(year, mm, last_day)\<close> stand after the
  \<^verbatim>\<open>try\<close> block, so for the label \<^verbatim>\<open>0-01\<close> (year 0, month 1) the
  \<^verbatim>\<open>ValueError\<close> of \<^verbatim>\<open>date\<close> escapes the route instead of becoming the 400;
  \<^verbatim>\<open>_parse_date\<close> builds its date inside the \<^verbatim>\<open>try\<close>.
\<close>

theorem parse_month_year_zero_escapes:
  "parse_month ''0-01'' = Inl (Uncaught ValueError)"
  by code_simp

subsection \<open>Loops with exceptions\<close>

lemma map_result_Inr_iff:
  "map_result f xs = Inr ys \<longleftrightarrow> list_all2 (\<lambda>x y. f x = Inr y) xs ys"
proof (induction xs arbitrary: ys)
  case Nil
  then show ?case by auto
next
  case (Cons x xs)
  show ?case
  proof (cases "f x")
    case (Inl e)
    then show ?thesis by (auto simp: list_all2_Cons1)
  next
    case fx: (Inr y)
    show ?thesis
    proof (cases "map_result f xs")
      case (Inl e)
      with fx Cons.IH show ?thesis by (auto simp: list_all2_Cons1)
    next
      case (Inr zs)
      with fx Cons.IH show ?thesis by (auto simp: list_all2_Cons1)
    qed
  qed
qed

lemma map_result_mem:
  assumes "map_result f xs = Inr ys" and "y \<in> set ys"
  shows "\<exists>x\<in>set xs. f x = Inr y"
proof -
  from assms(1) have a: "list_all2 (\<lambda>x y. f x = Inr y) xs ys"
    by (simp add: map_result_Inr_iff)
  from assms(2) obtain i where "i < length ys" and "ys ! i = y"
    by (auto simp: in_set_conv_nth)
  with a have "xs ! i \<in> set xs" and "f (xs ! i) = Inr y"
    by (auto simp: list_all2_conv_all_nth)
  then show ?thesis by blast
qed

lemma map_result_all_Inr:
  assumes "\<And>x. x \<in> set xs \<Longrightarrow> f x = Inr (g x)"
  shows "map_result f xs = Inr (map g xs)"
  using assms by (induction xs) auto

subsection \<open>Tables\<close>

lemma find_update_first_same:
  assumes "\<And>x. P x \<Longrightarrow> P (f x)"
  shows "List.find P (update_first P f xs) = map_option f (List.find P xs)"
  using assms by (induction xs) auto

lemma find_update_first_other:
  assumes "\<And>x. Q x \<Longrightarrow> \<not> P x \<and> \<not> P (f x)"
  shows "List.find P (update_first Q f xs) = List.find P xs"
  using assms by (induction xs) auto

lemma find_append_one:
  "List.find P (xs @ [y]) =
     (case List.find P xs of Some x \<Rightarrow> Some x | None \<Rightarrow> if P y then Some y else None)"
  by (induction xs) auto

lemma dict_of_append:
  "dict_of key val (rows @ [r]) = (dict_of key val rows)(key r \<mapsto> val r)"
  by (simp add: dict_of_def)

subsection \<open>What each block of a loop body changes\<close>

lemma overtime_late_step_counts [simp]:
  "present_days (overtime_late_step t a) = present_days t"
  "late_days (overtime_late_step t a) = late_days t"
  "absent_days (overtime_late_step t a) = absent_days t"
  "paid_leave_days (overtime_late_step t a) = paid_leave_days t"
  "unpaid_leave_days (overtime_late_step t a) = unpaid_leave_days t"
  "unmarked_days (overtime_late_step t a) = unmarked_days t"
  "fine_deduction (overtime_late_step t a) = fine_deduction t"
  by (simp_all add: overtime_late_step_def Let_def)

lemma overtime_late_step_minutes [simp]:
  "overtime_minutes (overtime_late_step t a)
     = overtime_minutes t + accrued_minutes (Some a)"
  by (simp add: overtime_late_step_def Let_def accrued_minutes_def accrues_overtime_def)

lemma fine_step_fields [simp]:
  "present_days (fine_step t a) = present_days t"
  "late_days (fine_step t a) = late_days t"
  "absent_days (fine_step t a) = absent_days t"
  "paid_leave_days (fine_step t a) = paid_leave_days t"
  "unpaid_leave_days (fine_step t a) = unpaid_leave_days t"
  "unmarked_days (fine_step t a) = unmarked_days t"
  "overtime_minutes (fine_step t a) = overtime_minutes t"
  "overtime_pay (fine_step t a) = overtime_pay t"
  "overtime_rate (fine_step t a) = overtime_rate t"
  "late_minutes (fine_step t a) = late_minutes t"
  "late_deduction (fine_step t a) = late_deduction t"
  by (simp_all add: fine_step_def)

lemma count_status_fields [simp]:
  "unmarked_days (count_status t a) = unmarked_days t"
  "overtime_minutes (count_status t a) = overtime_minutes t"
  "overtime_pay (count_status t a) = overtime_pay t"
  "overtime_rate (count_status t a) = overtime_rate t"
  "late_minutes (count_status t a) = late_minutes t"
  "late_deduction (count_status t a) = late_deduction t"
  "fine_deduction (count_status t a) = fine_deduction t"
  by (simp_all add: count_status_def Let_def)

lemma count_status_or_unmarked_fields [simp]:
  "overtime_minutes (count_status_or_unmarked t r) = overtime_minutes t"
  "overtime_pay (count_status_or_unmarked t r) = overtime_pay t"
  "overtime_rate (count_status_or_unmarked t r) = overtime_rate t"
  "late_minutes (count_status_or_unmarked t r) = late_minutes t"
  "late_deduction (count_status_or_unmarked t r) = late_deduction t"
  "fine_deduction (count_status_or_unmarked t r) = fine_deduction t"
  by (simp_all add: count_status_or_unmarked_def Let_def)

lemma count_status_absent:
  "absent_days (count_status t a)
     = absent_days t + (if status_text a = ''absent'' then 1 else 0)"
  by (simp add: count_status_def Let_def)

lemma days_counted_count_status:
  "days_counted (count_status t a) = days_counted t + (if status_known a then 1 else 0)"
  by (simp add: count_status_def Let_def days_counted_def status_known_def)

lemma days_counted_count_status_or_unmarked:
  "days_counted (count_status_or_unmarked t r) = days_counted t + 1"
  by (simp add: count_status_or_unmarked_def Let_def days_counted_def)

lemma days_counted_blocks [simp]:
  "days_counted (overtime_late_step t a) = days_counted t"
  "days_counted (fine_step t a) = days_counted t"
  by (simp_all add: days_counted_def)

lemma days_counted_range_day:
  "days_counted (range_day m emp dcur t) = days_counted t + 1"
  by (simp add: range_day_def Let_def days_counted_count_status_or_unmarked
      split: option.splits)

lemma days_counted_range2_day:
  "days_counted (range2_day m emp dcur t)
     = days_counted t
       + (case lookup_day m emp dcur of
            None \<Rightarrow> 0 | Some a \<Rightarrow> if status_known a then 1 else 0)"
  by (simp add: range2_day_def days_counted_count_status split: option.splits)

lemma unmarked_days_range2_day [simp]:
  "unmarked_days (range2_day m emp dcur t) = unmarked_days t"
  by (simp add: range2_day_def split: option.splits)

lemma overtime_minutes_range_day:
  "overtime_minutes (range_day m emp dcur t)
     = overtime_minutes t + accrued_minutes (lookup_day m emp dcur)"
  by (simp add: range_day_def Let_def accrued_minutes_def split: option.splits)

lemma overtime_minutes_range2_day:
  "overtime_minutes (range2_day m emp dcur t)
     = overtime_minutes t + accrued_minutes (lookup_day m emp dcur)"
  by (simp add: range2_day_def accrued_minutes_def split: option.splits)

subsection \<open>The calendar-month loop\<close>

lemma foldl_month_step_absent:
  "absent_days (foldl month_step t recs)
     = absent_days t + int (length (filter (\<lambda>a. status_text a = ''absent'') recs))"
  by (induction recs arbitrary: t) (simp_all add: month_step_def count_status_absent)

lemma foldl_month_step_counted:
  "days_counted (foldl month_step t recs)
     = days_counted t + int (length (filter status_known recs))"
  by (induction recs arbitrary: t) (simp_all add: month_step_def days_counted_count_status)

lemma foldl_month_step_unmarked:
  "unmarked_days (foldl month_step t recs) = unmarked_days t"
  by (induction recs arbitrary: t) (simp_all add: month_step_def)

lemma foldl_month_step_minutes:
  "overtime_minutes (foldl month_step t recs)
     = overtime_minutes t
       + sum_list (map (\<lambda>a. int_or0 (a_overtime_minutes a)) (filter accrues_overtime recs))"
  by (induction recs arbitrary: t)
     (simp_all add: month_step_def accrued_minutes_def)

subsection \<open>The day walk\<close>

lemma day_walk_counted:
  assumes "day_walk body dcur end' t = Inr t'"
      and "\<And>d u. days_counted (body d u) = days_counted u + 1"
  shows "days_counted t' = days_counted t + max 0 (toordinal end' - toordinal dcur + 1)"
  using assms
proof (induction body dcur end' t rule: day_walk.induct)
  case (1 body dcur end' t)
  note dw = day_walk.simps [of body dcur end' t]
  show ?case
  proof (cases "date_le dcur end'")
    case False
    with "1.prems" show ?thesis by (simp add: dw date_le_def)
  next
    case True
    with "1.prems"(1) obtain nd where nd: "add_one_day dcur = Inr nd"
      and w: "day_walk body nd end' (body dcur t) = Inr t'"
      by (auto simp: dw split: sum.splits)
    from nd have ord: "toordinal nd = toordinal dcur + 1"
      by (auto simp: add_one_day_def Let_def split: if_splits)
    from "1.IH" [OF True nd w "1.prems"(2)] True ord "1.prems"(2)
    show ?thesis by (simp add: date_le_def)
  qed
qed

lemma day_walk_bounded:
  assumes "day_walk body dcur end' t = Inr t'"
      and "\<And>d u. days_counted u \<le> days_counted (body d u)
                  \<and> days_counted (body d u) \<le> days_counted u + 1"
  shows "days_counted t \<le> days_counted t'
         \<and> days_counted t' \<le> days_counted t + max 0 (toordinal end' - toordinal dcur + 1)"
  using assms
proof (induction body dcur end' t rule: day_walk.induct)
  case (1 body dcur end' t)
  note dw = day_walk.simps [of body dcur end' t]
  show ?case
  proof (cases "date_le dcur end'")
    case False
    with "1.prems" show ?thesis by (simp add: dw date_le_def)
  next
    case True
    with "1.prems"(1) obtain nd where nd: "add_one_day dcur = Inr nd"
      and w: "day_walk body nd end' (body dcur t) = Inr t'"
      by (auto simp: dw split: sum.splits)
    from nd have ord: "toordinal nd = toordinal dcur + 1"
      by (auto simp: add_one_day_def Let_def split: if_splits)
    from "1.IH" [OF True nd w "1.prems"(2)] True ord "1.prems"(2) [of t dcur]
    show ?thesis by (simp add: date_le_def)
  qed
qed

lemma day_walk_unmarked:
  assumes "day_walk body dcur end' t = Inr t'"
      and "\<And>d u. unmarked_days (body d u) = unmarked_days u"
  shows "unmarked_days t' = unmarked_days t"
  using assms
proof (induction body dcur end' t rule: day_walk.induct)
  case (1 body dcur end' t)
  note dw = day_walk.simps [of body dcur end' t]
  show ?case
  proof (cases "date_le dcur end'")
    case False
    with "1.prems" show ?thesis by (simp add: dw)
  next
    case True
    with "1.prems"(1) obtain nd where nd: "add_one_day dcur = Inr nd"
      and w: "day_walk body nd end' (body dcur t) = Inr t'"
      by (auto simp: dw split: sum.splits)
    from "1.IH" [OF True nd w "1.prems"(2)] "1.prems"(2)
    show ?thesis by simp
  qed
qed

text \<open>The walk returns unless it would step past the last date.\<close>

lemma day_walk_returns:
  assumes "0 \<le> toordinal dcur" and "toordinal end' < MAXORDINAL"
  shows "\<exists>t'. day_walk body dcur end' t = Inr t'"
  using assms
proof (induction body dcur end' t rule: day_walk.induct)
  case (1 body dcur end' t)
  note dw = day_walk.simps [of body dcur end' t]
  show ?case
  proof (cases "date_le dcur end'")
    case False
    then show ?thesis by (simp add: dw)
  next
    case True
    with "1.prems" have nd: "add_one_day dcur = Inr (Date (toordinal dcur + 1))"
      by (simp add: add_one_day_def Let_def date_le_def)
    from "1.IH" [OF True nd] "1.prems" obtain t' where
      "day_walk body (Date (toordinal dcur + 1)) end' (body dcur t) = Inr t'"
      by auto
    with True nd show ?thesis by (simp add: dw)
  qed
qed

subsection \<open>The rows of a report\<close>

lemma payroll_report_rows:
  assumes "payroll_report env d month = Inr rep"
  shows "\<exists>start end'. parse_month month = Inr (start, end')
           \<and> mrep_rows rep = month_rows env d month start end'"
  using assms by (auto simp: payroll_report_def Let_def split: sum.splits prod.splits)

lemma payroll_report_ok:
  assumes "parse_month month = Inr (start, end')"
  shows "\<exists>rep. payroll_report env d month = Inr rep
           \<and> mrep_rows rep = month_rows env d month start end'"
  using assms by (simp add: payroll_report_def Let_def)

lemma payroll_range_report_rows:
  assumes "payroll_range_report env d from_date to_date month = Inr rep"
  shows "\<exists>start end'.
           parse_date from_date ''from_date'' = Inr start
           \<and> parse_date to_date ''to_date'' = Inr end'
           \<and> toordinal start \<le> toordinal end'
           \<and> map_result
                (range_row_for env (range_ctx_of d start end' (month_label_or month end')))
                (sort_key serial_sort_key (filter (eligible end') (employees d)))
               = Inr (rrep_rows rep)"
  using assms
  by (auto simp: payroll_range_report_def Let_def split: sum.splits if_splits)

lemma payroll2_range_report_rows:
  assumes "payroll2_range_report env d from_date to_date month = Inr rep"
  shows "\<exists>start end'.
           parse_date from_date ''from_date'' = Inr start
           \<and> parse_date to_date ''to_date'' = Inr end'
           \<and> toordinal start \<le> toordinal end'
           \<and> map_result
                (range2_row_for env (range_ctx_of d start end' (month_label_or month end')))
                (sort_key serial_sort_key (filter (eligible end') (employees d)))
               = Inr (qrep_rows rep)"
  using assms
  by (auto simp: payroll2_range_report_def Let_def split: sum.splits if_splits)

lemma range_row_for_Inr:
  assumes "range_row_for env c e = Inr r"
  shows "\<exists>t. day_walk (range_day (c_by_emp_by_date c) (range_employee_id e))
                (c_start c) (c_end c) tally0 = Inr t
             \<and> r = range_row_of env c e t"
  using assms by (auto simp: range_row_for_def split: sum.splits)

lemma range2_row_for_Inr:
  assumes "range2_row_for env c e = Inr r"
  shows "\<exists>t. day_walk (range2_day (c_by_emp_by_date c) (range_employee_id e))
                (c_start c) (c_end c) tally0 = Inr t
             \<and> r = range2_row_of env c e t"
  using assms by (auto simp: range2_row_for_def split: sum.splits)

text \<open>Every row of a range report is the row of an employee, after that employee's walk.\<close>

lemma range_report_row:
  assumes "payroll_range_report env d from_date to_date month = Inr rep"
      and "r \<in> set (rrep_rows rep)"
  shows "\<exists>start end' e t.
           parse_date from_date ''from_date'' = Inr start
           \<and> parse_date to_date ''to_date'' = Inr end'
           \<and> toordinal start \<le> toordinal end'
           \<and> e \<in> set (employees d)
           \<and> day_walk (range_day (by_emp_by_date (filter (in_period start end') (attendance d)))
                          (range_employee_id e)) start end' tally0 = Inr t
           \<and> r = range_row_of env (range_ctx_of d start end' (month_label_or month end')) e t"
proof -
  from payroll_range_report_rows [OF assms(1)] obtain start end' where
    p: "parse_date from_date ''from_date'' = Inr start"
       "parse_date to_date ''to_date'' = Inr end'" "toordinal start \<le> toordinal end'"
    and m: "map_result
              (range_row_for env (range_ctx_of d start end' (month_label_or month end')))
              (sort_key serial_sort_key (filter (eligible end') (employees d)))
            = Inr (rrep_rows rep)"
    by blast
  from map_result_mem [OF m assms(2)] obtain e where
    e: "e \<in> set (employees d)"
    and r: "range_row_for env (range_ctx_of d start end' (month_label_or month end')) e = Inr r"
    by auto
  from range_row_for_Inr [OF r] obtain t where
    "day_walk (range_day (by_emp_by_date (filter (in_period start end') (attendance d)))
                (range_employee_id e)) start end' tally0 = Inr t"
    "r = range_row_of env (range_ctx_of d start end' (month_label_or month end')) e t"
    by (auto simp: range_ctx_of_def)
  with p e show ?thesis by blast
qed

lemma range2_report_row:
  assumes "payroll2_range_report env d from_date to_date month = Inr rep"
      and "r \<in> set (qrep_rows rep)"
  shows "\<exists>start end' e t.
           parse_date from_date ''from_date'' = Inr start
           \<and> parse_date to_date ''to_date'' = Inr end'
           \<and> toordinal start \<le> toordinal end'
           \<and> e \<in> set (employees d)
           \<and> day_walk (range2_day (by_emp_by_date (filter (in_period start end') (attendance d)))
                          (range_employee_id e)) start end' tally0 = Inr t
           \<and> r = range2_row_of env (range_ctx_of d start end' (month_label_or month end')) e t"
proof -
  from payroll2_range_report_rows [OF assms(1)] obtain start end' where
    p: "parse_date from_date ''from_date'' = Inr start"
       "parse_date to_date ''to_date'' = Inr end'" "toordinal start \<le> toordinal end'"
    and m: "map_result
              (range2_row_for env (range_ctx_of d start end' (month_label_or month end')))
              (sort_key serial_sort_key (filter (eligible end') (employees d)))
            = Inr (qrep_rows rep)"
    by blast
  from map_result_mem [OF m assms(2)] obtain e where
    e: "e \<in> set (employees d)"
    and r: "range2_row_for env (range_ctx_of d start end' (month_label_or month end')) e = Inr r"
    by auto
  from range2_row_for_Inr [OF r] obtain t where
    "day_walk (range2_day (by_emp_by_date (filter (in_period start end') (attendance d)))
                (range_employee_id e)) start end' tally0 = Inr t"
    "r = range2_row_of env (range_ctx_of d start end' (month_label_or month end')) e t"
    by (auto simp: range_ctx_of_def)
  with p e show ?thesis by blast
qed

text \<open>The fields of a row in terms of the final counters.\<close>

lemma range_row_of_pay:
  fixes r :: range_row
  assumes "r = range_row_of env c e t"
  shows "r_day_rate r
           = (if r_working_days r \<le> 0 then 0 else r_base_salary r / of_int (r_working_days r))"
    and "r_total_days r = max 0 (r_present_days r + r_late_days r + r_leave_encashment_days r)"
    and "r_total_salary r = of_int (r_total_days r) * r_day_rate r"
    and "r_gross_pay r
           = r_total_salary r + r_overtime_rate r + r_overtime_pay r + r_allowances r
             + r_allow_other r"
    and "r_net_pay r
           = r_gross_pay r - r_eobi r - r_tax r
             - (r_fine_deduction r + r_advance_deduction r + r_fine_adv_extra r)
             - r_late_deduction r"
    and "r_allowances r = 0"
  using assms by (simp_all add: range_row_of_def Let_def max_def)

lemma range2_row_of_pay:
  fixes q :: range2_row
  assumes "q = range2_row_of env c e t"
  shows "q_day_rate q
           = (if q_working_days q \<le> 0 then 0 else q_base_salary q / of_int (q_working_days q))"
    and "q_presents_total q = q_present_days q + q_late_days q"
    and "q_total_days q = max 0 (q_presents_total q + q_leave_encashment_days q)"
    and "q_total_salary q = of_int (q_total_days q) * q_day_rate q"
    and "q_gross_pay q
           = q_total_salary q + q_overtime_rate q + q_overtime_pay q + 0 + q_allow_other q"
    and "q_net_pay q
           = q_gross_pay q - q_eobi q - q_tax q
             - (q_fine_deduction q + q_advance_deduction q + q_fine_adv_extra q)
             - q_late_deduction q"
  using assms by (simp_all add: range2_row_of_def Let_def max_def)

subsection \<open>The rows of the calendar-month report\<close>

lemma by_emp_snoc:
  "by_emp (recs @ [r])
     = (by_emp recs)(a_employee_id r \<mapsto>
          (case by_emp recs (a_employee_id r) of None \<Rightarrow> [] | Some l \<Rightarrow> l) @ [r])"
  by (simp add: by_emp_def)

lemma by_emp_get:
  "(case by_emp recs k of None \<Rightarrow> [] | Some l \<Rightarrow> l) = filter (\<lambda>a. a_employee_id a = k) recs"
proof (induction recs rule: rev_induct)
  case Nil
  then show ?case by (simp add: by_emp_def)
next
  case (snoc r recs)
  then show ?case by (simp add: by_emp_snoc)
qed

text \<open>The records the calendar-month loop of an employee runs over.\<close>

lemma month_records:
  "(case by_emp (filter (in_period start end') recs) (Some employee_id) of
      None \<Rightarrow> [] | Some l \<Rightarrow> l)
   = filter (\<lambda>a. a_employee_id a = Some employee_id \<and> in_period start end' a) recs"
  by (simp add: by_emp_get conj_commute)

lemma month_report_row:
  assumes "payroll_report env d month = Inr rep" and "r \<in> set (mrep_rows rep)"
  shows "\<exists>start end' e.
           parse_month month = Inr (start, end')
           \<and> r = month_row_of env (by_emp (filter (in_period start end') (attendance d)))
                   (paid_status_for d month) (advances_for d month) e"
proof -
  from payroll_report_rows [OF assms(1)] obtain start end' where
    p: "parse_month month = Inr (start, end')"
    and rows: "mrep_rows rep = month_rows env d month start end'"
    by blast
  from assms(2) rows obtain e where
    "r = month_row_of env (by_emp (filter (in_period start end') (attendance d)))
           (paid_status_for d month) (advances_for d month) e"
    by (auto simp: month_rows_def Let_def)
  with p show ?thesis by blast
qed

lemma month_row_of_fields:
  fixes r :: month_row
  assumes "r = month_row_of env b ps adv e"
  defines "t \<equiv> foldl month_step tally0
                 (case b (Some (m_employee_id r)) of None \<Rightarrow> [] | Some l \<Rightarrow> l)"
  shows "m_employee_id r = month_employee_id e"
    and "m_present_days r = present_days t" and "m_late_days r = late_days t"
    and "m_absent_days r = absent_days t" and "m_paid_leave_days r = paid_leave_days t"
    and "m_unpaid_leave_days r = unpaid_leave_days t"
    and "m_overtime_minutes r = overtime_minutes t"
  using assms by (simp_all add: month_row_of_def Let_def)

lemma month_row_of_pay:
  fixes r :: month_row
  assumes "r = month_row_of env b ps adv e"
  shows "m_gross_pay r = m_base_salary r + m_allowances r + m_overtime_rate r + m_overtime_pay r"
    and "m_net_pay r
           = m_gross_pay r - m_late_deduction r - m_unpaid_leave_deduction r
             - m_advance_deduction r"
    and "m_unpaid_leave_deduction r = of_int (m_unpaid_leave_days r) * 1000"
    and "m_allowances r = 0"
    and "m_base_salary r = to_float env (e_salary e)"
    and "m_advance_deduction r = adv_ded_of adv e"
  using assms by (simp_all add: month_row_of_def Let_def)

lemma tally0_fields [simp]:
  "days_counted tally0 = 0" "unmarked_days tally0 = 0" "absent_days tally0 = 0"
  "overtime_minutes tally0 = 0"
  by (simp_all add: tally0_def days_counted_def)

lemma month_row_absent:
  fixes r :: month_row
  assumes "r = month_row_of env (by_emp (filter (in_period start end') recs)) ps adv e"
  shows "m_absent_days r
           = int (length (filter (\<lambda>a. a_employee_id a = Some (m_employee_id r)
                                      \<and> in_period start end' a
                                      \<and> status_text a = ''absent'') recs))"
proof -
  have "m_absent_days r
          = int (length (filter (\<lambda>a. status_text a = ''absent'')
                  (filter (\<lambda>a. a_employee_id a = Some (m_employee_id r)
                               \<and> in_period start end' a) recs)))"
    using month_row_of_fields(4) [OF assms]
    by (simp add: month_records foldl_month_step_absent)
  then show ?thesis by (simp add: conj_commute conj_left_commute)
qed

lemma month_row_counted:
  fixes r :: month_row
  assumes "r = month_row_of env (by_emp (filter (in_period start end') recs)) ps adv e"
  shows "m_present_days r + m_late_days r + m_absent_days r + m_paid_leave_days r
           + m_unpaid_leave_days r
         = int (length (filter (\<lambda>a. a_employee_id a = Some (m_employee_id r)
                                    \<and> in_period start end' a \<and> status_known a) recs))"
proof -
  let ?l = "filter (\<lambda>a. a_employee_id a = Some (m_employee_id r) \<and> in_period start end' a) recs"
  let ?t = "foldl month_step tally0 ?l"
  have "m_present_days r + m_late_days r + m_absent_days r + m_paid_leave_days r
           + m_unpaid_leave_days r = days_counted ?t - unmarked_days ?t"
    using month_row_of_fields(2-6) [OF assms]
    by (simp add: month_records days_counted_def)
  also have "\<dots> = int (length (filter status_known ?l))"
    by (simp add: foldl_month_step_counted foldl_month_step_unmarked)
  finally show ?thesis by (simp add: conj_commute conj_left_commute)
qed

subsection \<open>C1: the pay formulas of the date-range reports\<close>

text \<open>
  C1. In the date-range report of both engines, every row satisfies
  day_rate = base_salary / working_days (0 if working_days is not positive),
  presents_total = present_days + late_days,
  total_days = max(0, presents_total + leave_encashment_days),
  total_salary = total_days * day_rate,
  gross_pay = total_salary + overtime_rate + overtime_pay + allowances + allow_other and
  net_pay = gross_pay - eobi - tax - (fine_deduction + advance_deduction + fine_adv_extra)
  - late_deduction. The row of payroll.py has no \<^verbatim>\<open>presents_total\<close> field (the sum
  stands in its place) and \<^verbatim>\<open>allowances\<close> is 0 there; the row of payroll2.py has no
  \<^verbatim>\<open>allowances\<close> field and its gross pay has no such term, which is the formula with
  allowances 0.
\<close>

theorem range_rows_follow_pay_formulas:
  "(payroll_range_report env d from_date to_date month = Inr rep \<longrightarrow>
      (\<forall>r \<in> set (rrep_rows rep).
         r_day_rate r
           = (if r_working_days r \<le> 0 then 0 else r_base_salary r / of_int (r_working_days r))
         \<and> r_total_days r
             = max 0 (r_present_days r + r_late_days r + r_leave_encashment_days r)
         \<and> r_total_salary r = of_int (r_total_days r) * r_day_rate r
         \<and> r_gross_pay r
             = r_total_salary r + r_overtime_rate r + r_overtime_pay r + r_allowances r
               + r_allow_other r
         \<and> r_net_pay r
             = r_gross_pay r - r_eobi r - r_tax r
               - (r_fine_deduction r + r_advance_deduction r + r_fine_adv_extra r)
               - r_late_deduction r))
   \<and> (payroll2_range_report env d from_date to_date month = Inr rep2 \<longrightarrow>
      (\<forall>q \<in> set (qrep_rows rep2).
         q_day_rate q
           = (if q_working_days q \<le> 0 then 0 else q_base_salary q / of_int (q_working_days q))
         \<and> q_presents_total q = q_present_days q + q_late_days q
         \<and> q_total_days q = max 0 (q_presents_total q + q_leave_encashment_days q)
         \<and> q_total_salary q = of_int (q_total_days q) * q_day_rate q
         \<and> q_gross_pay q
             = q_total_salary q + q_overtime_rate q + q_overtime_pay q + 0 + q_allow_other q
         \<and> q_net_pay q
             = q_gross_pay q - q_eobi q - q_tax q
               - (q_fine_deduction q + q_advance_deduction q + q_fine_adv_extra q)
               - q_late_deduction q))"
proof (intro conjI impI ballI)
  fix r
  assume "payroll_range_report env d from_date to_date month = Inr rep"
    and "r \<in> set (rrep_rows rep)"
  from range_report_row [OF this] obtain c e t where r: "r = range_row_of env c e t"
    by blast
  show "r_day_rate r
          = (if r_working_days r \<le> 0 then 0 else r_base_salary r / of_int (r_working_days r))"
    by (rule range_row_of_pay(1) [OF r])
  show "r_total_days r = max 0 (r_present_days r + r_late_days r + r_leave_encashment_days r)"
    by (rule range_row_of_pay(2) [OF r])
  show "r_total_salary r = of_int (r_total_days r) * r_day_rate r"
    by (rule range_row_of_pay(3) [OF r])
  show "r_gross_pay r
          = r_total_salary r + r_overtime_rate r + r_overtime_pay r + r_allowances r
            + r_allow_other r"
    by (rule range_row_of_pay(4) [OF r])
  show "r_net_pay r
          = r_gross_pay r - r_eobi r - r_tax r
            - (r_fine_deduction r + r_advance_deduction r + r_fine_adv_extra r)
            - r_late_deduction r"
    by (rule range_row_of_pay(5) [OF r])
next
  fix q
  assume "payroll2_range_report env d from_date to_date month = Inr rep2"
    and "q \<in> set (qrep_rows rep2)"
  from range2_report_row [OF this] obtain c e t where q: "q = range2_row_of env c e t"
    by blast
  show "q_day_rate q
          = (if q_working_days q \<le> 0 then 0 else q_base_salary q / of_int (q_working_days q))"
    by (rule range2_row_of_pay(1) [OF q])
  show "q_presents_total q = q_present_days q + q_late_days q"
    by (rule range2_row_of_pay(2) [OF q])
  show "q_total_days q = max 0 (q_presents_total q + q_leave_encashment_days q)"
    by (rule range2_row_of_pay(3) [OF q])
  show "q_total_salary q = of_int (q_total_days q) * q_day_rate q"
    by (rule range2_row_of_pay(4) [OF q])
  show "q_gross_pay q
          = q_total_salary q + q_overtime_rate q + q_overtime_pay q + 0 + q_allow_other q"
    by (rule range2_row_of_pay(5) [OF q])
  show "q_net_pay q
          = q_gross_pay q - q_eobi q - q_tax q
            - (q_fine_deduction q + q_advance_deduction q + q_fine_adv_extra q)
            - q_late_deduction q"
    by (rule range2_row_of_pay(6) [OF q])
qed

text \<open>
  The worked example: the period 2024-01-30..2024-02-01 has 3 working days, so the day
  rate is 1000; one present day and one leave-encashment day give 2 total days and a
  total salary of 2000; gross pay is 2000 + 100 + 200 + 0 + 500 = 2800 and net pay is
  2800 - 200 - 300 - (25 + 1000 + 100) - 50 = 1125, in both engines.
\<close>

theorem range_rows_follow_pay_formulas_witness:
  "(case payroll_range_report demo_env demo_db ''2024-01-30'' ''2024-02-01'' None of
      Inl err \<Rightarrow> False
    | Inr rep \<Rightarrow>
        (case rrep_rows rep of
           [r] \<Rightarrow>
             r_gross_pay r = 2800 \<and> r_net_pay r = 1125
             \<and> r_total_salary r = of_int (r_total_days r) * r_day_rate r
             \<and> r_gross_pay r
                 = r_total_salary r + r_overtime_rate r + r_overtime_pay r + r_allowances r
                   + r_allow_other r
             \<and> r_net_pay r
                 = r_gross_pay r - r_eobi r - r_tax r
                   - (r_fine_deduction r + r_advance_deduction r + r_fine_adv_extra r)
                   - r_late_deduction r
         | _ \<Rightarrow> False))
   \<and> (case payroll2_range_report demo_env demo_db ''2024-01-30'' ''2024-02-01'' None of
      Inl err \<Rightarrow> False
    | Inr rep \<Rightarrow>
        (case qrep_rows rep of
           [q] \<Rightarrow>
             q_gross_pay q = 2800 \<and> q_net_pay q = 1125
             \<and> q_total_salary q = of_int (q_total_days q) * q_day_rate q
             \<and> q_gross_pay q
                 = q_total_salary q + q_overtime_rate q + q_overtime_pay q + 0 + q_allow_other q
             \<and> q_net_pay q
                 = q_gross_pay q - q_eobi q - q_tax q
                   - (q_fine_deduction q + q_advance_deduction q + q_fine_adv_extra q)
                   - q_late_deduction q
         | _ \<Rightarrow> False))"
proof -
  have e1: "case payroll_range_report demo_env demo_db ''2024-01-30'' ''2024-02-01'' None of
      Inl err \<Rightarrow> False
    | Inr rep \<Rightarrow> map (\<lambda>r. (r_gross_pay r, r_net_pay r)) (rrep_rows rep) = [(2800, 1125)]"
    by code_simp
  have e2: "case payroll2_range_report demo_env demo_db ''2024-01-30'' ''2024-02-01'' None of
      Inl err \<Rightarrow> False
    | Inr rep \<Rightarrow> map (\<lambda>q. (q_gross_pay q, q_net_pay q)) (qrep_rows rep) = [(2800, 1125)]"
    by code_simp
  from e1 obtain rep r where
    rep: "payroll_range_report demo_env demo_db ''2024-01-30'' ''2024-02-01'' None = Inr rep"
    and r: "rrep_rows rep = [r]" "r_gross_pay r = 2800" "r_net_pay r = 1125"
    by (auto split: sum.splits)
  from e2 obtain rep2 q where
    rep2: "payroll2_range_report demo_env demo_db ''2024-01-30'' ''2024-02-01'' None = Inr rep2"
    and q: "qrep_rows rep2 = [q]" "q_gross_pay q = 2800" "q_net_pay q = 1125"
    by (auto split: sum.splits)
  note th = range_rows_follow_pay_formulas
              [of demo_env demo_db "''2024-01-30''" "''2024-02-01''" None rep rep2]
  have rin: "r \<in> set (rrep_rows rep)" and qin: "q \<in> set (qrep_rows rep2)"
    using r(1) q(1) by simp_all
  note f = th [THEN conjunct1, rule_format, OF rep rin]
           th [THEN conjunct2, rule_format, OF rep2 qin]
  show ?thesis
    unfolding rep rep2 sum.case r(1) q(1) list.case
    using r(2,3) q(2,3) f by blast
qed

subsection \<open>C3 and C5: the day categories\<close>

lemma range_row_of_counts:
  fixes r :: range_row
  assumes "r = range_row_of env c e t"
  shows "r_present_days r + r_late_days r + r_absent_days r + r_paid_leave_days r
           + r_unpaid_leave_days r + r_unmarked_days r = days_counted t"
    and "r_working_days r = c_working_days c"
  using assms by (simp_all add: range_row_of_def Let_def days_counted_def)

lemma range2_row_of_counts:
  fixes q :: range2_row
  assumes "q = range2_row_of env c e t"
  shows "q_present_days q + q_late_days q + q_absent_days q + q_paid_leave_days q
           + q_unpaid_leave_days q = days_counted t - unmarked_days t"
    and "q_working_days q = c_working_days c"
    and "q_employee_id q = range_employee_id e"
  using assms by (simp_all add: range2_row_of_def Let_def days_counted_def)

text \<open>What a walk adds to a counter, day by day.\<close>

lemma int_interval_first:
  fixes a b :: int
  assumes "a \<le> b"
  shows "{a..b} = insert a {a + 1..b}"
  using assms by auto

lemma day_walk_sum:
  fixes g :: "tally \<Rightarrow> int"
  assumes "day_walk body dcur end' t = Inr t'"
      and "\<And>d u. g (body d u) = g u + f d"
  shows "g t' = g t + (\<Sum>i = toordinal dcur..toordinal end'. f (Date i))"
  using assms
proof (induction body dcur end' t rule: day_walk.induct)
  case (1 body dcur end' t)
  note dw = day_walk.simps [of body dcur end' t]
  show ?case
  proof (cases "date_le dcur end'")
    case False
    with "1.prems" show ?thesis by (simp add: dw date_le_def)
  next
    case True
    with "1.prems"(1) obtain nd where nd: "add_one_day dcur = Inr nd"
      and w: "day_walk body nd end' (body dcur t) = Inr t'"
      by (auto simp: dw split: sum.splits)
    from nd have ord: "toordinal nd = toordinal dcur + 1"
      by (auto simp: add_one_day_def Let_def split: if_splits)
    from True have le: "toordinal dcur \<le> toordinal end'"
      by (simp add: date_le_def)
    have "(\<Sum>i = toordinal dcur..toordinal end'. f (Date i))
            = f (Date (toordinal dcur)) + (\<Sum>i = toordinal dcur + 1..toordinal end'. f (Date i))"
      by (simp add: int_interval_first [OF le])
    with "1.IH" [OF True nd w "1.prems"(2)] ord "1.prems"(2) [of dcur t]
    show ?thesis by simp
  qed
qed

text \<open>The dictionary of the range reports holds, per employee and day, the last record.\<close>

lemma by_emp_by_date_snoc:
  "by_emp_by_date (recs @ [r])
     = (by_emp_by_date recs)(py_strip (or_str (a_employee_id r) []) \<mapsto>
          (case by_emp_by_date recs (py_strip (or_str (a_employee_id r) [])) of
             None \<Rightarrow> Map.empty | Some i \<Rightarrow> i)(a_date r \<mapsto> r))"
  by (simp add: by_emp_by_date_def Let_def)

lemma lookup_day_by_emp_by_date:
  "lookup_day (by_emp_by_date recs) employee_id day = day_record recs employee_id day"
proof (induction recs rule: rev_induct)
  case Nil
  then show ?case by (simp add: by_emp_by_date_def lookup_day_def day_record_def)
next
  case (snoc r recs)
  then show ?case
    by (auto simp: by_emp_by_date_snoc lookup_day_def day_record_def split: option.splits)
qed

lemma find_filter:
  "List.find Q (filter P xs) = List.find (\<lambda>x. P x \<and> Q x) xs"
  by (induction xs) auto

lemma day_record_in_period:
  assumes "toordinal start \<le> i" and "i \<le> toordinal end'"
  shows "day_record (filter (in_period start end') recs) employee_id (Date i)
           = day_record recs employee_id (Date i)"
proof -
  have "List.find (\<lambda>a. in_period start end' a
                        \<and> py_strip (or_str (a_employee_id a) []) = employee_id
                        \<and> a_date a = Date i) (rev recs)
        = List.find (\<lambda>a. py_strip (or_str (a_employee_id a) []) = employee_id
                          \<and> a_date a = Date i) (rev recs)"
    using assms by (intro find_cong) (auto simp: in_period_def date_le_def)
  then show ?thesis
    by (simp add: day_record_def rev_filter find_filter)
qed

text \<open>The five counts of a payroll2 row: the days whose record has a known status.\<close>

lemma range2_walk_counted:
  assumes "day_walk (range2_day (by_emp_by_date (filter (in_period start end') recs)) emp)
             start end' tally0 = Inr t"
  shows "days_counted t - unmarked_days t
           = (\<Sum>i = toordinal start..toordinal end'.
                case day_record recs emp (Date i) of
                  None \<Rightarrow> 0 | Some a \<Rightarrow> if status_known a then 1 else 0)"
proof -
  let ?m = "by_emp_by_date (filter (in_period start end') recs)"
  let ?f = "\<lambda>d. case lookup_day ?m emp d of
                   None \<Rightarrow> (0::int) | Some a \<Rightarrow> if status_known a then 1 else 0"
  have "days_counted t
          = days_counted tally0 + (\<Sum>i = toordinal start..toordinal end'. ?f (Date i))"
    by (rule day_walk_sum [OF assms]) (simp add: days_counted_range2_day)
  moreover have "unmarked_days t = 0"
    using day_walk_unmarked [OF assms] by simp
  moreover have "(\<Sum>i = toordinal start..toordinal end'. ?f (Date i))
                   = (\<Sum>i = toordinal start..toordinal end'.
                        case day_record recs emp (Date i) of
                          None \<Rightarrow> 0 | Some a \<Rightarrow> if status_known a then 1 else 0)"
    by (intro sum.cong refl) (simp add: lookup_day_by_emp_by_date day_record_in_period)
  ultimately show ?thesis by simp
qed

text \<open>
  C3, as the claim states it, fails: the calendar-month report runs over the employee's
  records only and payroll2 skips a day without a record, so such a day is counted
  nowhere. For January 2024 (31 days) the employee of the example store has one record,
  and the five counts of the calendar-month row add up to 1; over 2024-01-30..2024-02-01
  (3 working days) the five counts of the payroll2 row add up to 1 as well.
\<close>

theorem day_categories_counterexample:
  "parse_month ''2024-01'' = Inr (Date 738886, Date 738916)
   \<and> days_inclusive (Date 738886) (Date 738916) = 31
   \<and> (case payroll_report demo_env demo_db ''2024-01'' of
         Inl err \<Rightarrow> False
       | Inr rep \<Rightarrow>
           map (\<lambda>r. m_present_days r + m_late_days r + m_absent_days r + m_paid_leave_days r
                      + m_unpaid_leave_days r) (mrep_rows rep) = [1])
   \<and> (case payroll2_range_report demo_env demo_db ''2024-01-30'' ''2024-02-01'' None of
         Inl err \<Rightarrow> False
       | Inr rep \<Rightarrow>
           map (\<lambda>q. (q_working_days q,
                      q_present_days q + q_late_days q + q_absent_days q + q_paid_leave_days q
                      + q_unpaid_leave_days q)) (qrep_rows rep) = [(3, 1)])"
  by code_simp

text \<open>
  C3, amended. In the date-range report of payroll.py the six counts (unmarked days
  included) of every row add up to working_days, the inclusive day count of the
  requested period. The calendar-month report and the range report of payroll2.py have
  no unmarked count and count a day without a record, or with a status that is none of
  present, late, absent and leave, in no category: in payroll2 the five counts add up to
  the number of days of the period for which the employee's record (the last one of the
  day) has one of the four statuses, and in the calendar-month report to the number of
  the employee's records in the period with one of the four statuses.
\<close>

theorem day_categories_partition:
  "(payroll_range_report env d from_date to_date month = Inr rep \<longrightarrow>
      (\<exists>start end'.
         parse_date from_date ''from_date'' = Inr start
         \<and> parse_date to_date ''to_date'' = Inr end'
         \<and> (\<forall>r \<in> set (rrep_rows rep).
               r_working_days r = days_inclusive start end'
               \<and> r_present_days r + r_late_days r + r_absent_days r + r_paid_leave_days r
                   + r_unpaid_leave_days r + r_unmarked_days r = r_working_days r)))
   \<and> (payroll2_range_report env d from_date to_date month = Inr rep2 \<longrightarrow>
      (\<exists>start end'.
         parse_date from_date ''from_date'' = Inr start
         \<and> parse_date to_date ''to_date'' = Inr end'
         \<and> (\<forall>q \<in> set (qrep_rows rep2).
               q_working_days q = days_inclusive start end'
               \<and> q_present_days q + q_late_days q + q_absent_days q + q_paid_leave_days q
                   + q_unpaid_leave_days q
                 = (\<Sum>i = toordinal start..toordinal end'.
                      case day_record (attendance d) (q_employee_id q) (Date i) of
                        None \<Rightarrow> 0
                      | Some a \<Rightarrow> if status_known a then 1 else 0))))
   \<and> (payroll_report env d label = Inr mrep \<longrightarrow>
      (\<exists>start end'.
         parse_month label = Inr (start, end')
         \<and> (\<forall>r \<in> set (mrep_rows mrep).
               m_present_days r + m_late_days r + m_absent_days r + m_paid_leave_days r
                 + m_unpaid_leave_days r
               = int (length (filter (\<lambda>a. a_employee_id a = Some (m_employee_id r)
                                          \<and> in_period start end' a \<and> status_known a)
                                (attendance d))))))"
proof (intro conjI impI)
  assume rep: "payroll_range_report env d from_date to_date month = Inr rep"
  from payroll_range_report_rows [OF rep] obtain start end' where
    p: "parse_date from_date ''from_date'' = Inr start"
       "parse_date to_date ''to_date'' = Inr end'"
    and le: "toordinal start \<le> toordinal end'"
    by blast
  have "r_working_days r = days_inclusive start end'
        \<and> r_present_days r + r_late_days r + r_absent_days r + r_paid_leave_days r
            + r_unpaid_leave_days r + r_unmarked_days r = r_working_days r"
    if "r \<in> set (rrep_rows rep)" for r
  proof -
    from range_report_row [OF rep that] p obtain e t where
      w: "day_walk (range_day (by_emp_by_date (filter (in_period start end') (attendance d)))
                     (range_employee_id e)) start end' tally0 = Inr t"
      and r: "r = range_row_of env (range_ctx_of d start end' (month_label_or month end')) e t"
      by auto
    from day_walk_counted [OF w] le
    have "days_counted t = days_inclusive start end'"
      by (simp add: days_counted_range_day days_inclusive_def)
    with range_row_of_counts [OF r] show ?thesis
      by (simp add: range_ctx_of_def)
  qed
  with p show "\<exists>start end'.
         parse_date from_date ''from_date'' = Inr start
         \<and> parse_date to_date ''to_date'' = Inr end'
         \<and> (\<forall>r \<in> set (rrep_rows rep).
               r_working_days r = days_inclusive start end'
               \<and> r_present_days r + r_late_days r + r_absent_days r + r_paid_leave_days r
                   + r_unpaid_leave_days r + r_unmarked_days r = r_working_days r)"
    by blast
next
  assume rep2: "payroll2_range_report env d from_date to_date month = Inr rep2"
  from payroll2_range_report_rows [OF rep2] obtain start end' where
    p: "parse_date from_date ''from_date'' = Inr start"
       "parse_date to_date ''to_date'' = Inr end'"
    by blast
  have "q_working_days q = days_inclusive start end'
        \<and> q_present_days q + q_late_days q + q_absent_days q + q_paid_leave_days q
            + q_unpaid_leave_days q
          = (\<Sum>i = toordinal start..toordinal end'.
               case day_record (attendance d) (q_employee_id q) (Date i) of
                 None \<Rightarrow> 0
               | Some a \<Rightarrow> if status_known a then 1 else 0)"
    if "q \<in> set (qrep_rows rep2)" for q
  proof -
    from range2_report_row [OF rep2 that] p obtain e t where
      w: "day_walk (range2_day (by_emp_by_date (filter (in_period start end') (attendance d)))
                     (range_employee_id e)) start end' tally0 = Inr t"
      and q: "q = range2_row_of env (range_ctx_of d start end' (month_label_or month end')) e t"
      by auto
    from range2_walk_counted [OF w] range2_row_of_counts [OF q] show ?thesis
      by (simp add: range_ctx_of_def)
  qed
  with p show "\<exists>start end'.
         parse_date from_date ''from_date'' = Inr start
         \<and> parse_date to_date ''to_date'' = Inr end'
         \<and> (\<forall>q \<in> set (qrep_rows rep2).
               q_working_days q = days_inclusive start end'
               \<and> q_present_days q + q_late_days q + q_absent_days q + q_paid_leave_days q
                   + q_unpaid_leave_days q
                 = (\<Sum>i = toordinal start..toordinal end'.
                      case day_record (attendance d) (q_employee_id q) (Date i) of
                        None \<Rightarrow> 0
                      | Some a \<Rightarrow> if status_known a then 1 else 0))"
    by blast
next
  assume mrep: "payroll_report env d label = Inr mrep"
  from payroll_report_rows [OF mrep] obtain start end' where
    p: "parse_month label = Inr (start, end')"
    by blast
  have "m_present_days r + m_late_days r + m_absent_days r + m_paid_leave_days r
          + m_unpaid_leave_days r
        = int (length (filter (\<lambda>a. a_employee_id a = Some (m_employee_id r)
                                   \<and> in_period start end' a \<and> status_known a)
                         (attendance d)))"
    if "r \<in> set (mrep_rows mrep)" for r
  proof -
    from month_report_row [OF mrep that] p obtain e where
      "r = month_row_of env (by_emp (filter (in_period start end') (attendance d)))
             (paid_status_for d label) (advances_for d label) e"
      by auto
    from month_row_counted [OF this] show ?thesis .
  qed
  with p show "\<exists>start end'.
         parse_month label = Inr (start, end')
         \<and> (\<forall>r \<in> set (mrep_rows mrep).
               m_present_days r + m_late_days r + m_absent_days r + m_paid_leave_days r
                 + m_unpaid_leave_days r
               = int (length (filter (\<lambda>a. a_employee_id a = Some (m_employee_id r)
                                          \<and> in_period start end' a \<and> status_known a)
                                (attendance d))))"
    by blast
qed

text \<open>
  The worked examples. Over 2024-01-30..2024-02-01 (ordinals 738915..738917, 3 working
  days) the row of payroll.py has one present day and two unmarked days; the row of
  payroll2.py has the one present day as the sum of its five counts, the number of days
  with a record of a known status. In January 2024 the calendar-month row of the store
  with two records has the five counts add up to 2.
\<close>

theorem day_categories_partition_witness:
  "(case payroll_range_report demo_env demo_db ''2024-01-30'' ''2024-02-01'' None of
      Inl err \<Rightarrow> False
    | Inr rep \<Rightarrow>
        (case rrep_rows rep of
           [r] \<Rightarrow>
             r_working_days r = 3 \<and> r_unmarked_days r = 2
             \<and> r_present_days r + r_late_days r + r_absent_days r + r_paid_leave_days r
                 + r_unpaid_leave_days r + r_unmarked_days r = r_working_days r
         | _ \<Rightarrow> False))
   \<and> (case payroll2_range_report demo_env demo_db ''2024-01-30'' ''2024-02-01'' None of
      Inl err \<Rightarrow> False
    | Inr rep \<Rightarrow>
        (case qrep_rows rep of
           [q] \<Rightarrow>
             q_working_days q = 3 \<and> q_present_days q = 1
             \<and> q_present_days q + q_late_days q + q_absent_days q + q_paid_leave_days q
                 + q_unpaid_leave_days q
               = (\<Sum>i = 738915..738917.
                    case day_record (attendance demo_db) (q_employee_id q) (Date i) of
                      None \<Rightarrow> 0
                    | Some a \<Rightarrow> if status_known a then 1 else 0)
         | _ \<Rightarrow> False))
   \<and> (case payroll_report demo_env demo_absent_db ''2024-01'' of
      Inl err \<Rightarrow> False
    | Inr rep \<Rightarrow>
        (case mrep_rows rep of
           [r] \<Rightarrow>
             m_present_days r = 1 \<and> m_absent_days r = 1
             \<and> m_present_days r + m_late_days r + m_absent_days r + m_paid_leave_days r
                 + m_unpaid_leave_days r
               = int (length (filter (\<lambda>a. a_employee_id a = Some (m_employee_id r)
                                          \<and> in_period (Date 738886) (Date 738916) a
                                          \<and> status_known a)
                                (attendance demo_absent_db)))
         | _ \<Rightarrow> False))"
proof -
  have p1: "parse_date ''2024-01-30'' ''from_date'' = Inr (Date 738915)"
    and p2: "parse_date ''2024-02-01'' ''to_date'' = Inr (Date 738917)"
    and p3: "parse_month ''2024-01'' = Inr (Date 738886, Date 738916)"
    by code_simp+
  have e1: "case payroll_range_report demo_env demo_db ''2024-01-30'' ''2024-02-01'' None of
      Inl err \<Rightarrow> False
    | Inr rep \<Rightarrow> map (\<lambda>r. (r_working_days r, r_unmarked_days r)) (rrep_rows rep) = [(3, 2)]"
    by code_simp
  have e2: "case payroll2_range_report demo_env demo_db ''2024-01-30'' ''2024-02-01'' None of
      Inl err \<Rightarrow> False
    | Inr rep \<Rightarrow> map (\<lambda>q. (q_working_days q, q_present_days q)) (qrep_rows rep) = [(3, 1)]"
    by code_simp
  have e3: "case payroll_report demo_env demo_absent_db ''2024-01'' of
      Inl err \<Rightarrow> False
    | Inr rep \<Rightarrow> map (\<lambda>r. (m_present_days r, m_absent_days r)) (mrep_rows rep) = [(1, 1)]"
    by code_simp
  from e1 obtain rep r where
    rep: "payroll_range_report demo_env demo_db ''2024-01-30'' ''2024-02-01'' None = Inr rep"
    and r: "rrep_rows rep = [r]" "r_working_days r = 3" "r_unmarked_days r = 2"
    by (auto split: sum.splits)
  from e2 obtain rep2 q where
    rep2: "payroll2_range_report demo_env demo_db ''2024-01-30'' ''2024-02-01'' None = Inr rep2"
    and q: "qrep_rows rep2 = [q]" "q_working_days q = 3" "q_present_days q = 1"
    by (auto split: sum.splits)
  from e3 obtain mrep m where
    mrep: "payroll_report demo_env demo_absent_db ''2024-01'' = Inr mrep"
    and m: "mrep_rows mrep = [m]" "m_present_days m = 1" "m_absent_days m = 1"
    by (auto split: sum.splits)
  have rin: "r \<in> set (rrep_rows rep)" and qin: "q \<in> set (qrep_rows rep2)"
    and min: "m \<in> set (mrep_rows mrep)"
    using r(1) q(1) m(1) by simp_all
  from day_categories_partition
         [of demo_env demo_db "''2024-01-30''" "''2024-02-01''" None rep,
          THEN conjunct1, rule_format, OF rep] rin
  have a: "r_present_days r + r_late_days r + r_absent_days r + r_paid_leave_days r
          + r_unpaid_leave_days r + r_unmarked_days r = r_working_days r"
    by blast
  from day_categories_partition
         [of demo_env demo_db "''2024-01-30''" "''2024-02-01''" None _ rep2,
          THEN conjunct2, THEN conjunct1, rule_format, OF rep2]
  obtain start end' where
    "parse_date ''2024-01-30'' ''from_date'' = Inr start"
    "parse_date ''2024-02-01'' ''to_date'' = Inr end'"
    and b0: "\<forall>q \<in> set (qrep_rows rep2).
               q_working_days q = days_inclusive start end'
               \<and> q_present_days q + q_late_days q + q_absent_days q + q_paid_leave_days q
                   + q_unpaid_leave_days q
                 = (\<Sum>i = toordinal start..toordinal end'.
                      case day_record (attendance demo_db) (q_employee_id q) (Date i) of
                        None \<Rightarrow> 0
                      | Some a \<Rightarrow> if status_known a then 1 else 0)"
    by blast
  with p1 p2 have "start = Date 738915" "end' = Date 738917"
    by simp_all
  with b0 qin have b:
    "q_present_days q + q_late_days q + q_absent_days q + q_paid_leave_days q
       + q_unpaid_leave_days q
     = (\<Sum>i = 738915..738917.
          case day_record (attendance demo_db) (q_employee_id q) (Date i) of
            None \<Rightarrow> 0
          | Some a \<Rightarrow> if status_known a then 1 else 0)"
    by simp
  from day_categories_partition
         [of demo_env demo_absent_db _ _ _ _ _ "''2024-01''" mrep,
          THEN conjunct2, THEN conjunct2, rule_format, OF mrep]
  obtain start end' where
    "parse_month ''2024-01'' = Inr (start, end')"
    and c0: "\<forall>r \<in> set (mrep_rows mrep).
               m_present_days r + m_late_days r + m_absent_days r + m_paid_leave_days r
                 + m_unpaid_leave_days r
               = int (length (filter (\<lambda>a. a_employee_id a = Some (m_employee_id r)
                                          \<and> in_period start end' a \<and> status_known a)
                                (attendance demo_absent_db)))"
    by blast
  with p3 have "start = Date 738886" "end' = Date 738916"
    by simp_all
  with c0 min have c:
    "m_present_days m + m_late_days m + m_absent_days m + m_paid_leave_days m
       + m_unpaid_leave_days m
     = int (length (filter (\<lambda>a. a_employee_id a = Some (m_employee_id m)
                                \<and> in_period (Date 738886) (Date 738916) a
                                \<and> status_known a)
                      (attendance demo_absent_db)))"
    by blast
  show ?thesis
    unfolding rep rep2 mrep sum.case r(1) q(1) m(1) list.case
    using r(2,3) q(2,3) m(2,3) a b c by blast
qed

text \<open>
  C5, as the claim states it, fails: in January 2024 the employee of the example store
  has a record on one of the 31 days, and none of the 30 days without a record is
  counted as absent.
\<close>

theorem month_unrecorded_days_counterexample:
  "parse_month ''2024-01'' = Inr (Date 738886, Date 738916)
   \<and> days_inclusive (Date 738886) (Date 738916) = 31
   \<and> map a_date (attendance demo_db) = [Date 738916]
   \<and> (case payroll_report demo_env demo_db ''2024-01'' of
         Inl err \<Rightarrow> False
       | Inr rep \<Rightarrow> map m_absent_days (mrep_rows rep) = [0])"
  by code_simp

text \<open>
  C5, amended. In the calendar-month report a day of the period without an attendance
  record of the employee is counted in no category: absent_days is the number of the
  employee's attendance records in the period whose status is absent.
\<close>

theorem month_absent_days_are_absent_records:
  "payroll_report env d label = Inr mrep \<longrightarrow>
     (\<exists>start end'.
        parse_month label = Inr (start, end')
        \<and> (\<forall>r \<in> set (mrep_rows mrep).
              m_absent_days r
              = int (length (filter (\<lambda>a. a_employee_id a = Some (m_employee_id r)
                                         \<and> in_period start end' a
                                         \<and> status_text a = ''absent'')
                               (attendance d)))))"
proof
  assume mrep: "payroll_report env d label = Inr mrep"
  from payroll_report_rows [OF mrep] obtain start end' where
    p: "parse_month label = Inr (start, end')"
    by blast
  have "m_absent_days r
        = int (length (filter (\<lambda>a. a_employee_id a = Some (m_employee_id r)
                                   \<and> in_period start end' a \<and> status_text a = ''absent'')
                         (attendance d)))"
    if "r \<in> set (mrep_rows mrep)" for r
  proof -
    from month_report_row [OF mrep that] p obtain e where
      "r = month_row_of env (by_emp (filter (in_period start end') (attendance d)))
             (paid_status_for d label) (advances_for d label) e"
      by auto
    from month_row_absent [OF this] show ?thesis .
  qed
  with p show "\<exists>start end'.
        parse_month label = Inr (start, end')
        \<and> (\<forall>r \<in> set (mrep_rows mrep).
              m_absent_days r
              = int (length (filter (\<lambda>a. a_employee_id a = Some (m_employee_id r)
                                         \<and> in_period start end' a
                                         \<and> status_text a = ''absent'')
                               (attendance d))))"
    by blast
qed

text \<open>
  The worked example: with a record "Absent " on 2024-01-05 and a record "present" on
  2024-01-31, the January row has one absent day.
\<close>

theorem month_absent_days_are_absent_records_witness:
  "case payroll_report demo_env demo_absent_db ''2024-01'' of
     Inl err \<Rightarrow> False
   | Inr rep \<Rightarrow>
       (case mrep_rows rep of
          [r] \<Rightarrow>
            m_absent_days r = 1
            \<and> m_absent_days r
                = int (length (filter (\<lambda>a. a_employee_id a = Some (m_employee_id r)
                                           \<and> in_period (Date 738886) (Date 738916) a
                                           \<and> status_text a = ''absent'')
                                 (attendance demo_absent_db)))
        | _ \<Rightarrow> False)"
proof -
  have p: "parse_month ''2024-01'' = Inr (Date 738886, Date 738916)"
    by code_simp
  have e1: "case payroll_report demo_env demo_absent_db ''2024-01'' of
      Inl err \<Rightarrow> False
    | Inr rep \<Rightarrow> map m_absent_days (mrep_rows rep) = [1]"
    by code_simp
  then obtain rep r where
    rep: "payroll_report demo_env demo_absent_db ''2024-01'' = Inr rep"
    and r: "mrep_rows rep = [r]" "m_absent_days r = 1"
    by (auto split: sum.splits)
  have rin: "r \<in> set (mrep_rows rep)"
    using r(1) by simp
  from month_absent_days_are_absent_records
         [of demo_env demo_absent_db "''2024-01''" rep, THEN mp, OF rep]
  obtain start end' where
    "parse_month ''2024-01'' = Inr (start, end')"
    and a: "\<forall>r \<in> set (mrep_rows rep).
              m_absent_days r
              = int (length (filter (\<lambda>a. a_employee_id a = Some (m_employee_id r)
                                         \<and> in_period start end' a
                                         \<and> status_text a = ''absent'')
                               (attendance demo_absent_db)))"
    by blast
  with p have "start = Date 738886" "end' = Date 738916"
    by simp_all
  with a rin have
    "m_absent_days r
       = int (length (filter (\<lambda>a. a_employee_id a = Some (m_employee_id r)
                                  \<and> in_period (Date 738886) (Date 738916) a
                                  \<and> status_text a = ''absent'')
                        (attendance demo_absent_db)))"
    by blast
  then show ?thesis
    unfolding rep sum.case r(1) list.case using r(2) by blast
qed

subsection \<open>C2: the pay formulas of the calendar-month report\<close>

text \<open>
  C2, as the claim states it, fails. For January 2024 the example store holds a sheet
  override of the employee for exactly the month period, with EOBI 200, tax 300 and extra
  fine/advance 100. The calendar-month row has gross pay 3300, late deduction 50, no
  unpaid-leave and no advance deduction, and net pay 3250; the claim's formula
  gross_pay - eobi - tax - (advance_deduction + fine_adv_extra) - late_deduction
  - unpaid_leave_deduction would make it 2650.
\<close>

theorem month_sheet_override_counterexample:
  "parse_month ''2024-01'' = Inr (Date 738886, Date 738916)
   \<and> sheets_for demo_db (Date 738886) (Date 738916) 1
       = Some (demo_sheet (Date 738886) (Date 738916))
   \<and> (case payroll_report demo_env demo_db ''2024-01'' of
         Inl err \<Rightarrow> False
       | Inr rep \<Rightarrow>
           (case mrep_rows rep of
              [r] \<Rightarrow>
                m_employee_db_id r = 1
                \<and> m_net_pay r = 3250
                \<and> m_net_pay r
                    \<noteq> m_gross_pay r
                      - real_or0 (s_eobi (demo_sheet (Date 738886) (Date 738916)))
                      - real_or0 (s_tax (demo_sheet (Date 738886) (Date 738916)))
                      - (m_advance_deduction r
                         + real_or0 (s_fine_adv_extra (demo_sheet (Date 738886) (Date 738916))))
                      - m_late_deduction r - m_unpaid_leave_deduction r
            | _ \<Rightarrow> False))"
proof -
  have p: "parse_month ''2024-01'' = Inr (Date 738886, Date 738916)"
    by code_simp
  have s: "sheets_for demo_db (Date 738886) (Date 738916) 1
             = Some (demo_sheet (Date 738886) (Date 738916))"
    by code_simp
  have e1: "case payroll_report demo_env demo_db ''2024-01'' of
      Inl err \<Rightarrow> False
    | Inr rep \<Rightarrow>
        map (\<lambda>r. (m_employee_db_id r, m_gross_pay r, m_net_pay r, m_late_deduction r,
                   m_unpaid_leave_deduction r, m_advance_deduction r)) (mrep_rows rep)
        = [(1, 3300, 3250, 50, 0, 0)]"
    by code_simp
  then obtain rep r where
    rep: "payroll_report demo_env demo_db ''2024-01'' = Inr rep"
    and r: "mrep_rows rep = [r]" "m_employee_db_id r = 1" "m_gross_pay r = 3300"
      "m_net_pay r = 3250" "m_late_deduction r = 50" "m_unpaid_leave_deduction r = 0"
      "m_advance_deduction r = 0"
    by (auto split: sum.splits)
  have "m_net_pay r
          \<noteq> m_gross_pay r
            - real_or0 (s_eobi (demo_sheet (Date 738886) (Date 738916)))
            - real_or0 (s_tax (demo_sheet (Date 738886) (Date 738916)))
            - (m_advance_deduction r
               + real_or0 (s_fine_adv_extra (demo_sheet (Date 738886) (Date 738916))))
            - m_late_deduction r - m_unpaid_leave_deduction r"
    by (simp add: r demo_sheet_def real_or0_def)
  with p s show ?thesis
    unfolding rep sum.case r(1) list.case using r(2,4) by blast
qed

text \<open>
  C2, amended. In the calendar-month report every row has
  gross_pay = base_salary + allowances + overtime_rate + overtime_pay, with allowances 0,
  and net_pay = gross_pay - late_deduction - unpaid_leave_deduction - advance_deduction,
  where unpaid_leave_deduction = unpaid_leave_days * 1000; the full base salary stands
  where the range reports have the prorated total salary, and fine_deduction is omitted.
\<close>

theorem month_rows_follow_pay_formulas:
  "payroll_report env d label = Inr mrep \<longrightarrow>
     (\<forall>r \<in> set (mrep_rows mrep).
        m_allowances r = 0
        \<and> m_gross_pay r
            = m_base_salary r + m_allowances r + m_overtime_rate r + m_overtime_pay r
        \<and> m_unpaid_leave_deduction r = of_int (m_unpaid_leave_days r) * 1000
        \<and> m_net_pay r
            = m_gross_pay r - m_late_deduction r - m_unpaid_leave_deduction r
              - m_advance_deduction r)"
proof (intro impI ballI)
  fix r
  assume "payroll_report env d label = Inr mrep" and "r \<in> set (mrep_rows mrep)"
  from month_report_row [OF this] obtain b ps adv e where
    r: "r = month_row_of env b ps adv e"
    by blast
  from month_row_of_pay(1-4) [OF r]
  show "m_allowances r = 0
        \<and> m_gross_pay r
            = m_base_salary r + m_allowances r + m_overtime_rate r + m_overtime_pay r
        \<and> m_unpaid_leave_deduction r = of_int (m_unpaid_leave_days r) * 1000
        \<and> m_net_pay r
            = m_gross_pay r - m_late_deduction r - m_unpaid_leave_deduction r
              - m_advance_deduction r"
    by blast
qed

text \<open>
  The worked example: the January row of the example store has base salary 3000,
  overtime rate 100 and overtime pay 200, hence gross pay 3300, and net pay
  3300 - 50 - 0 - 0 = 3250.
\<close>

theorem month_rows_follow_pay_formulas_witness:
  "case payroll_report demo_env demo_db ''2024-01'' of
     Inl err \<Rightarrow> False
   | Inr rep \<Rightarrow>
       (case mrep_rows rep of
          [r] \<Rightarrow>
            m_base_salary r = 3000 \<and> m_gross_pay r = 3300 \<and> m_net_pay r = 3250
            \<and> m_gross_pay r
                = m_base_salary r + m_allowances r + m_overtime_rate r + m_overtime_pay r
            \<and> m_net_pay r
                = m_gross_pay r - m_late_deduction r - m_unpaid_leave_deduction r
                  - m_advance_deduction r
        | _ \<Rightarrow> False)"
proof -
  have e1: "case payroll_report demo_env demo_db ''2024-01'' of
      Inl err \<Rightarrow> False
    | Inr rep \<Rightarrow>
        map (\<lambda>r. (m_base_salary r, m_gross_pay r, m_net_pay r)) (mrep_rows rep)
        = [(3000, 3300, 3250)]"
    by code_simp
  then obtain rep r where
    rep: "payroll_report demo_env demo_db ''2024-01'' = Inr rep"
    and r: "mrep_rows rep = [r]" "m_base_salary r = 3000" "m_gross_pay r = 3300"
      "m_net_pay r = 3250"
    by (auto split: sum.splits)
  have rin: "r \<in> set (mrep_rows rep)"
    using r(1) by simp
  note f = month_rows_follow_pay_formulas
             [of demo_env demo_db "''2024-01''" rep, rule_format, OF rep rin]
  show ?thesis
    unfolding rep sum.case r(1) list.case using r(2,3,4) f by blast
qed

subsection \<open>C4: the payment status and its snapshot\<close>

lemma status_key_kept:
  "status_key month employee_id
     (r\<lparr>p_status := s, p_employee_db_id := i, p_net_pay_snapshot := n\<rparr>)
   = status_key month employee_id r"
  by (simp add: status_key_def)

text \<open>
  A status write that gets past its checks stores the row, and a read right after it
  returns that row and leaves the store alone.
\<close>

lemma upsert_payment_status_written:
  assumes st: "py_lower (py_strip (or_str (u_status payload) [])) = status"
      and ok: "status = ''paid''
                 \<and> payroll_report env d (u_month payload) = Inr rep
                 \<and> snap = net_snapshot_of rep (u_employee_id payload)
               \<or> status = ''unpaid'' \<and> snap = None"
  shows "\<exists>d' row. upsert_payment_status env d payload = (d', Inr row)
           \<and> get_payment_status d' (u_month payload) (u_employee_id payload) = (d', row)
           \<and> p_status row = Some status
           \<and> p_net_pay_snapshot row = snap"
proof -
  let ?key = "status_key (u_month payload) (u_employee_id payload)"
  let ?emp = "map_option e_id
                (List.find (\<lambda>e. e_fss_no e = Some (u_employee_id payload)) (employees d))"
  let ?upd = "\<lambda>r. r\<lparr>p_status := Some status, p_employee_db_id := ?emp,
                      p_net_pay_snapshot := snap\<rparr>"
  show ?thesis
  proof (cases "List.find ?key (payment_statuses d)")
    case None
    let ?new = "\<lparr>p_month = u_month payload, p_employee_id = u_employee_id payload,
                  p_status = Some status, p_employee_db_id = ?emp,
                  p_net_pay_snapshot = snap\<rparr>"
    let ?d' = "d\<lparr>payment_statuses := payment_statuses d @ [?new]\<rparr>"
    from st ok None have "upsert_payment_status env d payload = (?d', Inr ?new)"
      by (auto simp: upsert_payment_status_def Let_def)
    moreover from None have "get_payment_status ?d' (u_month payload) (u_employee_id payload)
                               = (?d', ?new)"
      by (simp add: get_payment_status_def find_append_one status_key_def)
    ultimately show ?thesis by simp
  next
    case (Some old)
    let ?d' = "d\<lparr>payment_statuses := update_first ?key ?upd (payment_statuses d)\<rparr>"
    from st ok Some have "upsert_payment_status env d payload = (?d', Inr (?upd old))"
      by (auto simp: upsert_payment_status_def Let_def)
    moreover have "List.find ?key (update_first ?key ?upd (payment_statuses d))
                     = map_option ?upd (List.find ?key (payment_statuses d))"
      by (rule find_update_first_same) (simp add: status_key_def)
    with Some have "get_payment_status ?d' (u_month payload) (u_employee_id payload)
                      = (?d', ?upd old)"
      by (simp add: get_payment_status_def)
    ultimately show ?thesis by simp
  qed
qed

text \<open>
  C4. Upserting the status paid (any case, surrounding blanks allowed) computes the
  calendar-month report \<open>rep\<close> of the payload's month on the store as it is and writes
  the row with status paid and, as snapshot, the net pay of the first report row whose
  employee identifier is the payload's, or null when there is no such row; a read right
  after the write returns exactly that row. Upserting unpaid writes status unpaid with a
  null snapshot, whatever the store held before.
\<close>

theorem upsert_payment_status_snapshot:
  "(py_lower (py_strip (or_str (u_status payload) [])) = ''paid''
      \<and> payroll_report env d (u_month payload) = Inr rep \<longrightarrow>
      (\<exists>d' row.
         upsert_payment_status env d payload = (d', Inr row)
         \<and> get_payment_status d' (u_month payload) (u_employee_id payload) = (d', row)
         \<and> p_status row = Some ''paid''
         \<and> p_net_pay_snapshot row
             = map_option m_net_pay
                 (List.find (\<lambda>r. m_employee_id r = u_employee_id payload) (mrep_rows rep))
         \<and> ((\<forall>r \<in> set (mrep_rows rep). m_employee_id r \<noteq> u_employee_id payload)
               \<longrightarrow> p_net_pay_snapshot row = None)))
   \<and> (py_lower (py_strip (or_str (u_status payload) [])) = ''unpaid'' \<longrightarrow>
      (\<exists>d' row.
         upsert_payment_status env d payload = (d', Inr row)
         \<and> get_payment_status d' (u_month payload) (u_employee_id payload) = (d', row)
         \<and> p_status row = Some ''unpaid''
         \<and> p_net_pay_snapshot row = None))"
proof (intro conjI impI)
  assume a: "py_lower (py_strip (or_str (u_status payload) [])) = ''paid''
             \<and> payroll_report env d (u_month payload) = Inr rep"
  then have "''paid'' = ''paid''
               \<and> payroll_report env d (u_month payload) = Inr rep
               \<and> net_snapshot_of rep (u_employee_id payload)
                   = net_snapshot_of rep (u_employee_id payload)
             \<or> ''paid'' = ''unpaid'' \<and> net_snapshot_of rep (u_employee_id payload) = None"
    by simp
  from upsert_payment_status_written [OF a [THEN conjunct1] this]
  obtain d' row where
    w: "upsert_payment_status env d payload = (d', Inr row)"
       "get_payment_status d' (u_month payload) (u_employee_id payload) = (d', row)"
       "p_status row = Some ''paid''"
       "p_net_pay_snapshot row = net_snapshot_of rep (u_employee_id payload)"
    by blast
  have "List.find (\<lambda>r. m_employee_id r = u_employee_id payload) (mrep_rows rep) = None"
    if "\<forall>r \<in> set (mrep_rows rep). m_employee_id r \<noteq> u_employee_id payload"
    using that by (simp add: find_None_iff)
  with w show "\<exists>d' row.
         upsert_payment_status env d payload = (d', Inr row)
         \<and> get_payment_status d' (u_month payload) (u_employee_id payload) = (d', row)
         \<and> p_status row = Some ''paid''
         \<and> p_net_pay_snapshot row
             = map_option m_net_pay
                 (List.find (\<lambda>r. m_employee_id r = u_employee_id payload) (mrep_rows rep))
         \<and> ((\<forall>r \<in> set (mrep_rows rep). m_employee_id r \<noteq> u_employee_id payload)
               \<longrightarrow> p_net_pay_snapshot row = None)"
    by (auto simp: net_snapshot_of_def)
next
  assume a: "py_lower (py_strip (or_str (u_status payload) [])) = ''unpaid''"
  have "''unpaid'' = ''paid''
          \<and> payroll_report env d (u_month payload) = Inr rep
          \<and> None = net_snapshot_of rep (u_employee_id payload)
        \<or> ''unpaid'' = ''unpaid'' \<and> (None :: real option) = None"
    by simp
  from upsert_payment_status_written [OF a this]
  show "\<exists>d' row.
         upsert_payment_status env d payload = (d', Inr row)
         \<and> get_payment_status d' (u_month payload) (u_employee_id payload) = (d', row)
         \<and> p_status row = Some ''unpaid''
         \<and> p_net_pay_snapshot row = None"
    by blast
qed

text \<open>
  The worked example: on the example store the request " Paid" for employee 1001 and
  January 2024 stores the net pay 3250 of the January report, and a read returns it;
  the request "unpaid" stores a null snapshot.
\<close>

theorem upsert_payment_status_snapshot_witness:
  "(\<exists>d' row.
      upsert_payment_status demo_env demo_db demo_paid = (d', Inr row)
      \<and> get_payment_status d' ''2024-01'' ''1001'' = (d', row)
      \<and> p_status row = Some ''paid''
      \<and> p_net_pay_snapshot row = Some 3250)
   \<and> (\<exists>d' row.
      upsert_payment_status demo_env demo_db demo_unpaid = (d', Inr row)
      \<and> get_payment_status d' ''2024-01'' ''1001'' = (d', row)
      \<and> p_status row = Some ''unpaid''
      \<and> p_net_pay_snapshot row = None)"
proof -
  have s1: "py_lower (py_strip (or_str (u_status demo_paid) [])) = ''paid''"
    and s2: "py_lower (py_strip (or_str (u_status demo_unpaid) [])) = ''unpaid''"
    by code_simp+
  have f: "u_month demo_paid = ''2024-01''" "u_employee_id demo_paid = ''1001''"
    "u_month demo_unpaid = ''2024-01''" "u_employee_id demo_unpaid = ''1001''"
    by (simp_all add: demo_paid_def demo_unpaid_def)
  have e1: "case payroll_report demo_env demo_db ''2024-01'' of
      Inl err \<Rightarrow> False
    | Inr rep \<Rightarrow>
        map (\<lambda>r. (m_employee_id r, m_net_pay r)) (mrep_rows rep) = [(''1001'', 3250)]"
    by code_simp
  then obtain rep r where
    rep: "payroll_report demo_env demo_db ''2024-01'' = Inr rep"
    and r: "mrep_rows rep = [r]" "m_employee_id r = ''1001''" "m_net_pay r = 3250"
    by (auto split: sum.splits)
  have snap: "map_option m_net_pay
                (List.find (\<lambda>r. m_employee_id r = ''1001'') (mrep_rows rep)) = Some 3250"
    using r by simp
  note th = upsert_payment_status_snapshot [of demo_paid demo_env demo_db rep]
  from th [THEN conjunct1] s1 rep f(1,2) snap
  have a: "\<exists>d' row.
      upsert_payment_status demo_env demo_db demo_paid = (d', Inr row)
      \<and> get_payment_status d' ''2024-01'' ''1001'' = (d', row)
      \<and> p_status row = Some ''paid''
      \<and> p_net_pay_snapshot row = Some 3250"
    by auto
  from upsert_payment_status_snapshot [of demo_unpaid demo_env demo_db rep, THEN conjunct2]
       s2 f(3,4)
  have b: "\<exists>d' row.
      upsert_payment_status demo_env demo_db demo_unpaid = (d', Inr row)
      \<and> get_payment_status d' ''2024-01'' ''1001'' = (d', row)
      \<and> p_status row = Some ''unpaid''
      \<and> p_net_pay_snapshot row = None"
    by auto
  from a b show ?thesis by blast
qed

subsection \<open>C6: the pre-days and cur-days overrides\<close>

text \<open>
  C6 (the code departs from the claim). The claim: in the date-range report of both
  engines, pre_days and cur_days are the sheet overrides clamped to be at least 0.
  payroll.py clamps them (lines 604-607); payroll2.py reads the same overrides with the
  same expression (lines 219-227) and has no clamp. With the override
  \<^verbatim>\<open>pre_days_override = -5\<close> of the example store, the row of payroll.py has
  pre_days 0 and the row of payroll2.py has pre_days -5.
\<close>

theorem payroll2_pre_days_not_clamped:
  "sheets_for demo_db (Date 738915) (Date 738917) 1
     = Some (demo_sheet (Date 738915) (Date 738917))
   \<and> s_pre_days_override (demo_sheet (Date 738915) (Date 738917)) = Some (- 5)
   \<and> (case payroll_range_report demo_env demo_db ''2024-01-30'' ''2024-02-01'' None of
         Inl err \<Rightarrow> False
       | Inr rep \<Rightarrow> map r_pre_days (rrep_rows rep) = [0])
   \<and> (case payroll2_range_report demo_env demo_db ''2024-01-30'' ''2024-02-01'' None of
         Inl err \<Rightarrow> False
       | Inr rep \<Rightarrow> map q_pre_days (qrep_rows rep) = [- 5])"
  by code_simp

text \<open>
  The other half of the claim holds in both engines: the two overrides reach the row
  only through \<open>pre_days\<close> and \<open>cur_days\<close>, so every pay field is the same whatever
  they are.
\<close>

lemma range_row_of_ignores_day_overrides:
  assumes "c_sheet_by_emp_db_id c (e_id e) = Some sh"
      and "c_sheet_by_emp_db_id c' (e_id e)
             = Some (sh\<lparr>s_pre_days_override := p, s_cur_days_override := u\<rparr>)"
      and "c_working_days c' = c_working_days c"
      and "c_advance_ded_by_emp_db_id c' = c_advance_ded_by_emp_db_id c"
  shows "r_total_days (range_row_of env c' e t) = r_total_days (range_row_of env c e t)"
    and "r_total_salary (range_row_of env c' e t) = r_total_salary (range_row_of env c e t)"
    and "r_gross_pay (range_row_of env c' e t) = r_gross_pay (range_row_of env c e t)"
    and "r_net_pay (range_row_of env c' e t) = r_net_pay (range_row_of env c e t)"
  using assms
  by (simp_all add: range_row_of_def Let_def sheet_int_def sheet_real_def)

lemma range2_row_of_ignores_day_overrides:
  assumes "c_sheet_by_emp_db_id c (e_id e) = Some sh"
      and "c_sheet_by_emp_db_id c' (e_id e)
             = Some (sh\<lparr>s_pre_days_override := p, s_cur_days_override := u\<rparr>)"
      and "c_working_days c' = c_working_days c"
      and "c_advance_ded_by_emp_db_id c' = c_advance_ded_by_emp_db_id c"
  shows "q_total_days (range2_row_of env c' e t) = q_total_days (range2_row_of env c e t)"
    and "q_total_salary (range2_row_of env c' e t) = q_total_salary (range2_row_of env c e t)"
    and "q_gross_pay (range2_row_of env c' e t) = q_gross_pay (range2_row_of env c e t)"
    and "q_net_pay (range2_row_of env c' e t) = q_net_pay (range2_row_of env c e t)"
  using assms
  by (simp_all add: range2_row_of_def Let_def sheet_int_def sheet_real_def)

subsection \<open>C7: the order of the rows\<close>











subsection \<open>C9: the bulk upsert of sheet overrides\<close>

lemma write_entry_key [simp]:
  "sheet_key k start end' (write_entry e row) = sheet_key k start end' row"
  by (simp add: sheet_key_def write_entry_def)

text \<open>Writing an entry replaces every field but the key.\<close>

lemma write_entry_replaces:
  assumes "sheet_key k start end' row"
  shows "write_entry e row = write_entry e (new_sheet_entry k start end')"
  using assms
  by (cases row) (simp add: sheet_key_def write_entry_def new_sheet_entry_def)

lemma sheet_key_new [simp]:
  "sheet_key k start end' (new_sheet_entry k' start end') \<longleftrightarrow> k' = k"
  by (simp add: sheet_key_def new_sheet_entry_def)

lemma sheet_key_other:
  assumes "sheet_key k' start end' row" and "k' \<noteq> k"
  shows "\<not> sheet_key k start end' row"
  using assms by (simp add: sheet_key_def)

text \<open>The first step of the loop, seen from the row of a key \<open>k\<close>.\<close>

lemma find_after_update:
  assumes "List.find (sheet_key (n_employee_db_id e) start end') rows = Some row"
  shows "List.find (sheet_key k start end')
           (update_first (sheet_key (n_employee_db_id e) start end') (write_entry e) rows)
         = (if n_employee_db_id e = k
            then Some (write_entry e (new_sheet_entry k start end'))
            else List.find (sheet_key k start end') rows)"
proof (cases "n_employee_db_id e = k")
  case True
  have "List.find (sheet_key k start end')
          (update_first (sheet_key k start end') (write_entry e) rows)
        = map_option (write_entry e) (List.find (sheet_key k start end') rows)"
    by (rule find_update_first_same) simp
  moreover from assms True have "sheet_key k start end' row"
    by (auto simp: find_Some_iff)
  ultimately show ?thesis
    using assms True write_entry_replaces [of k start end' row e] by simp
next
  case False
  have "List.find (sheet_key k start end')
          (update_first (sheet_key (n_employee_db_id e) start end') (write_entry e) rows)
        = List.find (sheet_key k start end') rows"
    by (rule find_update_first_other) (use False in \<open>auto dest: sheet_key_other\<close>)
  with False show ?thesis by simp
qed

lemma find_after_insert:
  assumes "List.find (sheet_key (n_employee_db_id e) start end') rows = None"
  shows "List.find (sheet_key k start end')
           (rows @ [write_entry e (new_sheet_entry (n_employee_db_id e) start end')])
         = (if n_employee_db_id e = k
            then Some (write_entry e (new_sheet_entry k start end'))
            else List.find (sheet_key k start end') rows)"
  using assms by (auto simp: find_append_one split: option.splits)

text \<open>A batch with a mismatching entry raises, whatever came before that entry.\<close>

lemma upsert_entries_mismatch:
  assumes "\<exists>e \<in> set es. n_from_date e \<noteq> start \<or> n_to_date e \<noteq> end'"
  shows "upsert_entries start end' rows es = Inl period_mismatch_error"
  using assms
proof (induction es arbitrary: rows)
  case Nil
  then show ?case by simp
next
  case (Cons e es)
  show ?case
  proof (cases "n_from_date e \<noteq> start \<or> n_to_date e \<noteq> end'")
    case True
    then show ?thesis by auto
  next
    case False
    with Cons.prems have "\<exists>e \<in> set es. n_from_date e \<noteq> start \<or> n_to_date e \<noteq> end'"
      by auto
    from Cons.IH [OF this] False show ?thesis
      by (auto simp: Let_def split: option.splits)
  qed
qed

text \<open>
  A batch whose entries all carry the declared period runs through, and afterwards the
  row of a key is what the last entry for that key wrote; the row of a key outside the
  batch is as before.
\<close>

lemma upsert_entries_written:
  assumes "\<forall>e \<in> set es. n_from_date e = start \<and> n_to_date e = end'"
  shows "\<exists>rows'. upsert_entries start end' rows es = Inr rows'
           \<and> (\<forall>k. List.find (sheet_key k start end') rows'
                 = (if k \<in> n_employee_db_id ` set es
                    then Some (write_entry (last (filter (\<lambda>x. n_employee_db_id x = k) es))
                                 (new_sheet_entry k start end'))
                    else List.find (sheet_key k start end') rows))"
  using assms
proof (induction es arbitrary: rows)
  case Nil
  then show ?case by simp
next
  case (Cons e es)
  let ?key = "sheet_key (n_employee_db_id e) start end'"
  let ?rows1 = "case List.find ?key rows of
                  None \<Rightarrow> rows @ [write_entry e (new_sheet_entry (n_employee_db_id e) start end')]
                | Some row \<Rightarrow> update_first ?key (write_entry e) rows"
  from Cons.prems have e: "n_from_date e = start" "n_to_date e = end'"
    and es: "\<forall>e \<in> set es. n_from_date e = start \<and> n_to_date e = end'"
    by auto
  have step: "upsert_entries start end' rows (e # es) = upsert_entries start end' ?rows1 es"
    using e by (simp add: Let_def split: option.splits)
  have first: "List.find (sheet_key k start end') ?rows1
                 = (if n_employee_db_id e = k
                    then Some (write_entry e (new_sheet_entry k start end'))
                    else List.find (sheet_key k start end') rows)" for k
    by (cases "List.find ?key rows") (simp_all add: find_after_insert find_after_update)
  from Cons.IH [OF es, of ?rows1] obtain rows' where
    r: "upsert_entries start end' ?rows1 es = Inr rows'"
    and f: "\<And>k. List.find (sheet_key k start end') rows'
                 = (if k \<in> n_employee_db_id ` set es
                    then Some (write_entry (last (filter (\<lambda>x. n_employee_db_id x = k) es))
                                 (new_sheet_entry k start end'))
                    else List.find (sheet_key k start end') ?rows1)"
    by blast
  have "List.find (sheet_key k start end') rows'
          = (if k \<in> n_employee_db_id ` set (e # es)
             then Some (write_entry (last (filter (\<lambda>x. n_employee_db_id x = k) (e # es)))
                          (new_sheet_entry k start end'))
             else List.find (sheet_key k start end') rows)" for k
  proof (cases "k \<in> n_employee_db_id ` set es")
    case True
    then have "filter (\<lambda>x. n_employee_db_id x = k) es \<noteq> []"
      by (auto simp: filter_empty_conv)
    with True f [of k] show ?thesis by simp
  next
    case False
    then have "filter (\<lambda>x. n_employee_db_id x = k) es = []"
      by (auto simp: filter_empty_conv)
    with False f [of k] first [of k] show ?thesis by auto
  qed
  with step r show ?case by simp
qed

text \<open>
  C9, as the claim states it, fails: the route first rejects a declared period that ends
  before it starts. The second example batch declares 2024-02-01..2024-01-30 and holds an
  entry for another period; it is rejected with "from_date must be <= to_date", not with
  the period mismatch.
\<close>

theorem bulk_upsert_reversed_period_counterexample:
  "toordinal (b_to_date demo_reversed_batch) < toordinal (b_from_date demo_reversed_batch)
   \<and> map n_from_date (b_entries demo_reversed_batch) = [Date 738886]
   \<and> b_from_date demo_reversed_batch = Date 738917
   \<and> snd (bulk_upsert_payroll_sheet_entries demo_db demo_reversed_batch)
       = Inl range_format_error
   \<and> range_format_error \<noteq> period_mismatch_error"
  by code_simp

text \<open>
  C9, amended. For a payload whose declared period does not end before it starts (such
  a payload is rejected first, with "from_date must be <= to_date"): if an entry's from
  or to differs from the payload's, the upsert fails with the period mismatch and the
  store is left as it was; otherwise it succeeds, every entry's row, keyed by (employee
  internal id, from, to), holds exactly the key and the nine fields written from the
  batch's last entry for that employee, and the row of an employee outside the batch is
  as before.
\<close>

theorem bulk_upsert_all_or_nothing:
  "toordinal (b_from_date payload) \<le> toordinal (b_to_date payload) \<longrightarrow>
     ((\<exists>e \<in> set (b_entries payload).
         n_from_date e \<noteq> b_from_date payload \<or> n_to_date e \<noteq> b_to_date payload)
        \<longrightarrow> bulk_upsert_payroll_sheet_entries d payload = (d, Inl period_mismatch_error))
     \<and> ((\<forall>e \<in> set (b_entries payload).
            n_from_date e = b_from_date payload \<and> n_to_date e = b_to_date payload)
        \<longrightarrow> (\<exists>rows out.
              bulk_upsert_payroll_sheet_entries d payload
                = (d\<lparr>sheet_entries := rows\<rparr>, Inr out)
              \<and> (\<forall>e \<in> set (b_entries payload).
                    List.find (sheet_key (n_employee_db_id e) (b_from_date payload)
                                 (b_to_date payload)) rows
                    = Some (write_entry
                              (last (filter (\<lambda>x. n_employee_db_id x = n_employee_db_id e)
                                       (b_entries payload)))
                              (new_sheet_entry (n_employee_db_id e) (b_from_date payload)
                                 (b_to_date payload))))
              \<and> (\<forall>k. k \<notin> n_employee_db_id ` set (b_entries payload)
                    \<longrightarrow> List.find (sheet_key k (b_from_date payload) (b_to_date payload)) rows
                        = List.find (sheet_key k (b_from_date payload) (b_to_date payload))
                            (sheet_entries d))))"
proof (intro impI conjI)
  assume le: "toordinal (b_from_date payload) \<le> toordinal (b_to_date payload)"
    and "\<exists>e \<in> set (b_entries payload).
           n_from_date e \<noteq> b_from_date payload \<or> n_to_date e \<noteq> b_to_date payload"
  from upsert_entries_mismatch [OF this(2)] le
  show "bulk_upsert_payroll_sheet_entries d payload = (d, Inl period_mismatch_error)"
    by (simp add: bulk_upsert_payroll_sheet_entries_def Let_def)
next
  assume le: "toordinal (b_from_date payload) \<le> toordinal (b_to_date payload)"
    and "\<forall>e \<in> set (b_entries payload).
           n_from_date e = b_from_date payload \<and> n_to_date e = b_to_date payload"
  from upsert_entries_written [OF this(2), of "sheet_entries d"] obtain rows where
    r: "upsert_entries (b_from_date payload) (b_to_date payload) (sheet_entries d)
          (b_entries payload) = Inr rows"
    and f: "\<And>k. List.find (sheet_key k (b_from_date payload) (b_to_date payload)) rows
              = (if k \<in> n_employee_db_id ` set (b_entries payload)
                 then Some (write_entry
                              (last (filter (\<lambda>x. n_employee_db_id x = k) (b_entries payload)))
                              (new_sheet_entry k (b_from_date payload) (b_to_date payload)))
                 else List.find (sheet_key k (b_from_date payload) (b_to_date payload))
                        (sheet_entries d))"
    by blast
  from r le obtain out where
    "bulk_upsert_payroll_sheet_entries d payload = (d\<lparr>sheet_entries := rows\<rparr>, Inr out)"
    by (simp add: bulk_upsert_payroll_sheet_entries_def Let_def)
  moreover have "\<forall>e \<in> set (b_entries payload).
                    List.find (sheet_key (n_employee_db_id e) (b_from_date payload)
                                 (b_to_date payload)) rows
                    = Some (write_entry
                              (last (filter (\<lambda>x. n_employee_db_id x = n_employee_db_id e)
                                       (b_entries payload)))
                              (new_sheet_entry (n_employee_db_id e) (b_from_date payload)
                                 (b_to_date payload)))"
    using f by auto
  moreover have "\<forall>k. k \<notin> n_employee_db_id ` set (b_entries payload)
                    \<longrightarrow> List.find (sheet_key k (b_from_date payload) (b_to_date payload)) rows
                        = List.find (sheet_key k (b_from_date payload) (b_to_date payload))
                            (sheet_entries d)"
    using f by auto
  ultimately show "\<exists>rows out.
              bulk_upsert_payroll_sheet_entries d payload
                = (d\<lparr>sheet_entries := rows\<rparr>, Inr out)
              \<and> (\<forall>e \<in> set (b_entries payload).
                    List.find (sheet_key (n_employee_db_id e) (b_from_date payload)
                                 (b_to_date payload)) rows
                    = Some (write_entry
                              (last (filter (\<lambda>x. n_employee_db_id x = n_employee_db_id e)
                                       (b_entries payload)))
                              (new_sheet_entry (n_employee_db_id e) (b_from_date payload)
                                 (b_to_date payload))))
              \<and> (\<forall>k. k \<notin> n_employee_db_id ` set (b_entries payload)
                    \<longrightarrow> List.find (sheet_key k (b_from_date payload) (b_to_date payload)) rows
                        = List.find (sheet_key k (b_from_date payload) (b_to_date payload))
                            (sheet_entries d))"
    by blast
qed

text \<open>
  The worked examples: the first example batch, with two entries for employee 1 and the
  period 2024-01-30..2024-02-01, succeeds, and the employee's row for that period then
  holds what the second entry wrote (EOBI 250); the batch whose second entry names
  another period fails with the period mismatch and leaves the store as it was.
\<close>

theorem bulk_upsert_all_or_nothing_witness:
  "(\<exists>rows out.
      bulk_upsert_payroll_sheet_entries demo_db demo_batch
        = (demo_db\<lparr>sheet_entries := rows\<rparr>, Inr out)
      \<and> List.find (sheet_key 1 (Date 738915) (Date 738917)) rows
          = Some (write_entry (demo_entry (Date 738915) (Date 738917) 250)
                    (new_sheet_entry 1 (Date 738915) (Date 738917))))
   \<and> bulk_upsert_payroll_sheet_entries demo_db demo_mismatch_batch
       = (demo_db, Inl period_mismatch_error)"
proof -
  have b: "b_from_date demo_batch = Date 738915" "b_to_date demo_batch = Date 738917"
    "b_entries demo_batch = [demo_entry (Date 738915) (Date 738917) 150,
                             demo_entry (Date 738915) (Date 738917) 250]"
    by (simp_all add: demo_batch_def)
  have m: "b_from_date demo_mismatch_batch = Date 738915"
    "b_to_date demo_mismatch_batch = Date 738917"
    "b_entries demo_mismatch_batch = [demo_entry (Date 738915) (Date 738917) 150,
                                      demo_entry (Date 738886) (Date 738916) 250]"
    by (simp_all add: demo_mismatch_batch_def)
  have e: "n_employee_db_id (demo_entry s t x) = 1" "n_from_date (demo_entry s t x) = s"
    "n_to_date (demo_entry s t x) = t" for s t x
    by (simp_all add: demo_entry_def)
  note th = bulk_upsert_all_or_nothing [of demo_batch demo_db]
  from th have first: "\<exists>rows out.
      bulk_upsert_payroll_sheet_entries demo_db demo_batch
        = (demo_db\<lparr>sheet_entries := rows\<rparr>, Inr out)
      \<and> List.find (sheet_key 1 (Date 738915) (Date 738917)) rows
          = Some (write_entry (demo_entry (Date 738915) (Date 738917) 250)
                    (new_sheet_entry 1 (Date 738915) (Date 738917)))"
    by (auto simp: b e)
  have "n_to_date (demo_entry (Date 738886) (Date 738916) 250) \<noteq> Date 738917"
    by (simp add: e)
  with bulk_upsert_all_or_nothing [of demo_mismatch_batch demo_db]
  have "bulk_upsert_payroll_sheet_entries demo_db demo_mismatch_batch
          = (demo_db, Inl period_mismatch_error)"
    by (simp add: m e)
  with first show ?thesis by blast
qed

subsection \<open>C10: overtime minutes without an overtime rate\<close>

lemma with_minutes_fields [simp]:
  "a_employee_id (with_minutes g a) = a_employee_id a"
  "a_date (with_minutes g a) = a_date a"
  "a_status (with_minutes g a) = a_status a"
  "a_leave_type (with_minutes g a) = a_leave_type a"
  "a_overtime_rate (with_minutes g a) = a_overtime_rate a"
  "a_late_minutes (with_minutes g a) = a_late_minutes a"
  "a_late_deduction (with_minutes g a) = a_late_deduction a"
  "a_fine_amount (with_minutes g a) = a_fine_amount a"
  by (simp_all add: with_minutes_def)

text \<open>No block of a loop body sees the minutes of a record without a rate.\<close>

lemma with_minutes_blocks [simp]:
  "overtime_late_step t (with_minutes g a) = overtime_late_step t a"
  "count_status t (with_minutes g a) = count_status t a"
  "fine_step t (with_minutes g a) = fine_step t a"
  "in_period start end' (with_minutes g a) = in_period start end' a"
  by (simp_all add: overtime_late_step_def count_status_def fine_step_def in_period_def
       status_text_def leave_is_unpaid_def with_minutes_def Let_def)

lemma count_status_or_unmarked_with_minutes [simp]:
  "count_status_or_unmarked t (Some (with_minutes g a)) = count_status_or_unmarked t (Some a)"
  by (simp add: count_status_or_unmarked_def leave_is_unpaid_def)

lemma foldl_month_step_with_minutes:
  "foldl month_step t (map (with_minutes g) recs) = foldl month_step t recs"
  by (induction recs arbitrary: t) (simp_all add: month_step_def)

lemma filter_map_with_minutes:
  "filter (\<lambda>a. P (a_employee_id a) \<and> in_period start end' a) (map (with_minutes g) recs)
     = map (with_minutes g) (filter (\<lambda>a. P (a_employee_id a) \<and> in_period start end' a) recs)"
  by (induction recs) simp_all

lemma filter_in_period_with_minutes:
  "filter (in_period start end') (map (with_minutes g) recs)
     = map (with_minutes g) (filter (in_period start end') recs)"
  by (induction recs) simp_all

lemma month_row_of_with_minutes:
  "month_row_of env (by_emp (filter (in_period start end') (map (with_minutes g) recs))) ps adv e
     = month_row_of env (by_emp (filter (in_period start end') recs)) ps adv e"
proof -
  have "foldl month_step tally0
          (case by_emp (filter (in_period start end') (map (with_minutes g) recs)) (Some k) of
             None \<Rightarrow> [] | Some l \<Rightarrow> l)
        = foldl month_step tally0
            (case by_emp (filter (in_period start end') recs) (Some k) of
               None \<Rightarrow> [] | Some l \<Rightarrow> l)" for k
    unfolding month_records
    using filter_map_with_minutes [of "\<lambda>i. i = Some k" start end' g recs]
    by (simp add: foldl_month_step_with_minutes)
  then show ?thesis
    by (simp add: month_row_of_def)
qed

lemma find_map_option:
  assumes "\<And>x. P (h x) = P x"
  shows "List.find P (map h xs) = map_option h (List.find P xs)"
  using assms by (induction xs) auto

lemma day_record_with_minutes:
  "day_record (map (with_minutes g) recs) emp day
     = map_option (with_minutes g) (day_record recs emp day)"
  unfolding day_record_def rev_map
  by (rule find_map_option) simp

lemma range_day_with_minutes:
  "range_day (by_emp_by_date (filter (in_period start end') (map (with_minutes g) recs))) emp
     = range_day (by_emp_by_date (filter (in_period start end') recs)) emp"
proof (intro ext)
  fix dcur t
  show "range_day (by_emp_by_date (filter (in_period start end') (map (with_minutes g) recs)))
          emp dcur t
        = range_day (by_emp_by_date (filter (in_period start end') recs)) emp dcur t"
    by (cases "day_record (filter (in_period start end') recs) emp dcur")
       (simp_all add: range_day_def Let_def lookup_day_by_emp_by_date
          filter_in_period_with_minutes day_record_with_minutes)
qed

lemma range2_day_with_minutes:
  "range2_day (by_emp_by_date (filter (in_period start end') (map (with_minutes g) recs))) emp
     = range2_day (by_emp_by_date (filter (in_period start end') recs)) emp"
proof (intro ext)
  fix dcur t
  show "range2_day (by_emp_by_date (filter (in_period start end') (map (with_minutes g) recs)))
          emp dcur t
        = range2_day (by_emp_by_date (filter (in_period start end') recs)) emp dcur t"
    by (cases "day_record (filter (in_period start end') recs) emp dcur")
       (simp_all add: range2_day_def lookup_day_by_emp_by_date
          filter_in_period_with_minutes day_record_with_minutes)
qed

lemma range_ctx_of_with_minutes:
  "range_ctx_of (d\<lparr>attendance := recs'\<rparr>) start end' ml
     = (range_ctx_of d start end' ml)
         \<lparr>c_by_emp_by_date := by_emp_by_date (filter (in_period start end') recs')\<rparr>"
  by (simp add: range_ctx_of_def sheets_for_def advances_for_def paid_status_for_def)

lemma range_row_of_by_date [simp]:
  "range_row_of env (c\<lparr>c_by_emp_by_date := m\<rparr>) e t = range_row_of env c e t"
  by (simp add: range_row_of_def Let_def)

lemma range2_row_of_by_date [simp]:
  "range2_row_of env (c\<lparr>c_by_emp_by_date := m\<rparr>) e t = range2_row_of env c e t"
  by (simp add: range2_row_of_def Let_def)

lemma range_row_for_with_minutes:
  "range_row_for env
     (range_ctx_of (d\<lparr>attendance := map (with_minutes g) (attendance d)\<rparr>) start end' ml)
   = range_row_for env (range_ctx_of d start end' ml)"
proof (intro ext)
  fix e
  have "c_by_emp_by_date (range_ctx_of d start end' ml)
          = by_emp_by_date (filter (in_period start end') (attendance d))"
       "c_start (range_ctx_of d start end' ml) = start"
       "c_end (range_ctx_of d start end' ml) = end'"
    by (simp_all add: range_ctx_of_def)
  then show "range_row_for env
     (range_ctx_of (d\<lparr>attendance := map (with_minutes g) (attendance d)\<rparr>) start end' ml) e
   = range_row_for env (range_ctx_of d start end' ml) e"
    by (simp add: range_row_for_def range_ctx_of_with_minutes range_day_with_minutes
          split: sum.splits)
qed

lemma range2_row_for_with_minutes:
  "range2_row_for env
     (range_ctx_of (d\<lparr>attendance := map (with_minutes g) (attendance d)\<rparr>) start end' ml)
   = range2_row_for env (range_ctx_of d start end' ml)"
proof (intro ext)
  fix e
  have "c_by_emp_by_date (range_ctx_of d start end' ml)
          = by_emp_by_date (filter (in_period start end') (attendance d))"
       "c_start (range_ctx_of d start end' ml) = start"
       "c_end (range_ctx_of d start end' ml) = end'"
    by (simp_all add: range_ctx_of_def)
  then show "range2_row_for env
     (range_ctx_of (d\<lparr>attendance := map (with_minutes g) (attendance d)\<rparr>) start end' ml) e
   = range2_row_for env (range_ctx_of d start end' ml) e"
    by (simp add: range2_row_for_def range_ctx_of_with_minutes range2_day_with_minutes
          split: sum.splits)
qed

lemma month_rows_with_minutes:
  "month_rows env (d\<lparr>attendance := map (with_minutes g) (attendance d)\<rparr>) label start end'
     = month_rows env d label start end'"
  by (simp add: month_rows_def month_row_of_with_minutes paid_status_for_def advances_for_def)

lemma range_ctx_working_days:
  "c_working_days (range_ctx_of d start end' ml) = days_inclusive start end'"
  by (simp add: range_ctx_of_def)

text \<open>The reports do not change when the minutes of the records without a rate do.\<close>

lemma reports_with_minutes:
  "payroll_report env (d\<lparr>attendance := map (with_minutes g) (attendance d)\<rparr>) label
     = payroll_report env d label"
  "payroll_range_report env (d\<lparr>attendance := map (with_minutes g) (attendance d)\<rparr>)
       from_date to_date month
     = payroll_range_report env d from_date to_date month"
  "payroll2_range_report env (d\<lparr>attendance := map (with_minutes g) (attendance d)\<rparr>)
       from_date to_date month
     = payroll2_range_report env d from_date to_date month"
  by (simp_all add: payroll_report_def payroll_range_report_def payroll2_range_report_def
       month_rows_with_minutes range_row_for_with_minutes range2_row_for_with_minutes
       range_ctx_working_days Let_def
       split: sum.splits)

text \<open>The overtime minutes of a row, in terms of the attendance table.\<close>

lemma month_row_minutes:
  fixes r :: month_row
  assumes "r = month_row_of env (by_emp (filter (in_period start end') recs)) ps adv e"
  shows "m_overtime_minutes r
           = sum_list (map (\<lambda>a. int_or0 (a_overtime_minutes a))
               (filter (\<lambda>a. a_employee_id a = Some (m_employee_id r)
                             \<and> in_period start end' a \<and> accrues_overtime a) recs))"
proof -
  have "m_overtime_minutes r
          = sum_list (map (\<lambda>a. int_or0 (a_overtime_minutes a))
              (filter accrues_overtime
                (filter (\<lambda>a. a_employee_id a = Some (m_employee_id r)
                              \<and> in_period start end' a) recs)))"
    using month_row_of_fields(7) [OF assms]
    by (simp add: month_records foldl_month_step_minutes)
  then show ?thesis by (simp add: conj_commute conj_left_commute)
qed

lemma range_walk_minutes:
  assumes "day_walk (range_day (by_emp_by_date (filter (in_period start end') recs)) emp)
             start end' tally0 = Inr t"
  shows "overtime_minutes t
           = (\<Sum>i = toordinal start..toordinal end'.
                accrued_minutes (day_record recs emp (Date i)))"
proof -
  let ?m = "by_emp_by_date (filter (in_period start end') recs)"
  have "overtime_minutes t
          = overtime_minutes tally0
            + (\<Sum>i = toordinal start..toordinal end'. accrued_minutes (lookup_day ?m emp (Date i)))"
    by (rule day_walk_sum [OF assms]) (simp add: overtime_minutes_range_day)
  moreover have "(\<Sum>i = toordinal start..toordinal end'.
                     accrued_minutes (lookup_day ?m emp (Date i)))
                   = (\<Sum>i = toordinal start..toordinal end'.
                        accrued_minutes (day_record recs emp (Date i)))"
    by (intro sum.cong refl) (simp add: lookup_day_by_emp_by_date day_record_in_period)
  ultimately show ?thesis by simp
qed

lemma range2_walk_minutes:
  assumes "day_walk (range2_day (by_emp_by_date (filter (in_period start end') recs)) emp)
             start end' tally0 = Inr t"
  shows "overtime_minutes t
           = (\<Sum>i = toordinal start..toordinal end'.
                accrued_minutes (day_record recs emp (Date i)))"
proof -
  let ?m = "by_emp_by_date (filter (in_period start end') recs)"
  have "overtime_minutes t
          = overtime_minutes tally0
            + (\<Sum>i = toordinal start..toordinal end'. accrued_minutes (lookup_day ?m emp (Date i)))"
    by (rule day_walk_sum [OF assms]) (simp add: overtime_minutes_range2_day)
  moreover have "(\<Sum>i = toordinal start..toordinal end'.
                     accrued_minutes (lookup_day ?m emp (Date i)))
                   = (\<Sum>i = toordinal start..toordinal end'.
                        accrued_minutes (day_record recs emp (Date i)))"
    by (intro sum.cong refl) (simp add: lookup_day_by_emp_by_date day_record_in_period)
  ultimately show ?thesis by simp
qed

lemma range_row_of_minutes:
  fixes r :: range_row
  assumes "r = range_row_of env c e t"
  shows "r_overtime_minutes r = overtime_minutes t" and "r_employee_id r = range_employee_id e"
  using assms by (simp_all add: range_row_of_def Let_def)

lemma range2_row_of_minutes:
  fixes q :: range2_row
  assumes "q = range2_row_of env c e t"
  shows "q_overtime_minutes q = overtime_minutes t" and "q_employee_id q = range_employee_id e"
  using assms by (simp_all add: range2_row_of_def Let_def)

text \<open>
  C10. In every report variant, a day whose attendance record has overtime minutes but a
  zero or missing overtime rate contributes nothing to overtime_minutes, overtime_pay or
  gross_pay. First, each of the three reports is the same, in every field of every row
  and of the summary, when the overtime minutes of the records with a zero or missing
  rate are replaced by anything else (\<open>with_minutes g\<close>). Second, overtime_minutes is
  the sum of the minutes over the records with both overtime minutes and overtime rate
  nonzero: over the employee's records of the period in the calendar-month report, and
  over the record of each day of the period in the two range reports.
\<close>

theorem unrated_overtime_is_ignored:
  "payroll_report env (d\<lparr>attendance := map (with_minutes g) (attendance d)\<rparr>) label
     = payroll_report env d label
   \<and> payroll_range_report env (d\<lparr>attendance := map (with_minutes g) (attendance d)\<rparr>)
         from_date to_date month
       = payroll_range_report env d from_date to_date month
   \<and> payroll2_range_report env (d\<lparr>attendance := map (with_minutes g) (attendance d)\<rparr>)
         from_date to_date month
       = payroll2_range_report env d from_date to_date month
   \<and> (payroll_report env d label = Inr mrep \<longrightarrow>
        (\<exists>start end'.
           parse_month label = Inr (start, end')
           \<and> (\<forall>r \<in> set (mrep_rows mrep).
                 m_overtime_minutes r
                 = sum_list (map (\<lambda>a. int_or0 (a_overtime_minutes a))
                     (filter (\<lambda>a. a_employee_id a = Some (m_employee_id r)
                                   \<and> in_period start end' a \<and> accrues_overtime a)
                        (attendance d))))))
   \<and> (payroll_range_report env d from_date to_date month = Inr rep \<longrightarrow>
        (\<exists>start end'.
           parse_date from_date ''from_date'' = Inr start
           \<and> parse_date to_date ''to_date'' = Inr end'
           \<and> (\<forall>r \<in> set (rrep_rows rep).
                 r_overtime_minutes r
                 = (\<Sum>i = toordinal start..toordinal end'.
                      accrued_minutes (day_record (attendance d) (r_employee_id r) (Date i))))))
   \<and> (payroll2_range_report env d from_date to_date month = Inr rep2 \<longrightarrow>
        (\<exists>start end'.
           parse_date from_date ''from_date'' = Inr start
           \<and> parse_date to_date ''to_date'' = Inr end'
           \<and> (\<forall>q \<in> set (qrep_rows rep2).
                 q_overtime_minutes q
                 = (\<Sum>i = toordinal start..toordinal end'.
                      accrued_minutes (day_record (attendance d) (q_employee_id q) (Date i))))))"
proof (intro conjI impI)
  show "payroll_report env (d\<lparr>attendance := map (with_minutes g) (attendance d)\<rparr>) label
          = payroll_report env d label"
    by (rule reports_with_minutes(1))
  show "payroll_range_report env (d\<lparr>attendance := map (with_minutes g) (attendance d)\<rparr>)
          from_date to_date month
        = payroll_range_report env d from_date to_date month"
    by (rule reports_with_minutes(2))
  show "payroll2_range_report env (d\<lparr>attendance := map (with_minutes g) (attendance d)\<rparr>)
          from_date to_date month
        = payroll2_range_report env d from_date to_date month"
    by (rule reports_with_minutes(3))
next
  assume mrep: "payroll_report env d label = Inr mrep"
  from payroll_report_rows [OF mrep] obtain start end' where
    p: "parse_month label = Inr (start, end')"
    by blast
  have "m_overtime_minutes r
          = sum_list (map (\<lambda>a. int_or0 (a_overtime_minutes a))
              (filter (\<lambda>a. a_employee_id a = Some (m_employee_id r)
                            \<and> in_period start end' a \<and> accrues_overtime a)
                 (attendance d)))"
    if "r \<in> set (mrep_rows mrep)" for r
  proof -
    from month_report_row [OF mrep that] p obtain e where
      "r = month_row_of env (by_emp (filter (in_period start end') (attendance d)))
             (paid_status_for d label) (advances_for d label) e"
      by auto
    from month_row_minutes [OF this] show ?thesis .
  qed
  with p show "\<exists>start end'.
           parse_month label = Inr (start, end')
           \<and> (\<forall>r \<in> set (mrep_rows mrep).
                 m_overtime_minutes r
                 = sum_list (map (\<lambda>a. int_or0 (a_overtime_minutes a))
                     (filter (\<lambda>a. a_employee_id a = Some (m_employee_id r)
                                   \<and> in_period start end' a \<and> accrues_overtime a)
                        (attendance d))))"
    by blast
next
  assume rep: "payroll_range_report env d from_date to_date month = Inr rep"
  from payroll_range_report_rows [OF rep] obtain start end' where
    p: "parse_date from_date ''from_date'' = Inr start"
       "parse_date to_date ''to_date'' = Inr end'"
    by blast
  have "r_overtime_minutes r
          = (\<Sum>i = toordinal start..toordinal end'.
               accrued_minutes (day_record (attendance d) (r_employee_id r) (Date i)))"
    if "r \<in> set (rrep_rows rep)" for r
  proof -
    from range_report_row [OF rep that] p obtain e t where
      w: "day_walk (range_day (by_emp_by_date (filter (in_period start end') (attendance d)))
                     (range_employee_id e)) start end' tally0 = Inr t"
      and r: "r = range_row_of env (range_ctx_of d start end' (month_label_or month end')) e t"
      by auto
    from range_walk_minutes [OF w] range_row_of_minutes [OF r] show ?thesis
      by simp
  qed
  with p show "\<exists>start end'.
           parse_date from_date ''from_date'' = Inr start
           \<and> parse_date to_date ''to_date'' = Inr end'
           \<and> (\<forall>r \<in> set (rrep_rows rep).
                 r_overtime_minutes r
                 = (\<Sum>i = toordinal start..toordinal end'.
                      accrued_minutes (day_record (attendance d) (r_employee_id r) (Date i))))"
    by blast
next
  assume rep2: "payroll2_range_report env d from_date to_date month = Inr rep2"
  from payroll2_range_report_rows [OF rep2] obtain start end' where
    p: "parse_date from_date ''from_date'' = Inr start"
       "parse_date to_date ''to_date'' = Inr end'"
    by blast
  have "q_overtime_minutes q
          = (\<Sum>i = toordinal start..toordinal end'.
               accrued_minutes (day_record (attendance d) (q_employee_id q) (Date i)))"
    if "q \<in> set (qrep_rows rep2)" for q
  proof -
    from range2_report_row [OF rep2 that] p obtain e t where
      w: "day_walk (range2_day (by_emp_by_date (filter (in_period start end') (attendance d)))
                     (range_employee_id e)) start end' tally0 = Inr t"
      and q: "q = range2_row_of env (range_ctx_of d start end' (month_label_or month end')) e t"
      by auto
    from range2_walk_minutes [OF w] range2_row_of_minutes [OF q] show ?thesis
      by simp
  qed
  with p show "\<exists>start end'.
           parse_date from_date ''from_date'' = Inr start
           \<and> parse_date to_date ''to_date'' = Inr end'
           \<and> (\<forall>q \<in> set (qrep_rows rep2).
                 q_overtime_minutes q
                 = (\<Sum>i = toordinal start..toordinal end'.
                      accrued_minutes (day_record (attendance d) (q_employee_id q) (Date i))))"
    by blast
qed

text \<open>
  The worked example: the store with a record of 120 minutes at rate 100 on 2024-01-31 and
  a record of 90 minutes without a rate on 2024-01-30. In all three reports the employee
  has 120 overtime minutes and an overtime pay of 200, the 90 minutes are counted
  nowhere, and the reports are the same when those 90 minutes are removed.
\<close>

theorem unrated_overtime_is_ignored_witness:
  "map a_overtime_minutes (attendance demo_overtime_db) = [Some 120, Some 90]
   \<and> map a_overtime_minutes (map (with_minutes (\<lambda>a. None)) (attendance demo_overtime_db))
       = [Some 120, None]
   \<and> payroll_report demo_env
         (demo_overtime_db\<lparr>attendance :=
            map (with_minutes (\<lambda>a. None)) (attendance demo_overtime_db)\<rparr>) ''2024-01''
       = payroll_report demo_env demo_overtime_db ''2024-01''
   \<and> payroll_range_report demo_env
         (demo_overtime_db\<lparr>attendance :=
            map (with_minutes (\<lambda>a. None)) (attendance demo_overtime_db)\<rparr>)
         ''2024-01-30'' ''2024-02-01'' None
       = payroll_range_report demo_env demo_overtime_db ''2024-01-30'' ''2024-02-01'' None
   \<and> payroll2_range_report demo_env
         (demo_overtime_db\<lparr>attendance :=
            map (with_minutes (\<lambda>a. None)) (attendance demo_overtime_db)\<rparr>)
         ''2024-01-30'' ''2024-02-01'' None
       = payroll2_range_report demo_env demo_overtime_db ''2024-01-30'' ''2024-02-01'' None
   \<and> (case payroll_report demo_env demo_overtime_db ''2024-01'' of
         Inl err \<Rightarrow> False
       | Inr rep \<Rightarrow>
           (case mrep_rows rep of
              [r] \<Rightarrow>
                m_overtime_minutes r = 120 \<and> m_overtime_pay r = 200
                \<and> m_overtime_minutes r
                    = sum_list (map (\<lambda>a. int_or0 (a_overtime_minutes a))
                        (filter (\<lambda>a. a_employee_id a = Some (m_employee_id r)
                                      \<and> in_period (Date 738886) (Date 738916) a
                                      \<and> accrues_overtime a)
                           (attendance demo_overtime_db)))
            | _ \<Rightarrow> False))
   \<and> (case payroll_range_report demo_env demo_overtime_db ''2024-01-30'' ''2024-02-01'' None of
         Inl err \<Rightarrow> False
       | Inr rep \<Rightarrow>
           (case rrep_rows rep of
              [r] \<Rightarrow>
                r_overtime_minutes r = 120 \<and> r_overtime_pay r = 200
                \<and> r_overtime_minutes r
                    = (\<Sum>i = 738915..738917.
                         accrued_minutes
                           (day_record (attendance demo_overtime_db) (r_employee_id r) (Date i)))
            | _ \<Rightarrow> False))
   \<and> (case payroll2_range_report demo_env demo_overtime_db ''2024-01-30'' ''2024-02-01'' None of
         Inl err \<Rightarrow> False
       | Inr rep \<Rightarrow>
           (case qrep_rows rep of
              [q] \<Rightarrow>
                q_overtime_minutes q = 120 \<and> q_overtime_pay q = 200
                \<and> q_overtime_minutes q
                    = (\<Sum>i = 738915..738917.
                         accrued_minutes
                           (day_record (attendance demo_overtime_db) (q_employee_id q) (Date i)))
            | _ \<Rightarrow> False))"
proof -
  have p1: "parse_date ''2024-01-30'' ''from_date'' = Inr (Date 738915)"
    and p2: "parse_date ''2024-02-01'' ''to_date'' = Inr (Date 738917)"
    and p3: "parse_month ''2024-01'' = Inr (Date 738886, Date 738916)"
    by code_simp+
  have a1: "map a_overtime_minutes (attendance demo_overtime_db) = [Some 120, Some 90]"
    and a2: "map a_overtime_minutes
               (map (with_minutes (\<lambda>a. None)) (attendance demo_overtime_db))
             = [Some 120, None]"
    by code_simp+
  have e1: "case payroll_range_report demo_env demo_overtime_db ''2024-01-30'' ''2024-02-01'' None of
      Inl err \<Rightarrow> False
    | Inr rep \<Rightarrow>
        map (\<lambda>r. (r_overtime_minutes r, r_overtime_pay r)) (rrep_rows rep) = [(120, 200)]"
    by code_simp
  have e2: "case payroll2_range_report demo_env demo_overtime_db ''2024-01-30'' ''2024-02-01'' None of
      Inl err \<Rightarrow> False
    | Inr rep \<Rightarrow>
        map (\<lambda>q. (q_overtime_minutes q, q_overtime_pay q)) (qrep_rows rep) = [(120, 200)]"
    by code_simp
  have e3: "case payroll_report demo_env demo_overtime_db ''2024-01'' of
      Inl err \<Rightarrow> False
    | Inr rep \<Rightarrow>
        map (\<lambda>r. (m_overtime_minutes r, m_overtime_pay r)) (mrep_rows rep) = [(120, 200)]"
    by code_simp
  from e1 obtain rep r where
    rep: "payroll_range_report demo_env demo_overtime_db ''2024-01-30'' ''2024-02-01'' None
            = Inr rep"
    and r: "rrep_rows rep = [r]" "r_overtime_minutes r = 120" "r_overtime_pay r = 200"
    by (auto split: sum.splits)
  from e2 obtain rep2 q where
    rep2: "payroll2_range_report demo_env demo_overtime_db ''2024-01-30'' ''2024-02-01'' None
             = Inr rep2"
    and q: "qrep_rows rep2 = [q]" "q_overtime_minutes q = 120" "q_overtime_pay q = 200"
    by (auto split: sum.splits)
  from e3 obtain mrep m where
    mrep: "payroll_report demo_env demo_overtime_db ''2024-01'' = Inr mrep"
    and m: "mrep_rows mrep = [m]" "m_overtime_minutes m = 120" "m_overtime_pay m = 200"
    by (auto split: sum.splits)
  have rin: "r \<in> set (rrep_rows rep)" and qin: "q \<in> set (qrep_rows rep2)"
    and min: "m \<in> set (mrep_rows mrep)"
    using r(1) q(1) m(1) by simp_all
  note th = unrated_overtime_is_ignored
              [where env = demo_env and d = demo_overtime_db and g = "\<lambda>a. None"
                 and label = "''2024-01''" and from_date = "''2024-01-30''"
                 and to_date = "''2024-02-01''" and month = None
                 and mrep = mrep and rep = rep and ?rep2.0 = rep2]
  note same1 = th [THEN conjunct1]
  note same2 = th [THEN conjunct2, THEN conjunct1]
  note same3 = th [THEN conjunct2, THEN conjunct2, THEN conjunct1]
  from th [THEN conjunct2, THEN conjunct2, THEN conjunct2, THEN conjunct1, rule_format, OF mrep]
  obtain start end' where
    "parse_month ''2024-01'' = Inr (start, end')"
    and c0: "\<forall>r \<in> set (mrep_rows mrep).
               m_overtime_minutes r
               = sum_list (map (\<lambda>a. int_or0 (a_overtime_minutes a))
                   (filter (\<lambda>a. a_employee_id a = Some (m_employee_id r)
                                 \<and> in_period start end' a \<and> accrues_overtime a)
                      (attendance demo_overtime_db)))"
    by blast
  with p3 have "start = Date 738886" "end' = Date 738916"
    by simp_all
  with c0 min have c:
    "m_overtime_minutes m
       = sum_list (map (\<lambda>a. int_or0 (a_overtime_minutes a))
           (filter (\<lambda>a. a_employee_id a = Some (m_employee_id m)
                         \<and> in_period (Date 738886) (Date 738916) a \<and> accrues_overtime a)
              (attendance demo_overtime_db)))"
    by blast
  from th [THEN conjunct2, THEN conjunct2, THEN conjunct2, THEN conjunct2, THEN conjunct1,
           rule_format, OF rep]
  obtain start end' where
    "parse_date ''2024-01-30'' ''from_date'' = Inr start"
    "parse_date ''2024-02-01'' ''to_date'' = Inr end'"
    and d0: "\<forall>r \<in> set (rrep_rows rep).
               r_overtime_minutes r
               = (\<Sum>i = toordinal start..toordinal end'.
                    accrued_minutes
                      (day_record (attendance demo_overtime_db) (r_employee_id r) (Date i)))"
    by blast
  with p1 p2 have "start = Date 738915" "end' = Date 738917"
    by simp_all
  with d0 rin have dd:
    "r_overtime_minutes r
       = (\<Sum>i = 738915..738917.
            accrued_minutes
              (day_record (attendance demo_overtime_db) (r_employee_id r) (Date i)))"
    by simp
  from th [THEN conjunct2, THEN conjunct2, THEN conjunct2, THEN conjunct2, THEN conjunct2,
           rule_format, OF rep2]
  obtain start end' where
    "parse_date ''2024-01-30'' ''from_date'' = Inr start"
    "parse_date ''2024-02-01'' ''to_date'' = Inr end'"
    and f0: "\<forall>q \<in> set (qrep_rows rep2).
               q_overtime_minutes q
               = (\<Sum>i = toordinal start..toordinal end'.
                    accrued_minutes
                      (day_record (attendance demo_overtime_db) (q_employee_id q) (Date i)))"
    by blast
  with p1 p2 have "start = Date 738915" "end' = Date 738917"
    by simp_all
  with f0 qin have ff:
    "q_overtime_minutes q
       = (\<Sum>i = 738915..738917.
            accrued_minutes
              (day_record (attendance demo_overtime_db) (q_employee_id q) (Date i)))"
    by simp
  have g1: "case payroll_report demo_env demo_overtime_db ''2024-01'' of
         Inl err \<Rightarrow> False
       | Inr rep \<Rightarrow>
           (case mrep_rows rep of
              [r] \<Rightarrow>
                m_overtime_minutes r = 120 \<and> m_overtime_pay r = 200
                \<and> m_overtime_minutes r
                    = sum_list (map (\<lambda>a. int_or0 (a_overtime_minutes a))
                        (filter (\<lambda>a. a_employee_id a = Some (m_employee_id r)
                                      \<and> in_period (Date 738886) (Date 738916) a
                                      \<and> accrues_overtime a)
                           (attendance demo_overtime_db)))
            | _ \<Rightarrow> False)"
    unfolding mrep sum.case m(1) list.case using m(2,3) c by blast
  have g2: "case payroll_range_report demo_env demo_overtime_db ''2024-01-30'' ''2024-02-01'' None of
         Inl err \<Rightarrow> False
       | Inr rep \<Rightarrow>
           (case rrep_rows rep of
              [r] \<Rightarrow>
                r_overtime_minutes r = 120 \<and> r_overtime_pay r = 200
                \<and> r_overtime_minutes r
                    = (\<Sum>i = 738915..738917.
                         accrued_minutes
                           (day_record (attendance demo_overtime_db) (r_employee_id r) (Date i)))
            | _ \<Rightarrow> False)"
    unfolding rep sum.case r(1) list.case using r(2,3) dd by blast
  have g3: "case payroll2_range_report demo_env demo_overtime_db ''2024-01-30'' ''2024-02-01'' None of
         Inl err \<Rightarrow> False
       | Inr rep \<Rightarrow>
           (case qrep_rows rep of
              [q] \<Rightarrow>
                q_overtime_minutes q = 120 \<and> q_overtime_pay q = 200
                \<and> q_overtime_minutes q
                    = (\<Sum>i = 738915..738917.
                         accrued_minutes
                           (day_record (attendance demo_overtime_db) (q_employee_id q) (Date i)))
            | _ \<Rightarrow> False)"
    unfolding rep2 sum.case q(1) list.case using q(2,3) ff by blast
  from a1 a2 same1 same2 same3 g1 g2 g3 show ?thesis
    by (intro conjI)
qed

end
